theory Spec2Isabelle
  imports Main "HOL-Library.AList" "HOL-Library.Sublist"
begin

section \<open>Values, errors and the book manager's state\<close>

text \<open>
  The repository holds two generations of the book pipeline.  The refactored one is
  \<^verbatim>\<open>src/core/createbook.mjs\<close> with its \<^verbatim>\<open>BookManager\<close> (\<^verbatim>\<open>book_manager.mjs\<close>),
  \<^verbatim>\<open>StateManager\<close> and \<^verbatim>\<open>FileHandler\<close>.  The older one is a single script that defines its own
  \<^verbatim>\<open>BookManager\<close>, the subclass \<^verbatim>\<open>BatchBookManager\<close> and the two controllers
  \<^verbatim>\<open>createBookWithBatch\<close> and \<^verbatim>\<open>createBookPageByPage\<close>.  Definitions that embed the single
  script carry the prefix \<open>legacy_\<close> where a name would otherwise clash.

  JavaScript exceptions are values of the type \<open>error\<close>.  A Node file-system error has a
  \<^verbatim>\<open>code\<close> property; the other errors have none.
\<close>

datatype error =
    FsError string
  | SyntaxError
  | TypeError string
  | ServiceError string
  | LanguageError string
  | CallbackError string

fun error_code :: "error \<Rightarrow> string option" where
  "error_code (FsError c) = Some c"
| "error_code _ = None"

text \<open>
  Dynamically typed JavaScript values, as far as the character table needs them: a
  character record is an object literal built from a spread of arbitrary parsed JSON and
  a \<^verbatim>\<open>Set\<close>.  Objects are association lists in property order.
\<close>

datatype jsval =
    JUndefined
  | JNull
  | JBool bool
  | JNum int
  | JStr string
  | JArr "jsval list"
  | JObj "(string \<times> jsval) list"
  | JSet "jsval list"

text \<open>
  \<open>json_clone v\<close> is \<^verbatim>\<open>JSON.parse(JSON.stringify(v))\<close> for a value inside an array or an
  object: a property whose value is \<^verbatim>\<open>undefined\<close> is dropped, \<^verbatim>\<open>undefined\<close> in an array
  becomes \<^verbatim>\<open>null\<close>, and a \<^verbatim>\<open>Set\<close> has no enumerable own properties, so it becomes \<^verbatim>\<open>{}\<close>.
\<close>

fun json_clone :: "jsval \<Rightarrow> jsval" where
  "json_clone (JArr xs) = JArr (map (\<lambda>x. if x = JUndefined then JNull else json_clone x) xs)"
| "json_clone (JObj kvs) =
     JObj (map (\<lambda>(k, v). (k, json_clone v)) (filter (\<lambda>(k, v). v \<noteq> JUndefined) kvs))"
| "json_clone (JSet xs) = JObj []"
| "json_clone v = v"

text \<open>The values that JSON can carry: no \<^verbatim>\<open>undefined\<close> and no \<^verbatim>\<open>Set\<close> at any depth.\<close>

fun json_serializable :: "jsval \<Rightarrow> bool" where
  "json_serializable JUndefined = False"
| "json_serializable (JSet xs) = False"
| "json_serializable (JArr xs) = list_all json_serializable xs"
| "json_serializable (JObj kvs) = list_all (\<lambda>(k, v). json_serializable v) kvs"
| "json_serializable v = True"

text \<open>Decimal text of a number, as a template literal prints it.\<close>

function show_nat :: "nat \<Rightarrow> string" where
  "show_nat n =
     (if n < 10 then [''0123456789'' ! n]
      else show_nat (n div 10) @ [''0123456789'' ! (n mod 10)])"
  by pat_completeness auto
termination
  by (relation "measure id") auto

declare show_nat.simps [simp del]

text \<open>
  The own enumerable properties that an object spread \<^verbatim>\<open>{...details}\<close> copies: the
  properties of an object, the indexed elements of an array, the indexed characters of a
  string, and nothing for any other value.
\<close>

fun own_props :: "jsval \<Rightarrow> (string \<times> jsval) list" where
  "own_props (JObj kvs) = kvs"
| "own_props (JArr xs) = zip (map show_nat [0..<length xs]) xs"
| "own_props (JStr s) = zip (map show_nat [0..<length s]) (map (\<lambda>c. JStr [c]) s)"
| "own_props v = []"

record progress =
  lastCompletedChapter :: nat
  lastCompletedPage :: nat
  status :: string

record metadata =
  coverImage :: "string option"
  info :: "(string \<times> string) list"

text \<open>
  The outline starts as the empty object \<^verbatim>\<open>{}\<close> and becomes the text the service returns.
\<close>

datatype outline = OutlineObject | OutlineText string

text \<open>
  \<^verbatim>\<open>bookContent\<close> is an object keyed by chapter number whose values are objects keyed by
  page number.  JavaScript keeps integer keys in ascending order, so the association
  lists are kept sorted by \<open>obj_put\<close>.
\<close>

type_synonym pages = "(nat \<times> string) list"
type_synonym content = "(nat \<times> pages) list"

fun obj_put :: "nat \<Rightarrow> 'v \<Rightarrow> (nat \<times> 'v) list \<Rightarrow> (nat \<times> 'v) list" where
  "obj_put k v [] = [(k, v)]"
| "obj_put k v ((k', v') # kvs) =
     (if k = k' then (k, v) # kvs
      else if k < k' then (k, v) # (k', v') # kvs
      else (k', v') # obj_put k v kvs)"

text \<open>One task of the batch file (\<^verbatim>\<open>createBatchTasks\<close>): its custom id and its user prompt.\<close>

record batch_task =
  custom_id :: string
  user_content :: string

text \<open>
  The fields that both \<^verbatim>\<open>BookManager\<close> classes share.  \<open>characters\<close> is a \<^verbatim>\<open>Map\<close> and
  \<open>plotPoints\<close> a \<^verbatim>\<open>Set\<close>, both in insertion order.
\<close>

record narrative =
  progressState :: progress
  characters :: "(string \<times> jsval) list"
  plotPoints :: "string list"
  bookContent :: content
  outline :: outline
  metadata :: metadata

text \<open>The \<^verbatim>\<open>BookManager\<close> of \<^verbatim>\<open>book_manager.mjs\<close>; \<open>statePath\<close> is its state manager's path.\<close>

record manager = narrative +
  bookName :: string
  outputPath :: string
  tempPath :: string
  statePath :: string

text \<open>The \<^verbatim>\<open>BookManager\<close> of the single script, with the fields of \<^verbatim>\<open>BatchBookManager\<close>.\<close>

record legacy_manager = narrative +
  currentChapter :: nat
  currentPage :: nat
  supportedLanguages :: "string list"
  currentLanguage :: string
  batchTasks :: "batch_task list"

text \<open>\<^verbatim>\<open>Set.prototype.add\<close>: a value already present keeps its place.\<close>

definition set_add :: "'a \<Rightarrow> 'a list \<Rightarrow> 'a list" where
  "set_add x xs = (if x \<in> set xs then xs else xs @ [x])"

text \<open>\<^verbatim>\<open>new Set(iterable)\<close> and \<^verbatim>\<open>new Map(iterable)\<close> add the elements one by one.\<close>

definition new_Set :: "'a list \<Rightarrow> 'a list" where
  "new_Set xs = foldl (\<lambda>s x. set_add x s) [] xs"

definition new_Map :: "('k \<times> 'v) list \<Rightarrow> ('k \<times> 'v) list" where
  "new_Map kvs = foldl (\<lambda>m (k, v). AList.update k v m) [] kvs"

subsection \<open>The character table\<close>

text \<open>
  \<^verbatim>\<open>addCharacter(name, details)\<close> of the single script:
  \<^verbatim>\<open>this.characters.set(name, {...details, firstAppearance: this.currentChapter,
  appearances: new Set([this.currentChapter])})\<close>.
\<close>

definition character_record :: "jsval \<Rightarrow> nat \<Rightarrow> (string \<times> jsval) list" where
  "character_record details chapter =
     AList.update ''appearances'' (JSet (new_Set [JNum (int chapter)]))
       (AList.update ''firstAppearance'' (JNum (int chapter)) (own_props details))"

definition addCharacter :: "string \<Rightarrow> jsval \<Rightarrow> legacy_manager \<Rightarrow> legacy_manager" where
  "addCharacter name details m =
     m\<lparr>characters :=
         AList.update name (JObj (character_record details (currentChapter m))) (characters m)\<rparr>"

section \<open>The outside world and programs that may throw\<close>

text \<open>
  The checkpoint object that \<^verbatim>\<open>saveState\<close> builds: \<^verbatim>\<open>{progress, characters, plotPoints,
  bookContent, outline, metadata}\<close>, with the \<^verbatim>\<open>Map\<close> as an array of entries and the \<^verbatim>\<open>Set\<close>
  as an array.
\<close>

record checkpoint =
  cp_progress :: progress
  cp_characters :: "(string \<times> jsval) list"
  cp_plotPoints :: "string list"
  cp_bookContent :: content
  cp_outline :: outline
  cp_metadata :: metadata

text \<open>
  What a file holds, or a value on its way into a file.  The documents stand for their
  JSON text; the \<^verbatim>\<open>timestamp\<close> of a page record is left out.  \<open>BufferDoc\<close> is the JSON text
  of a \<^verbatim>\<open>Buffer\<close> object, \<open>Buffer\<close> its raw bytes, \<open>Text\<close> any text that is not JSON.
\<close>

datatype file_content =
    StateDoc checkpoint
  | PageDoc nat nat string
  | ContentDoc content
  | OutlineDoc outline
  | MetadataDoc metadata
  | TasksDoc "batch_task list"
  | BufferDoc string
  | Buffer string
  | Text string

text \<open>
  Every operation on the outside world is a request: the file system, the generation
  service (\<^verbatim>\<open>openai.chat.completions.create\<close> with its system and user message,
  \<^verbatim>\<open>openai.images.generate\<close>, the batch endpoints), \<^verbatim>\<open>fetch\<close>, the document packer
  (\<^verbatim>\<open>Packer.toBuffer\<close> of a document given by its headings and texts), the wait of the
  polling loop and the caller's progress callback.
\<close>

datatype request =
    Mkdir string
  | WriteFile string file_content
  | ReadFile string
  | ChatCompletion string string
  | ImageGenerate string
  | Fetch string
  | PackDocx "(string \<times> string) list"
  | FilesCreate file_content
  | BatchesCreate string
  | BatchesRetrieve string
  | Timeout nat
  | ProgressCallback nat nat

text \<open>
  The environment answers the \<open>n\<close>-th request of a run with an error or a text (the
  completion, the image URL, the bytes, the job id, the job status); it may depend on
  everything that was asked before.  The remaining fields are built-ins of the language
  and the service taken as parameters: the JSON text of a JSON value, the parse of the
  metadata reply (\<open>None\<close> when it is not JSON) into its \<^verbatim>\<open>characters\<close> (name and details) and
  \<^verbatim>\<open>plotPoints\<close>, the \<^verbatim>\<open>output_file_id\<close> property of a batch job, and the reading of the clock
  (\<^verbatim>\<open>Date\<close>) after \<open>n\<close> requests.
\<close>

record env =
  respond :: "nat \<Rightarrow> request \<Rightarrow> error + string"
  json_text :: "jsval \<Rightarrow> string"
  parse_metadata :: "string \<Rightarrow> ((string \<times> jsval) list \<times> string list) option"
  output_file_id :: "string \<Rightarrow> string"
  clock :: "nat \<Rightarrow> string"

text \<open>
  The world of a run: the manager object (\<^verbatim>\<open>this\<close>), the files, and the requests made so
  far, oldest first.
\<close>

record 'm world =
  mgr :: 'm
  files :: "(string \<times> file_content) list"
  events :: "request list"

text \<open>
  An asynchronous function is a program: it ends with a value or with a thrown error,
  and in both cases leaves a world behind (a throw undoes nothing).
\<close>

type_synonym ('m, 'a) prog = "'m world \<Rightarrow> (error + 'a) \<times> 'm world"

definition ret :: "'a \<Rightarrow> ('m, 'a) prog" where
  "ret x = (\<lambda>w. (Inr x, w))"

definition raise :: "error \<Rightarrow> ('m, 'a) prog" where
  "raise e = (\<lambda>w. (Inl e, w))"

definition bnd :: "('m, 'a) prog \<Rightarrow> ('a \<Rightarrow> ('m, 'b) prog) \<Rightarrow> ('m, 'b) prog" where
  "bnd p f = (\<lambda>w. case p w of (Inl e, w') \<Rightarrow> (Inl e, w') | (Inr x, w') \<Rightarrow> f x w')"

definition try_catch :: "('m, 'a) prog \<Rightarrow> (error \<Rightarrow> ('m, 'a) prog) \<Rightarrow> ('m, 'a) prog" where
  "try_catch p h = (\<lambda>w. case p w of (Inl e, w') \<Rightarrow> h e w' | (Inr x, w') \<Rightarrow> (Inr x, w'))"

definition gets :: "('m \<Rightarrow> 'a) \<Rightarrow> ('m, 'a) prog" where
  "gets f = (\<lambda>w. (Inr (f (mgr w)), w))"

definition modify :: "('m \<Rightarrow> 'm) \<Rightarrow> ('m, unit) prog" where
  "modify f = (\<lambda>w. (Inr (), w\<lparr>mgr := f (mgr w)\<rparr>))"

text \<open>A \<^verbatim>\<open>for\<close> loop over the values \<open>xs\<close>; a throw in the body ends it.\<close>

fun for_each :: "'a list \<Rightarrow> ('a \<Rightarrow> ('m, unit) prog) \<Rightarrow> ('m, unit) prog" where
  "for_each [] body = ret ()"
| "for_each (x # xs) body = bnd (body x) (\<lambda>_. for_each xs body)"

definition perform :: "env \<Rightarrow> request \<Rightarrow> ('m, string) prog" where
  "perform env r = (\<lambda>w. (respond env (length (events w)) r, w\<lparr>events := events w @ [r]\<rparr>))"

subsection \<open>The file system\<close>

definition fs_mkdir :: "env \<Rightarrow> string \<Rightarrow> ('m, unit) prog" where
  "fs_mkdir env dir = bnd (perform env (Mkdir dir)) (\<lambda>_. ret ())"

definition fs_writeFile :: "env \<Rightarrow> string \<Rightarrow> file_content \<Rightarrow> ('m, unit) prog" where
  "fs_writeFile env path c =
     bnd (perform env (WriteFile path c))
       (\<lambda>_ w. (Inr (), w\<lparr>files := AList.update path c (files w)\<rparr>))"

definition fs_readFile :: "env \<Rightarrow> string \<Rightarrow> ('m, file_content) prog" where
  "fs_readFile env path =
     bnd (perform env (ReadFile path))
       (\<lambda>_ w. case map_of (files w) path of
                 None \<Rightarrow> (Inl (FsError ''ENOENT''), w)
               | Some c \<Rightarrow> (Inr c, w))"

text \<open>
  \<^verbatim>\<open>JSON.stringify\<close> of a value on its way into a file: the character records of a
  checkpoint are serialised by \<open>json_clone\<close>, a \<^verbatim>\<open>Buffer\<close> becomes the JSON text of the
  buffer object.  \<^verbatim>\<open>JSON.parse\<close> reads a document back and rejects anything else.
\<close>

fun JSON_stringify :: "file_content \<Rightarrow> file_content" where
  "JSON_stringify (StateDoc cp) =
     StateDoc (cp\<lparr>cp_characters := map (\<lambda>(name, r). (name, json_clone r)) (cp_characters cp)\<rparr>)"
| "JSON_stringify (Buffer b) = BufferDoc b"
| "JSON_stringify c = c"

fun JSON_parse :: "file_content \<Rightarrow> ('m, file_content) prog" where
  "JSON_parse (Buffer b) = raise SyntaxError"
| "JSON_parse (Text t) = raise SyntaxError"
| "JSON_parse c = ret c"

fun is_object :: "file_content \<Rightarrow> bool" where
  "is_object (Text t) = False"
| "is_object c = True"

text \<open>\<^verbatim>\<open>path.dirname\<close> for the relative paths the program builds.\<close>

definition dirname :: "string \<Rightarrow> string" where
  "dirname p =
     (let d = rev (drop 1 (dropWhile (\<lambda>c. c \<noteq> CHR ''/'') (rev p)))
      in if d = [] then ''.'' else d)"

subsection \<open>\<^verbatim>\<open>FileHandler\<close> and \<^verbatim>\<open>StateManager\<close>\<close>

text \<open>Each method logs and rethrows what it catches.\<close>

definition FileHandler_createDirectory :: "env \<Rightarrow> string \<Rightarrow> ('m, unit) prog" where
  "FileHandler_createDirectory env dirPath =
     try_catch (fs_mkdir env dirPath) (\<lambda>error. raise error)"

definition FileHandler_writeFile :: "env \<Rightarrow> string \<Rightarrow> file_content \<Rightarrow> ('m, unit) prog" where
  "FileHandler_writeFile env filePath c =
     try_catch
       (bnd (FileHandler_createDirectory env (dirname filePath)) (\<lambda>_.
          fs_writeFile env filePath (if is_object c then JSON_stringify c else c)))
       (\<lambda>error. raise error)"

definition FileHandler_readFile :: "env \<Rightarrow> string \<Rightarrow> bool \<Rightarrow> ('m, file_content) prog" where
  "FileHandler_readFile env filePath parseJson =
     try_catch
       (bnd (fs_readFile env filePath) (\<lambda>c. if parseJson then JSON_parse c else ret c))
       (\<lambda>error. raise error)"

definition StateManager_saveState :: "env \<Rightarrow> string \<Rightarrow> file_content \<Rightarrow> ('m, unit) prog" where
  "StateManager_saveState env path state =
     try_catch (FileHandler_writeFile env path state) (\<lambda>error. raise error)"

text \<open>\<open>None\<close> is the \<^verbatim>\<open>null\<close> that \<^verbatim>\<open>loadState\<close> returns when the file does not exist.\<close>

definition StateManager_loadState :: "env \<Rightarrow> string \<Rightarrow> ('m, file_content option) prog" where
  "StateManager_loadState env path =
     try_catch
       (bnd (FileHandler_readFile env path True) (\<lambda>c. ret (Some c)))
       (\<lambda>error. if error_code error = Some ''ENOENT'' then ret None else raise error)"

section \<open>The refactored pipeline: \<^verbatim>\<open>book_manager.mjs\<close> and \<^verbatim>\<open>createbook.mjs\<close>\<close>

definition BookManager :: "string \<Rightarrow> manager" where
  "BookManager name =
     \<lparr>progressState = \<lparr>lastCompletedChapter = 0, lastCompletedPage = 0, status = ''not_started''\<rparr>,
      characters = [], plotPoints = [], bookContent = [], outline = OutlineObject,
      metadata = \<lparr>coverImage = None, info = []\<rparr>,
      bookName = name,
      outputPath = ''output/books/'' @ name,
      tempPath = ''temp'',
      statePath = ''output/books/'' @ name @ ''/metadata/book_state.json''\<rparr>"

definition ensureDirectories :: "env \<Rightarrow> (manager, unit) prog" where
  "ensureDirectories env =
     bnd (gets (\<lambda>m. [outputPath m @ ''/chapters'', outputPath m @ ''/compiled'',
                      outputPath m @ ''/metadata'', outputPath m @ ''/assets'', tempPath m]))
       (\<lambda>dirs. for_each dirs (\<lambda>dir. FileHandler_createDirectory env dir))"

definition page_heading :: "nat \<Rightarrow> nat \<Rightarrow> string" where
  "page_heading chapter page = ''Chapter '' @ show_nat chapter @ '', Page '' @ show_nat page"

definition createDocxDocument :: "env \<Rightarrow> string \<Rightarrow> nat \<Rightarrow> nat \<Rightarrow> ('m, string) prog" where
  "createDocxDocument env c chapter page = perform env (PackDocx [(page_heading chapter page, c)])"

text \<open>The object literal \<^verbatim>\<open>state\<close> of \<^verbatim>\<open>saveState\<close>, in both classes.\<close>

definition snapshot :: "'a narrative_scheme \<Rightarrow> checkpoint" where
  "snapshot m =
     \<lparr>cp_progress = progressState m, cp_characters = characters m, cp_plotPoints = plotPoints m,
      cp_bookContent = bookContent m, cp_outline = outline m, cp_metadata = metadata m\<rparr>"

definition saveState :: "env \<Rightarrow> (manager, unit) prog" where
  "saveState env =
     bnd (gets (\<lambda>m. m)) (\<lambda>m. StateManager_saveState env (statePath m) (StateDoc (snapshot m)))"

text \<open>
  \<^verbatim>\<open>saveProgress(content, chapter, page)\<close>: the page record, the page document, then the
  progress cursor, then \<^verbatim>\<open>saveState\<close>.
\<close>

definition saveProgress :: "env \<Rightarrow> string \<Rightarrow> nat \<Rightarrow> nat \<Rightarrow> (manager, unit) prog" where
  "saveProgress env c chapter page =
     bnd (ensureDirectories env) (\<lambda>_.
     bnd (gets (\<lambda>m. outputPath m @ ''/chapters/chapter'' @ show_nat chapter)) (\<lambda>chapterDir.
     bnd (FileHandler_createDirectory env chapterDir) (\<lambda>_.
     bnd (FileHandler_writeFile env (chapterDir @ ''/page'' @ show_nat page @ ''.json'')
            (PageDoc chapter page c)) (\<lambda>_.
     bnd (createDocxDocument env c chapter page) (\<lambda>doc.
     bnd (FileHandler_writeFile env (chapterDir @ ''/page'' @ show_nat page @ ''.docx'')
            (Buffer doc)) (\<lambda>_.
     bnd (modify (\<lambda>m. m\<lparr>progressState :=
            (progressState m)\<lparr>lastCompletedChapter := chapter, lastCompletedPage := page,
                               status := ''in_progress''\<rparr>\<rparr>)) (\<lambda>_.
     saveState env)))))))"

text \<open>
  \<^verbatim>\<open>loadState\<close> assigns the fields of the parsed checkpoint and returns \<^verbatim>\<open>true\<close>; it returns
  \<^verbatim>\<open>false\<close> when the state manager returned \<^verbatim>\<open>null\<close>.  A JSON document of another shape has none
  of the fields (the run then fails at \<^verbatim>\<open>metadata.coverImage\<close>); it is a \<open>TypeError\<close> here.
\<close>

definition loadState :: "env \<Rightarrow> (manager, bool) prog" where
  "loadState env =
     bnd (gets statePath) (\<lambda>path.
     bnd (StateManager_loadState env path) (\<lambda>state.
       case state of
         None \<Rightarrow> ret False
       | Some (StateDoc cp) \<Rightarrow>
           bnd (modify (\<lambda>m. m\<lparr>progressState := cp_progress cp,
                                characters := new_Map (cp_characters cp),
                                plotPoints := new_Set (cp_plotPoints cp),
                                bookContent := cp_bookContent cp,
                                outline := cp_outline cp,
                                metadata := cp_metadata cp\<rparr>)) (\<lambda>_. ret True)
       | Some _ \<Rightarrow> raise (TypeError ''state is not a checkpoint'')))"

definition compileJSON :: "env \<Rightarrow> (manager, string) prog" where
  "compileJSON env =
     bnd (gets (\<lambda>m. outputPath m @ ''/compiled/complete.json'')) (\<lambda>compiledPath.
     bnd (gets bookContent) (\<lambda>bc.
     bnd (FileHandler_writeFile env compiledPath (ContentDoc bc)) (\<lambda>_.
     ret compiledPath)))"

definition compileDOCX :: "env \<Rightarrow> (manager, string) prog" where
  "compileDOCX env =
     bnd (gets (\<lambda>m. outputPath m @ ''/compiled/complete.docx'')) (\<lambda>compiledPath.
     bnd (gets bookContent) (\<lambda>bc.
     bnd (perform env (PackDocx (concat (map (\<lambda>(chapter, ps).
            map (\<lambda>(page, c). (page_heading chapter page, c)) ps) bc)))) (\<lambda>buffer.
     bnd (FileHandler_writeFile env compiledPath (Buffer buffer)) (\<lambda>_.
     ret compiledPath))))"

definition compileBook :: "env \<Rightarrow> (manager, string \<times> string) prog" where
  "compileBook env =
     bnd (ensureDirectories env) (\<lambda>_.
     bnd (compileJSON env) (\<lambda>json.
     bnd (compileDOCX env) (\<lambda>docx.
     ret (json, docx))))"

text \<open>
  \<^verbatim>\<open>saveCoverImage\<close>: \<^verbatim>\<open>book_manager.mjs\<close> imports no \<^verbatim>\<open>fetch\<close>, so the call is to the global
  \<^verbatim>\<open>fetch\<close>, whose \<^verbatim>\<open>Response\<close> has no method \<^verbatim>\<open>buffer\<close>: once the request is answered,
  \<^verbatim>\<open>response.buffer()\<close> is a \<open>TypeError\<close>, and the cover file is never written.
\<close>

definition response_buffer :: "string \<Rightarrow> ('m, string) prog" where
  "response_buffer response = raise (TypeError ''response.buffer is not a function'')"

definition saveCoverImage :: "env \<Rightarrow> string \<Rightarrow> (manager, string) prog" where
  "saveCoverImage env imageUrl =
     bnd (perform env (Fetch imageUrl)) (\<lambda>response.
     bnd (response_buffer response) (\<lambda>buffer.
     bnd (gets (\<lambda>m. outputPath m @ ''/assets/cover.png'')) (\<lambda>path.
     bnd (FileHandler_writeFile env path (Buffer buffer)) (\<lambda>_.
     ret path))))"

text \<open>
  \<^verbatim>\<open>!x\<close> for a property that is absent or a string: absent and the empty string are falsy.
\<close>

definition falsy :: "string option \<Rightarrow> bool" where
  "falsy v = (case v of None \<Rightarrow> True | Some s \<Rightarrow> s = [])"

text \<open>The outline inside a template literal: an object prints as \<^verbatim>\<open>[object Object]\<close>.\<close>

fun outline_text :: "outline \<Rightarrow> string" where
  "outline_text OutlineObject = ''[object Object]''"
| "outline_text (OutlineText t) = t"

text \<open>
  \<^verbatim>\<open>bookContent[chapter][page] = pageContent\<close>, after creating \<^verbatim>\<open>bookContent[chapter]\<close> when it
  is missing.
\<close>

definition record_page :: "nat \<Rightarrow> nat \<Rightarrow> string \<Rightarrow> content \<Rightarrow> content" where
  "record_page chapter page c bc =
     obj_put chapter (obj_put page c (case map_of bc chapter of None \<Rightarrow> [] | Some ps \<Rightarrow> ps)) bc"

definition writer_system :: string where
  "writer_system = ''You are a professional book writer.''"

definition outliner_system :: string where
  "outliner_system = ''You are a professional book outliner.''"

definition page_prompt :: "nat \<Rightarrow> nat \<Rightarrow> outline \<Rightarrow> string" where
  "page_prompt chapter page ol =
     ''Write page '' @ show_nat page @ '' of chapter '' @ show_nat chapter
       @ ''. Use the following outline as context: '' @ outline_text ol"

definition coverPrompt :: "string \<Rightarrow> string" where
  "coverPrompt theme = ''Create a professional book cover for: '' @ theme"

definition outlinePrompt :: "string \<Rightarrow> string" where
  "outlinePrompt theme =
     ''Create a detailed outline for a book with the following theme: '' @ theme"

text \<open>
  The body of the inner loop of \<^verbatim>\<open>createBookPageByPage\<close>: the callback when there is one,
  the completion, \<^verbatim>\<open>saveProgress\<close>, and only then the update of \<^verbatim>\<open>bookContent\<close>.
\<close>

definition page_iteration :: "env \<Rightarrow> bool \<Rightarrow> nat \<Rightarrow> nat \<Rightarrow> (manager, unit) prog" where
  "page_iteration env progressCallback chapter page =
     bnd (if progressCallback
          then bnd (perform env (ProgressCallback chapter page)) (\<lambda>_. ret ())
          else ret ()) (\<lambda>_.
     bnd (gets (\<lambda>m. page_prompt chapter page (outline m))) (\<lambda>prompt.
     bnd (perform env (ChatCompletion writer_system prompt)) (\<lambda>pageContent.
     bnd (saveProgress env pageContent chapter page) (\<lambda>_.
     modify (\<lambda>m. m\<lparr>bookContent := record_page chapter page pageContent (bookContent m)\<rparr>)))))"

definition chapter_iteration :: "env \<Rightarrow> bool \<Rightarrow> nat \<Rightarrow> nat \<Rightarrow> (manager, unit) prog" where
  "chapter_iteration env progressCallback pagesPerChapter chapter =
     bnd (for_each [1..<Suc pagesPerChapter] (\<lambda>page.
            page_iteration env progressCallback chapter page)) (\<lambda>_.
     saveState env)"

record book_result =
  r_outline :: outline
  r_coverImage :: "string option"
  r_compiledBook :: "string \<times> string"
  r_metadata :: metadata
  r_outputPath :: string

text \<open>
  The \<^verbatim>\<open>try\<close> block of \<^verbatim>\<open>createBookPageByPage\<close>, block by block: resume or create the
  outline, generate the cover, generate the chapters page by page, compile the book.
\<close>

definition resume_or_outline :: "env \<Rightarrow> string \<Rightarrow> (manager, unit) prog" where
  "resume_or_outline env theme =
     bnd (loadState env) (\<lambda>hasState.
     if hasState then ret ()
     else bnd (perform env (ChatCompletion outliner_system (outlinePrompt theme)))
            (\<lambda>text. modify (\<lambda>m. m\<lparr>outline := OutlineText text\<rparr>)))"

definition generate_cover :: "env \<Rightarrow> string \<Rightarrow> (manager, unit) prog" where
  "generate_cover env theme =
     bnd (gets (\<lambda>m. coverImage (metadata m))) (\<lambda>cover.
     if falsy cover
     then bnd (perform env (ImageGenerate (coverPrompt theme))) (\<lambda>url.
          bnd (modify (\<lambda>m. m\<lparr>metadata := (metadata m)\<lparr>coverImage := Some url\<rparr>\<rparr>)) (\<lambda>_.
          bnd (saveCoverImage env url) (\<lambda>_. ret ())))
     else ret ())"

definition generate_chapters :: "env \<Rightarrow> nat \<Rightarrow> nat \<Rightarrow> bool \<Rightarrow> (manager, unit) prog" where
  "generate_chapters env chapters pagesPerChapter progressCallback =
     bnd (gets (\<lambda>m. lastCompletedChapter (progressState m) + 1)) (\<lambda>startChapter.
     for_each [startChapter..<Suc chapters] (\<lambda>chapter.
       chapter_iteration env progressCallback pagesPerChapter chapter))"

definition compile_final_book :: "env \<Rightarrow> (manager, book_result) prog" where
  "compile_final_book env =
     bnd (compileBook env) (\<lambda>compiledBook.
     gets (\<lambda>m. \<lparr>r_outline = outline m, r_coverImage = coverImage (metadata m),
                 r_compiledBook = compiledBook, r_metadata = metadata m,
                 r_outputPath = outputPath m\<rparr>))"

definition createBookPageByPage_try ::
  "env \<Rightarrow> string \<Rightarrow> nat \<Rightarrow> nat \<Rightarrow> bool \<Rightarrow> (manager, book_result) prog" where
  "createBookPageByPage_try env theme chapters pagesPerChapter progressCallback =
     bnd (ensureDirectories env) (\<lambda>_.
     bnd (resume_or_outline env theme) (\<lambda>_.
     bnd (generate_cover env theme) (\<lambda>_.
     bnd (generate_chapters env chapters pagesPerChapter progressCallback) (\<lambda>_.
     compile_final_book env))))"

text \<open>
  \<^verbatim>\<open>createBookPageByPage(theme, chapters, pagesPerChapter, progressCallback, bookName)\<close>: a
  new manager, the \<^verbatim>\<open>try\<close> block, and the \<^verbatim>\<open>catch\<close> that saves the state and rethrows.
\<close>

definition createBookPageByPage ::
  "env \<Rightarrow> string \<Rightarrow> nat \<Rightarrow> nat \<Rightarrow> bool \<Rightarrow> string \<Rightarrow> (manager, book_result) prog" where
  "createBookPageByPage env theme chapters pagesPerChapter progressCallback name =
     (\<lambda>w. try_catch
             (createBookPageByPage_try env theme chapters pagesPerChapter progressCallback)
             (\<lambda>error. bnd (saveState env) (\<lambda>_. raise error))
             (w\<lparr>mgr := BookManager name\<rparr>))"

section \<open>The single script: \<^verbatim>\<open>BookManager\<close>, \<^verbatim>\<open>BatchBookManager\<close> and the two controllers\<close>

definition systemPrompt :: string where
  "systemPrompt =
     ''You are an advanced AI book writer assistant specialized in creating long-form chapter books.\<newline>''
     @ ''Your capabilities include:\<newline>''
     @ ''- Creating detailed book outlines\<newline>''
     @ ''- Writing complete chapters\<newline>''
     @ ''- Maintaining consistency across the narrative\<newline>''
     @ ''- Handling document merging and page numbering\<newline>''
     @ ''- Creating vivid story descriptions\<newline>''
     @ ''- Working with existing manuscripts to continue the story\<newline>''
     @ ''\<newline>''
     @ ''Please analyze any provided manuscript deeply before continuing the story.\<newline>''
     @ ''When GPT-4 limits are reached, save progress and use prompt #2 (LET'S FINISH MY BOOK''
     @ [CHR 0xE2, CHR 0xAD, CHR 0x90] @ '') to continue later.''"

text \<open>The constructor; \<open>createdDate\<close> is the reading of the clock.\<close>

definition LegacyBookManager :: "string \<Rightarrow> legacy_manager" where
  "LegacyBookManager createdDate =
     \<lparr>progressState = \<lparr>lastCompletedChapter = 0, lastCompletedPage = 0, status = ''not_started''\<rparr>,
      characters = [], plotPoints = [], bookContent = [], outline = OutlineObject,
      metadata = \<lparr>coverImage = None,
                   info = [(''title'', ''Drake Legacy''), (''author'', ''AI Writer''),
                           (''genre'', ''Urban Fantasy''),
                           (''targetAudience'', ''Young Adult/Adult''),
                           (''createdDate'', createdDate)]\<rparr>,
      currentChapter = 1, currentPage = 1,
      supportedLanguages = [''en'', ''es'', ''fr'', ''de'', ''it'', ''ja'', ''zh''],
      currentLanguage = ''en'',
      batchTasks = []\<rparr>"

text \<open>
  The methods that the class body of \<^verbatim>\<open>BookManager\<close> defines, in the order of the script.
\<close>

definition BookManager_methods :: "string list" where
  "BookManager_methods =
     [''constructor'', ''initialize'', ''saveProgress'', ''saveAsDocx'',
      ''formatContentWithStyles'', ''isDialogue'', ''isSceneBreak'', ''getChapterSubtitle'',
      ''loadProgress'', ''compileBook'', ''createOutline'', ''continueStory'',
      ''exportToFormat'', ''saveMetadata'', ''loadMetadata'', ''saveState'', ''loadState'',
      ''addCharacter'', ''checkConsistency'', ''editAndProofread'', ''translateContent'',
      ''formatContent'', ''formatHTML'', ''generatePage'', ''extractMetadata'',
      ''generateChapterPages'', ''saveOutline'', ''generateTableOfContents'',
      ''generateTocEntries'', ''initializeBookMetadata'']"

definition page_file :: "nat \<Rightarrow> nat \<Rightarrow> string \<Rightarrow> string" where
  "page_file chapter page ext =
     ''chapter'' @ show_nat chapter @ ''_page'' @ show_nat page @ ext"

text \<open>
  \<^verbatim>\<open>saveAsDocx\<close> packs a title section (the chapter and its subtitle, which is empty for an
  outline that is a text or \<^verbatim>\<open>{}\<close>) and a content section.
\<close>

definition saveAsDocx :: "env \<Rightarrow> string \<Rightarrow> nat \<Rightarrow> nat \<Rightarrow> (legacy_manager, unit) prog" where
  "saveAsDocx env c chapter page =
     bnd (perform env (PackDocx [(''Chapter '' @ show_nat chapter, []),
                                 (''Page '' @ show_nat page, c)])) (\<lambda>buffer.
     fs_writeFile env (page_file chapter page ''.docx'') (Buffer buffer))"

text \<open>
  \<^verbatim>\<open>saveProgress\<close> of the single script writes the two page files and leaves
  \<^verbatim>\<open>progressState\<close> alone.
\<close>

definition legacy_saveProgress ::
  "env \<Rightarrow> string \<Rightarrow> nat \<Rightarrow> nat \<Rightarrow> (legacy_manager, unit) prog" where
  "legacy_saveProgress env c chapter page =
     bnd (fs_writeFile env (page_file chapter page ''.json'')
            (JSON_stringify (PageDoc chapter page c))) (\<lambda>_.
     saveAsDocx env c chapter page)"

text \<open>\<^verbatim>\<open>loadProgress\<close> returns \<^verbatim>\<open>null\<close> for every failure.\<close>

definition loadProgress :: "env \<Rightarrow> nat \<Rightarrow> nat \<Rightarrow> (legacy_manager, file_content option) prog" where
  "loadProgress env chapter page =
     try_catch
       (bnd (fs_readFile env (page_file chapter page ''.json'')) (\<lambda>data.
        bnd (JSON_parse data) (\<lambda>d. ret (Some d))))
       (\<lambda>error. ret None)"

text \<open>The \<^verbatim>\<open>content\<close> property of a parsed document, printed by \<^verbatim>\<open>join\<close>.\<close>

fun doc_content :: "file_content \<Rightarrow> string" where
  "doc_content (PageDoc chapter page c) = c"
| "doc_content d = []"

fun join :: "string \<Rightarrow> string list \<Rightarrow> string" where
  "join sep [] = []"
| "join sep [x] = x"
| "join sep (x # y # ys) = x @ sep @ join sep (y # ys)"

definition legacy_saveState :: "env \<Rightarrow> (legacy_manager, unit) prog" where
  "legacy_saveState env =
     bnd (gets (\<lambda>m. m)) (\<lambda>m.
     fs_writeFile env ''book_state.json'' (JSON_stringify (StateDoc (snapshot m))))"

text \<open>
  \<^verbatim>\<open>loadState\<close> of the single script returns \<^verbatim>\<open>false\<close> for every failure.  (A JSON document
  that is not a checkpoint is outside the typed state; it counts as a failure here.)
\<close>

definition legacy_loadState :: "env \<Rightarrow> (legacy_manager, bool) prog" where
  "legacy_loadState env =
     try_catch
       (bnd (fs_readFile env ''book_state.json'') (\<lambda>data.
        bnd (JSON_parse data) (\<lambda>state.
          case state of
            StateDoc cp \<Rightarrow>
              bnd (modify (\<lambda>m. m\<lparr>progressState := cp_progress cp,
                                   characters := new_Map (cp_characters cp),
                                   plotPoints := new_Set (cp_plotPoints cp),
                                   bookContent := cp_bookContent cp,
                                   outline := cp_outline cp,
                                   metadata := cp_metadata cp\<rparr>)) (\<lambda>_. ret True)
          | _ \<Rightarrow> raise (TypeError ''state is not a checkpoint''))))
       (\<lambda>error. ret False)"

definition saveMetadata :: "env \<Rightarrow> (legacy_manager, unit) prog" where
  "saveMetadata env =
     bnd (gets metadata) (\<lambda>md.
     fs_writeFile env ''book_metadata.json'' (JSON_stringify (MetadataDoc md)))"

definition saveOutline :: "env \<Rightarrow> (legacy_manager, unit) prog" where
  "saveOutline env =
     try_catch
       (bnd (gets outline) (\<lambda>ol.
        fs_writeFile env ''book_outline.json'' (JSON_stringify (OutlineDoc ol))))
       (\<lambda>error. ret ())"

definition legacy_outlinePrompt :: "string \<Rightarrow> nat \<Rightarrow> string" where
  "legacy_outlinePrompt theme len =
     ''Create a detailed book outline for a '' @ show_nat len
     @ ''-chapter book about '' @ theme @ ''. \<newline>''
     @ ''                             Include chapter summaries and key plot points.''"

definition createOutline :: "env \<Rightarrow> string \<Rightarrow> nat \<Rightarrow> (legacy_manager, outline) prog" where
  "createOutline env theme len =
     bnd (perform env (ChatCompletion systemPrompt (legacy_outlinePrompt theme len)))
       (\<lambda>text.
     bnd (modify (\<lambda>m. m\<lparr>outline := OutlineText text\<rparr>)) (\<lambda>_.
     bnd (saveOutline env) (\<lambda>_.
     gets outline)))"

text \<open>The JSON value of \<^verbatim>\<open>Array.from(this.characters.entries())\<close>, of the plot points and of
  \<^verbatim>\<open>bookContent\<close>; \<^verbatim>\<open>JSON.stringify\<close> is the text of the serialised value.\<close>

definition characters_value :: "(string \<times> jsval) list \<Rightarrow> jsval" where
  "characters_value cs = JArr (map (\<lambda>(name, r). JArr [JStr name, r]) cs)"

definition plotPoints_value :: "string list \<Rightarrow> jsval" where
  "plotPoints_value ps = JArr (map JStr ps)"

definition content_value :: "content \<Rightarrow> jsval" where
  "content_value bc =
     JObj (map (\<lambda>(chapter, ps).
       (show_nat chapter, JObj (map (\<lambda>(page, c). (show_nat page, JStr c)) ps))) bc)"

definition stringify :: "env \<Rightarrow> jsval \<Rightarrow> string" where
  "stringify env v = json_text env (json_clone v)"

text \<open>
  \<^verbatim>\<open>this.outline[chapterNum] || 'No outline available'\<close>: indexing a text gives the character
  at that position, indexing \<^verbatim>\<open>{}\<close> or past the end gives \<^verbatim>\<open>undefined\<close>.
\<close>

fun outline_excerpt :: "outline \<Rightarrow> nat \<Rightarrow> string" where
  "outline_excerpt OutlineObject chapterNum = ''No outline available''"
| "outline_excerpt (OutlineText t) chapterNum =
     (if chapterNum < length t then [t ! chapterNum] else ''No outline available'')"

definition pagePrompt :: "env \<Rightarrow> legacy_manager \<Rightarrow> nat \<Rightarrow> nat \<Rightarrow> string \<Rightarrow> string" where
  "pagePrompt env m chapterNum pageNum previousPages =
     ''\<newline>            You are writing page '' @ show_nat pageNum
     @ '' of chapter '' @ show_nat chapterNum
     @ ''.\<newline>            \<newline>            Context from previous pages:\<newline>            ''
     @ previousPages
     @ ''\<newline>            \<newline>            Current outline for this chapter:\<newline>            ''
     @ outline_excerpt (outline m) chapterNum
     @ ''\<newline>            \<newline>            Known characters:\<newline>            ''
     @ stringify env (characters_value (characters m))
     @ ''\<newline>            \<newline>            Important plot points:\<newline>            ''
     @ stringify env (plotPoints_value (plotPoints m))
     @ ''\<newline>            \<newline>            Write the next page maintaining consistency with the story. \<newline>''
     @ ''            Each page should be approximately 500 words.\<newline>''
     @ ''            End the page at a natural break point.\<newline>''
     @ ''            \<newline>''
     @ ''            Format the response as a single page of prose.\<newline>        ''"

definition generatePage :: "env \<Rightarrow> nat \<Rightarrow> nat \<Rightarrow> string \<Rightarrow> (legacy_manager, string) prog" where
  "generatePage env chapterNum pageNum previousPages =
     bnd (gets (\<lambda>m. pagePrompt env m chapterNum pageNum previousPages)) (\<lambda>prompt.
     perform env (ChatCompletion systemPrompt prompt))"

definition extractor_system :: string where
  "extractor_system = ''You are a metadata extractor. Always respond with valid JSON.''"

definition metadataPrompt :: "string \<Rightarrow> string" where
  "metadataPrompt c =
     ''\<newline>                Analyze this text and extract:\<newline>''
     @ ''                1. Any new characters introduced\<newline>''
     @ ''                2. Important plot points\<newline>''
     @ ''                3. Key story developments\<newline>''
     @ ''                \<newline>''
     @ ''                Format the response as valid JSON with this structure:\<newline>''
     @ ''                {\<newline>''
     @ ''                    \"characters\": [\<newline>''
     @ ''                        {\"name\": \"character name\", \"details\": \"character description\"}\<newline>''
     @ ''                    ],\<newline>''
     @ ''                    \"plotPoints\": [\"plot point 1\", \"plot point 2\"],\<newline>''
     @ ''                    \"storyDevelopments\": [\"development 1\", \"development 2\"]\<newline>''
     @ ''                }\<newline>''
     @ ''                \<newline>''
     @ ''                Text to analyze: '' @ c @ ''\<newline>            ''"

text \<open>
  \<^verbatim>\<open>extractMetadata\<close>: a reply that does not parse counts as empty metadata, and every other
  failure is caught as well.
\<close>

definition extractMetadata :: "env \<Rightarrow> string \<Rightarrow> (legacy_manager, unit) prog" where
  "extractMetadata env c =
     try_catch
       (bnd (perform env (ChatCompletion extractor_system (metadataPrompt c))) (\<lambda>reply.
        bnd (ret (case parse_metadata env reply of None \<Rightarrow> ([], []) | Some md \<Rightarrow> md))
          (\<lambda>md.
        bnd (for_each (fst md) (\<lambda>(name, details). modify (addCharacter name details))) (\<lambda>_.
        for_each (snd md) (\<lambda>point.
          modify (\<lambda>m. m\<lparr>plotPoints := set_add point (plotPoints m)\<rparr>))))))
       (\<lambda>error. ret ())"

text \<open>The loop that collects the earlier pages of the chapter from their files.\<close>

fun previous_pages :: "env \<Rightarrow> nat \<Rightarrow> nat list \<Rightarrow> (legacy_manager, string list) prog" where
  "previous_pages env chapter [] = ret []"
| "previous_pages env chapter (p # ps) =
     bnd (loadProgress env chapter p) (\<lambda>prevPage.
     bnd (previous_pages env chapter ps) (\<lambda>rest.
     ret (case prevPage of None \<Rightarrow> rest | Some d \<Rightarrow> doc_content d # rest)))"

definition generate_page_step :: "env \<Rightarrow> nat \<Rightarrow> nat \<Rightarrow> (legacy_manager, unit) prog" where
  "generate_page_step env chapter page =
     bnd (previous_pages env chapter [1..<page]) (\<lambda>previousPages.
     bnd (generatePage env chapter page (join ''\<newline>'' previousPages)) (\<lambda>pageContent.
     bnd (legacy_saveProgress env pageContent chapter page) (\<lambda>_.
     bnd (modify (\<lambda>m. m\<lparr>bookContent := record_page chapter page pageContent (bookContent m)\<rparr>))
       (\<lambda>_.
     extractMetadata env pageContent))))"

definition generateChapterPages :: "env \<Rightarrow> nat \<Rightarrow> nat \<Rightarrow> (legacy_manager, unit) prog" where
  "generateChapterPages env chapter pagesPerChapter =
     try_catch
       (for_each [1..<Suc pagesPerChapter] (\<lambda>page. generate_page_step env chapter page))
       (\<lambda>error. raise error)"

definition generateTableOfContents :: "env \<Rightarrow> (legacy_manager, unit) prog" where
  "generateTableOfContents env =
     bnd (gets bookContent) (\<lambda>bc.
     bnd (perform env (PackDocx ((''Table of Contents'', []) #
            map (\<lambda>(chapter, ps). (''Chapter '' @ show_nat chapter @ '': '', show_nat chapter)) bc)))
       (\<lambda>buffer.
     fs_writeFile env ''table_of_contents.docx'' (Buffer buffer)))"

definition legacy_compileBook :: "env \<Rightarrow> (legacy_manager, string \<times> string) prog" where
  "legacy_compileBook env =
     bnd (generateTableOfContents env) (\<lambda>_.
     bnd (gets bookContent) (\<lambda>bc.
     bnd (fs_writeFile env ''complete_book.json'' (JSON_stringify (ContentDoc bc))) (\<lambda>_.
     bnd (perform env (PackDocx (concat (map (\<lambda>(chapter, ps).
            map (\<lambda>(page, c). (page_heading chapter page, c)) ps) bc)))) (\<lambda>buffer.
     bnd (fs_writeFile env ''complete_book.docx'' (Buffer buffer)) (\<lambda>_.
     ret (''complete_book.json'', ''complete_book.docx''))))))"

definition generateStoryImage :: "env \<Rightarrow> string \<Rightarrow> ('m, string) prog" where
  "generateStoryImage env prompt = perform env (ImageGenerate prompt)"

definition consistency_system :: string where
  "consistency_system = ''Analyze the text for character and plot consistency.''"

definition consistencyPrompt :: "env \<Rightarrow> legacy_manager \<Rightarrow> string \<Rightarrow> string" where
  "consistencyPrompt env m c =
     ''Check this content against known characters and plot points:\<newline>''
     @ ''                             Characters: ''
     @ stringify env (characters_value (characters m))
     @ ''\<newline>                             Plot Points: ''
     @ stringify env (plotPoints_value (plotPoints m))
     @ ''\<newline>                             Content: '' @ c"

definition checkConsistency :: "env \<Rightarrow> string \<Rightarrow> (legacy_manager, string) prog" where
  "checkConsistency env c =
     bnd (gets (\<lambda>m. consistencyPrompt env m c)) (\<lambda>prompt.
     perform env (ChatCompletion consistency_system prompt))"

definition editor_system :: string where
  "editor_system =
     ''You are an expert editor and proofreader. Fix grammar, spelling, and style issues ''
     @ ''while maintaining the original voice.''"

definition editAndProofread :: "env \<Rightarrow> string \<Rightarrow> (legacy_manager, string) prog" where
  "editAndProofread env c = perform env (ChatCompletion editor_system c)"

text \<open>
  \<^verbatim>\<open>translateContent\<close>: the language check comes first, then the completion.
\<close>

definition translator_system :: "string \<Rightarrow> string" where
  "translator_system targetLanguage =
     ''Translate the following text to '' @ targetLanguage
     @ '', maintaining the style and tone:''"

definition translateContent :: "env \<Rightarrow> string \<Rightarrow> string \<Rightarrow> (legacy_manager, string) prog" where
  "translateContent env c targetLanguage =
     bnd (gets supportedLanguages) (\<lambda>langs.
     if targetLanguage \<notin> set langs
     then raise (LanguageError (''Language '' @ targetLanguage @ '' not supported''))
     else perform env (ChatCompletion (translator_system targetLanguage) c))"

subsection \<open>\<^verbatim>\<open>BatchBookManager\<close> and \<^verbatim>\<open>createBookWithBatch\<close>\<close>

definition chapterPrompt :: "env \<Rightarrow> legacy_manager \<Rightarrow> nat \<Rightarrow> string \<Rightarrow> string" where
  "chapterPrompt env m chapter theme =
     ''Write Chapter '' @ show_nat chapter @ '' for a book about '' @ theme
     @ ''. \<newline>                                      Use the following outline: ''
     @ outline_text (outline m)
     @ ''\<newline>                                      Previous chapters context: ''
     @ stringify env (content_value (bookContent m))"

definition createBatchTasks :: "env \<Rightarrow> nat \<Rightarrow> string \<Rightarrow> (legacy_manager, unit) prog" where
  "createBatchTasks env chapters theme =
     for_each [1..<Suc chapters] (\<lambda>chapter.
       modify (\<lambda>m. m\<lparr>batchTasks := batchTasks m @
         [\<lparr>custom_id = ''chapter-'' @ show_nat chapter,
           user_content = chapterPrompt env m chapter theme\<rparr>]\<rparr>))"

text \<open>
  \<^verbatim>\<open>submitBatchJob\<close> writes the task file, reads it back, uploads it and creates the job;
  the value is the id of the job.
\<close>

definition submitBatchJob :: "env \<Rightarrow> (legacy_manager, string) prog" where
  "submitBatchJob env =
     bnd (\<lambda>w. (Inr (''batch_tasks_'' @ clock env (length (events w)) @ ''.jsonl''), w))
       (\<lambda>batchFileName.
     bnd (gets batchTasks) (\<lambda>tasks.
     bnd (fs_writeFile env batchFileName (TasksDoc tasks)) (\<lambda>_.
     bnd (fs_readFile env batchFileName) (\<lambda>file.
     bnd (perform env (FilesCreate file)) (\<lambda>fileId.
     perform env (BatchesCreate fileId))))))"

record batch_result =
  result_content :: string
  chapterNum :: nat

text \<open>
  \<^verbatim>\<open>processBatchResults\<close> starts with \<^verbatim>\<open>super.processBatchResults(resultFileId)\<close>.  The call
  looks the method up in the parent class; a missing method is \<^verbatim>\<open>undefined\<close>, and calling
  it is a \<open>TypeError\<close>.  \<open>inherited\<close> stands for whatever a parent method would do.
\<close>

definition processBatchResults ::
  "env \<Rightarrow> (string \<Rightarrow> (legacy_manager, batch_result list) prog) \<Rightarrow> string
     \<Rightarrow> (legacy_manager, unit) prog" where
  "processBatchResults env inherited resultFileId =
     bnd (if ''processBatchResults'' \<in> set BookManager_methods
          then inherited resultFileId
          else raise (TypeError ''(intermediate value).processBatchResults is not a function''))
       (\<lambda>results.
     for_each results (\<lambda>result.
       bnd (checkConsistency env (result_content result)) (\<lambda>consistencyCheck.
       bnd (editAndProofread env (result_content result)) (\<lambda>editedContent.
       bnd (modify (\<lambda>m. m\<lparr>progressState := (progressState m)\<lparr>lastCompletedChapter :=
              max (lastCompletedChapter (progressState m)) (chapterNum result)\<rparr>\<rparr>)) (\<lambda>_.
       legacy_saveState env)))))"

text \<open>
  The polling loop \<^verbatim>\<open>do { ... } while (jobStatus !== 'completed')\<close> has no bound; a run in
  which the job never completes has no result (\<open>None\<close>).
\<close>

partial_function (option) poll_until_completed ::
  "env \<Rightarrow> string \<Rightarrow> legacy_manager world \<Rightarrow> ((error + unit) \<times> legacy_manager world) option" where
  "poll_until_completed env jobId w =
     (case perform env (BatchesRetrieve jobId) w of
        (Inl e, w') \<Rightarrow> Some (Inl e, w')
      | (Inr jobStatus, w') \<Rightarrow>
          if jobStatus \<noteq> ''completed''
          then poll_until_completed env jobId (w'\<lparr>events := events w' @ [Timeout 60000]\<rparr>)
          else Some (Inr (), w'))"

text \<open>Steps 1 to 4 of \<^verbatim>\<open>createBookWithBatch\<close>: outline, cover, tasks, submission.\<close>

definition batch_submit ::
  "env \<Rightarrow> string \<Rightarrow> nat \<Rightarrow> (legacy_manager, outline \<times> string \<times> string) prog" where
  "batch_submit env theme chapters =
     bnd (createOutline env theme chapters) (\<lambda>ol.
     bnd (generateStoryImage env (coverPrompt theme)) (\<lambda>cover.
     bnd (createBatchTasks env chapters theme) (\<lambda>_.
     bnd (submitBatchJob env) (\<lambda>batchJob.
     ret (ol, cover, batchJob)))))"

text \<open>
  The translation step: for every chapter key of \<^verbatim>\<open>bookContent\<close>, page 1 is translated and
  stored back.
\<close>

definition translate_book :: "env \<Rightarrow> string \<Rightarrow> (legacy_manager, unit) prog" where
  "translate_book env language =
     (if language \<noteq> ''en''
      then bnd (gets (\<lambda>m. map fst (bookContent m))) (\<lambda>chapters.
           for_each chapters (\<lambda>chapter.
             bnd (gets (\<lambda>m. case map_of (bookContent m) chapter of
                               None \<Rightarrow> []
                             | Some ps \<Rightarrow> (case map_of ps 1 of None \<Rightarrow> [] | Some c \<Rightarrow> c)))
               (\<lambda>first.
             bnd (translateContent env first language) (\<lambda>translatedContent.
             modify (\<lambda>m. m\<lparr>bookContent :=
               record_page chapter 1 translatedContent (bookContent m)\<rparr>)))))
      else ret ())"

text \<open>
  Step 6 and what follows it.  The last part of the function formats the book three times
  at once (\<^verbatim>\<open>Promise.all\<close>) and builds the value; it is the parameter \<open>formatting\<close>.
\<close>

definition batch_finish ::
  "env \<Rightarrow> (string \<Rightarrow> (legacy_manager, batch_result list) prog)
     \<Rightarrow> (outline \<Rightarrow> string \<Rightarrow> (legacy_manager, 'r) prog) \<Rightarrow> string
     \<Rightarrow> outline \<Rightarrow> string \<Rightarrow> string \<Rightarrow> (legacy_manager, 'r) prog" where
  "batch_finish env inherited formatting language ol cover batchJob =
     bnd (processBatchResults env inherited (output_file_id env batchJob)) (\<lambda>_.
     bnd (translate_book env language) (\<lambda>_.
     formatting ol cover))"

text \<open>The \<^verbatim>\<open>catch\<close> block of both controllers of the script: save the state, rethrow.\<close>

definition save_and_rethrow :: "env \<Rightarrow> error \<Rightarrow> (legacy_manager, 'r) prog" where
  "save_and_rethrow env error = bnd (legacy_saveState env) (\<lambda>_. raise error)"

text \<open>The \<^verbatim>\<open>try\<close> block of \<^verbatim>\<open>createBookWithBatch\<close>.\<close>

definition createBookWithBatch_try ::
  "env \<Rightarrow> (string \<Rightarrow> (legacy_manager, batch_result list) prog)
     \<Rightarrow> (outline \<Rightarrow> string \<Rightarrow> (legacy_manager, 'r) prog)
     \<Rightarrow> string \<Rightarrow> nat \<Rightarrow> string \<Rightarrow> legacy_manager world
     \<Rightarrow> ((error + 'r) \<times> legacy_manager world) option" where
  "createBookWithBatch_try env inherited formatting theme chapters language w =
     (case batch_submit env theme chapters w of
        (Inl error, w1) \<Rightarrow> Some (Inl error, w1)
      | (Inr (ol, cover, batchJob), w1) \<Rightarrow>
     (case poll_until_completed env batchJob w1 of
        None \<Rightarrow> None
      | Some (Inl error, w2) \<Rightarrow> Some (Inl error, w2)
      | Some (Inr u, w2) \<Rightarrow>
          Some (batch_finish env inherited formatting language ol cover batchJob w2)))"

text \<open>
  \<^verbatim>\<open>createBookWithBatch(theme, chapters, language)\<close>: a new manager, \<^verbatim>\<open>loadState\<close> (outside the
  \<^verbatim>\<open>try\<close>), the \<^verbatim>\<open>try\<close> block, and the \<^verbatim>\<open>catch\<close>.
\<close>

definition createBookWithBatch ::
  "env \<Rightarrow> (string \<Rightarrow> (legacy_manager, batch_result list) prog)
     \<Rightarrow> (outline \<Rightarrow> string \<Rightarrow> (legacy_manager, 'r) prog)
     \<Rightarrow> string \<Rightarrow> nat \<Rightarrow> string \<Rightarrow> legacy_manager world
     \<Rightarrow> ((error + 'r) \<times> legacy_manager world) option" where
  "createBookWithBatch env inherited formatting theme chapters language w =
     (case legacy_loadState env
             (w\<lparr>mgr := LegacyBookManager (clock env (length (events w)))\<rparr>) of
        (Inl error, w1) \<Rightarrow> Some (Inl error, w1)
      | (Inr hasState, w1) \<Rightarrow>
     (case createBookWithBatch_try env inherited formatting theme chapters language w1 of
        None \<Rightarrow> None
      | Some (Inl error, w2) \<Rightarrow> Some (save_and_rethrow env error w2)
      | Some (Inr r, w2) \<Rightarrow> Some (Inr r, w2)))"

subsection \<open>\<^verbatim>\<open>createBookPageByPage\<close> of the single script\<close>

record legacy_result =
  l_outline :: outline
  l_coverImage :: "string option"
  l_bookContent :: content
  l_metadata :: metadata
  l_progressState :: progress
  l_compiledBook :: "string \<times> string"

definition legacy_chapter_iteration ::
  "env \<Rightarrow> bool \<Rightarrow> nat \<Rightarrow> nat \<Rightarrow> (legacy_manager, unit) prog" where
  "legacy_chapter_iteration env progressCallback pagesPerChapter chapter =
     bnd (if progressCallback
          then bnd (perform env (ProgressCallback chapter 1)) (\<lambda>_. ret ())
          else ret ()) (\<lambda>_.
     bnd (generateChapterPages env chapter pagesPerChapter) (\<lambda>_.
     legacy_saveState env))"

text \<open>
  The \<^verbatim>\<open>try\<close> block of \<^verbatim>\<open>createBookPageByPage\<close> of the script, block by block: resume or
  create the outline, generate the cover, generate the chapters, compile the book.
\<close>

definition legacy_resume_or_outline :: "env \<Rightarrow> string \<Rightarrow> nat \<Rightarrow> (legacy_manager, unit) prog" where
  "legacy_resume_or_outline env theme chapters =
     bnd (legacy_loadState env) (\<lambda>hasState.
     if hasState then ret ()
     else bnd (createOutline env theme chapters) (\<lambda>_. ret ()))"

definition legacy_generate_cover :: "env \<Rightarrow> string \<Rightarrow> (legacy_manager, unit) prog" where
  "legacy_generate_cover env theme =
     bnd (gets (\<lambda>m. coverImage (metadata m))) (\<lambda>cover.
     if falsy cover
     then bnd (generateStoryImage env (coverPrompt theme)) (\<lambda>url.
          bnd (modify (\<lambda>m. m\<lparr>metadata := (metadata m)\<lparr>coverImage := Some url\<rparr>\<rparr>)) (\<lambda>_.
          saveMetadata env))
     else ret ())"

definition legacy_generate_chapters ::
  "env \<Rightarrow> nat \<Rightarrow> nat \<Rightarrow> bool \<Rightarrow> (legacy_manager, unit) prog" where
  "legacy_generate_chapters env chapters pagesPerChapter progressCallback =
     bnd (gets (\<lambda>m. lastCompletedChapter (progressState m) + 1)) (\<lambda>startChapter.
     for_each [startChapter..<Suc chapters] (\<lambda>chapter.
       legacy_chapter_iteration env progressCallback pagesPerChapter chapter))"

definition legacy_createBookPageByPage_try ::
  "env \<Rightarrow> string \<Rightarrow> nat \<Rightarrow> nat \<Rightarrow> bool \<Rightarrow> (legacy_manager, legacy_result) prog" where
  "legacy_createBookPageByPage_try env theme chapters pagesPerChapter progressCallback =
     bnd (legacy_resume_or_outline env theme chapters) (\<lambda>_.
     bnd (legacy_generate_cover env theme) (\<lambda>_.
     bnd (legacy_generate_chapters env chapters pagesPerChapter progressCallback) (\<lambda>_.
     bnd (legacy_compileBook env) (\<lambda>compiledBook.
     gets (\<lambda>m. \<lparr>l_outline = outline m, l_coverImage = coverImage (metadata m),
                 l_bookContent = bookContent m, l_metadata = metadata m,
                 l_progressState = progressState m,
                 l_compiledBook = compiledBook\<rparr>)))))"

definition legacy_createBookPageByPage ::
  "env \<Rightarrow> string \<Rightarrow> nat \<Rightarrow> nat \<Rightarrow> bool \<Rightarrow> (legacy_manager, legacy_result) prog" where
  "legacy_createBookPageByPage env theme chapters pagesPerChapter progressCallback =
     (\<lambda>w. try_catch
             (legacy_createBookPageByPage_try env theme chapters pagesPerChapter progressCallback)
             (save_and_rethrow env)
             (w\<lparr>mgr := LegacyBookManager (clock env (length (events w)))\<rparr>))"

section \<open>Observations and sample environments\<close>

text \<open>
  The requests of a run that ask the refactored pipeline's writer for a page, and the
  page requests of a complete run that starts at chapter \<open>startChapter\<close> with outline \<open>ol\<close>:
  chapter by chapter, and inside a chapter page by page.
\<close>

fun is_page_request :: "request \<Rightarrow> bool" where
  "is_page_request (ChatCompletion s u) = (s = writer_system)"
| "is_page_request r = False"

definition page_requests :: "request list \<Rightarrow> request list" where
  "page_requests evs = filter is_page_request evs"

definition unit_requests :: "outline \<Rightarrow> nat \<Rightarrow> nat \<Rightarrow> nat \<Rightarrow> request list" where
  "unit_requests ol startChapter chapters pagesPerChapter =
     concat (map (\<lambda>chapter.
       map (\<lambda>page. ChatCompletion writer_system (page_prompt chapter page ol))
         [1..<Suc pagesPerChapter]) [startChapter..<Suc chapters])"

text \<open>The checkpoints among the requests, and the requests to the generation service.\<close>

fun checkpoint_writes :: "request list \<Rightarrow> checkpoint list" where
  "checkpoint_writes [] = []"
| "checkpoint_writes (WriteFile p (StateDoc cp) # evs) = cp # checkpoint_writes evs"
| "checkpoint_writes (r # evs) = checkpoint_writes evs"

fun is_service_request :: "request \<Rightarrow> bool" where
  "is_service_request (ChatCompletion s u) = True"
| "is_service_request (ImageGenerate p) = True"
| "is_service_request (FilesCreate f) = True"
| "is_service_request (BatchesCreate f) = True"
| "is_service_request (BatchesRetrieve j) = True"
| "is_service_request r = False"

text \<open>Two book contents agree on the chapters up to \<open>c\<close>.\<close>

definition agree_upto :: "nat \<Rightarrow> content \<Rightarrow> content \<Rightarrow> bool" where
  "agree_upto c bc bc' = (\<forall>chapter\<le>c. map_of bc chapter = map_of bc' chapter)"

text \<open>
  A manager whose character table is a \<^verbatim>\<open>Map\<close> (no name twice) and whose plot points are a
  \<^verbatim>\<open>Set\<close> (no point twice), and one whose character records JSON can carry.
\<close>

definition well_formed :: "'a narrative_scheme \<Rightarrow> bool" where
  "well_formed m = (distinct (map fst (characters m)) \<and> distinct (plotPoints m))"

definition serializable_characters :: "'a narrative_scheme \<Rightarrow> bool" where
  "serializable_characters m = list_all (\<lambda>(name, r). json_serializable r) (characters m)"

text \<open>
  An environment in which every request succeeds, and a world with no files and no
  requests yet.
\<close>

fun happy_reply :: "request \<Rightarrow> string" where
  "happy_reply (ChatCompletion s u) = ''Once upon a time''"
| "happy_reply (ImageGenerate p) = ''https://images.example/cover.png''"
| "happy_reply (BatchesRetrieve j) = ''completed''"
| "happy_reply (BatchesCreate f) = ''batch_1''"
| "happy_reply (FilesCreate f) = ''file_1''"
| "happy_reply r = ''ok''"

definition happy_env :: env where
  "happy_env =
     \<lparr>respond = (\<lambda>n r. Inr (happy_reply r)), json_text = (\<lambda>v. ''{}''),
      parse_metadata = (\<lambda>s. None), output_file_id = (\<lambda>j. ''file_2''),
      clock = (\<lambda>n. ''1700000000000'')\<rparr>"

definition fresh_world :: "'m \<Rightarrow> 'm world" where
  "fresh_world m = \<lparr>mgr = m, files = [], events = []\<rparr>"

text \<open>
  Environments with failures: the service is down (every completion fails); the service
  is down and the disk is full (every write fails as well); the state file cannot be read.
\<close>

fun down_reply :: "request \<Rightarrow> error + string" where
  "down_reply (ChatCompletion s u) = Inl (ServiceError ''rate limit'')"
| "down_reply r = Inr ''ok''"

definition down_env :: env where
  "down_env = happy_env\<lparr>respond := (\<lambda>n r. down_reply r)\<rparr>"

fun full_disk_reply :: "request \<Rightarrow> error + string" where
  "full_disk_reply (ChatCompletion s u) = Inl (ServiceError ''rate limit'')"
| "full_disk_reply (WriteFile p c) = Inl (FsError ''ENOSPC'')"
| "full_disk_reply r = Inr ''ok''"

definition full_disk_env :: env where
  "full_disk_env = happy_env\<lparr>respond := (\<lambda>n r. full_disk_reply r)\<rparr>"

fun denied_reply :: "request \<Rightarrow> error + string" where
  "denied_reply (ReadFile p) = Inl (FsError ''EACCES'')"
| "denied_reply r = Inr ''ok''"

definition denied_env :: env where
  "denied_env = happy_env\<lparr>respond := (\<lambda>n r. denied_reply r)\<rparr>"

text \<open>
  The checkpoint of a run that was interrupted after page 1 of chapter 1, and a world whose
  state file for the book \<open>b\<close> holds it.
\<close>

definition interrupted_checkpoint :: checkpoint where
  "interrupted_checkpoint =
     \<lparr>cp_progress = \<lparr>lastCompletedChapter = 1, lastCompletedPage = 1, status = ''in_progress''\<rparr>,
      cp_characters = [], cp_plotPoints = [],
      cp_bookContent = [(1, [(1, ''Once upon a time'')])],
      cp_outline = OutlineText ''An outline'',
      cp_metadata = \<lparr>coverImage = Some ''https://images.example/cover.png'', info = []\<rparr>\<rparr>"

definition resumed_world :: "manager world" where
  "resumed_world =
     \<lparr>mgr = BookManager ''b'',
      files = [(''output/books/b/metadata/book_state.json'', StateDoc interrupted_checkpoint)],
      events = []\<rparr>"

text \<open>
  Managers with one character whose record came out of a checkpoint, and one plot point.
\<close>

definition saved_world :: "manager world" where
  "saved_world =
     fresh_world ((BookManager ''b'')
       \<lparr>characters := [(''Bob'', JObj [(''0'', JStr ''t''), (''firstAppearance'', JNum 1),
                                     (''appearances'', JObj [])])],
        plotPoints := [''The storm'']\<rparr>)"

definition legacy_saved_world :: "legacy_manager world" where
  "legacy_saved_world =
     fresh_world ((LegacyBookManager ''2024'')
       \<lparr>characters := [(''Bob'', JObj [(''0'', JStr ''t''), (''firstAppearance'', JNum 1),
                                     (''appearances'', JObj [])])],
        plotPoints := [''The storm'']\<rparr>)"

text \<open>
  A world of the refactored pipeline in which page 1 of chapter 1 is written and a
  character and a plot point are known; and a world of the single script in which the
  file of page 1 of chapter 1 is stored.
\<close>

definition narrated_world :: "manager world" where
  "narrated_world =
     fresh_world ((BookManager ''b'')
       \<lparr>characters := [(''Bob'', JObj [(''0'', JStr ''t''), (''firstAppearance'', JNum 1),
                                     (''appearances'', JObj [])])],
        plotPoints := [''The storm''],
        bookContent := [(1, [(1, ''Once upon a time'')])],
        outline := OutlineText ''An outline''\<rparr>)"

definition paged_world :: "legacy_manager world" where
  "paged_world =
     (fresh_world ((LegacyBookManager ''2024'')\<lparr>outline := OutlineText ''An outline''\<rparr>))
       \<lparr>files := [(''chapter1_page1.json'', PageDoc 1 1 ''Once upon a time'')]\<rparr>"

text \<open>
  The text of page \<open>p\<close> of a chapter as \<^verbatim>\<open>loadProgress\<close> gets it back when the read is request
  number \<open>n\<close>: none when the read fails, when there is no such file, and when the file is
  not JSON.  The step for a page reads the earlier pages of the chapter one after the
  other, so page \<open>p\<close> is read by the \<open>p\<close>-th request from the start of the step.
\<close>

definition page_text ::
  "env \<Rightarrow> (string \<times> file_content) list \<Rightarrow> nat \<Rightarrow> nat \<Rightarrow> nat \<Rightarrow> string option" where
  "page_text env fs n chapter p =
     (case respond env n (ReadFile (page_file chapter p ''.json'')) of
        Inl e \<Rightarrow> None
      | Inr s \<Rightarrow>
          (case map_of fs (page_file chapter p ''.json'') of
             None \<Rightarrow> None
           | Some (Buffer b) \<Rightarrow> None
           | Some (Text t) \<Rightarrow> None
           | Some d \<Rightarrow> Some (doc_content d)))"

definition earlier_pages :: "env \<Rightarrow> 'm world \<Rightarrow> nat \<Rightarrow> nat \<Rightarrow> string list" where
  "earlier_pages env w chapter page =
     List.map_filter (\<lambda>p. page_text env (files w) (length (events w) + (p - 1)) chapter p)
       [1..<page]"

text \<open>A world in which the state file of the single script holds that checkpoint.\<close>

definition legacy_resumed_world :: "legacy_manager world" where
  "legacy_resumed_world =
     \<lparr>mgr = LegacyBookManager ''2024'',
      files = [(''book_state.json'', StateDoc interrupted_checkpoint)],
      events = []\<rparr>"

section \<open>Judgments about programs\<close>

text \<open>
  \<open>preserves f p\<close>: the program \<open>p\<close> leaves the observation \<open>f\<close> of the world as it was.
  \<open>appends P p\<close>: \<open>p\<close> only adds requests, and all of them satisfy \<open>P\<close>.
\<close>

definition preserves :: "('m world \<Rightarrow> 'b) \<Rightarrow> ('m, 'a) prog \<Rightarrow> bool" where
  "preserves f p = (\<forall>w. f (snd (p w)) = f w)"

definition appends :: "(request \<Rightarrow> bool) \<Rightarrow> ('m, 'a) prog \<Rightarrow> bool" where
  "appends P p = (\<forall>w. \<exists>evs. events (snd (p w)) = events w @ evs \<and> list_all P evs)"

fun is_mkdir :: "request \<Rightarrow> bool" where
  "is_mkdir (Mkdir d) = True"
| "is_mkdir r = False"

text \<open>
  \<open>post c ol E w res\<close> relates a world \<open>w\<close> to the outcome \<open>res\<close> of a program started in it:
  the outline is \<open>ol\<close> afterwards, the book content still agrees with that of \<open>w\<close> on the
  chapters up to \<open>c\<close>, and so does every checkpoint written; the page requests made are an
  initial segment of \<open>E\<close>, and all of \<open>E\<close> when the program ended without a throw.
  \<open>conforms c ol p E\<close>: this holds in every world whose outline is \<open>ol\<close>.
\<close>

definition post ::
  "nat \<Rightarrow> outline \<Rightarrow> request list \<Rightarrow> manager world \<Rightarrow> (error + 'a) \<times> manager world \<Rightarrow> bool" where
  "post c ol E w res =
     (outline (mgr (snd res)) = ol
      \<and> agree_upto c (bookContent (mgr (snd res))) (bookContent (mgr w))
      \<and> (\<exists>evs. events (snd res) = events w @ evs
            \<and> list_all (\<lambda>cp. agree_upto c (cp_bookContent cp) (bookContent (mgr w)))
                  (checkpoint_writes evs)
            \<and> prefix (page_requests evs) E
            \<and> (\<forall>x. fst res = Inr x \<longrightarrow> page_requests evs = E)))"

definition conforms :: "nat \<Rightarrow> outline \<Rightarrow> (manager, 'a) prog \<Rightarrow> request list \<Rightarrow> bool" where
  "conforms c ol p E = (\<forall>w. outline (mgr w) = ol \<longrightarrow> post c ol E w (p w))"

section \<open>Running programs\<close>

text \<open>The program combinators applied to a world.\<close>

lemma ret_apply: "ret x w = (Inr x, w)"
  by (simp add: ret_def)

lemma raise_apply: "raise e w = (Inl e, w)"
  by (simp add: raise_def)

lemma bnd_apply:
  "bnd p f w = (case p w of (Inl e, w') \<Rightarrow> (Inl e, w') | (Inr x, w') \<Rightarrow> f x w')"
  by (simp add: bnd_def)

lemma try_catch_apply:
  "try_catch p h w = (case p w of (Inl e, w') \<Rightarrow> h e w' | (Inr x, w') \<Rightarrow> (Inr x, w'))"
  by (simp add: try_catch_def)

lemma gets_apply: "gets f w = (Inr (f (mgr w)), w)"
  by (simp add: gets_def)

lemma modify_apply: "modify f w = (Inr (), w\<lparr>mgr := f (mgr w)\<rparr>)"
  by (simp add: modify_def)

lemma perform_apply:
  "perform env r w = (respond env (length (events w)) r, w\<lparr>events := events w @ [r]\<rparr>)"
  by (simp add: perform_def)

lemmas run_simps =
  ret_apply raise_apply bnd_apply try_catch_apply gets_apply modify_apply perform_apply

lemma fs_mkdir_apply:
  "fs_mkdir env dir w =
     (case respond env (length (events w)) (Mkdir dir) of
        Inl e \<Rightarrow> Inl e | Inr s \<Rightarrow> Inr (),
      w\<lparr>events := events w @ [Mkdir dir]\<rparr>)"
  by (simp add: fs_mkdir_def run_simps split: sum.splits)

lemma fs_writeFile_apply:
  "fs_writeFile env path c w =
     (case respond env (length (events w)) (WriteFile path c) of
        Inl e \<Rightarrow> (Inl e, w\<lparr>events := events w @ [WriteFile path c]\<rparr>)
      | Inr s \<Rightarrow> (Inr (), w\<lparr>files := AList.update path c (files w),
                               events := events w @ [WriteFile path c]\<rparr>))"
  by (simp add: fs_writeFile_def run_simps split: sum.splits)

lemma fs_readFile_apply:
  "fs_readFile env path w =
     (case respond env (length (events w)) (ReadFile path) of
        Inl e \<Rightarrow> Inl e
      | Inr s \<Rightarrow> (case map_of (files w) path of
                    None \<Rightarrow> Inl (FsError ''ENOENT'')
                  | Some c \<Rightarrow> Inr c),
      w\<lparr>events := events w @ [ReadFile path]\<rparr>)"
  by (simp add: fs_readFile_def run_simps split: sum.splits option.splits)

text \<open>The sample environments, request by request.\<close>

lemma happy_env_simps:
  "respond happy_env n r = Inr (happy_reply r)"
  "clock happy_env n = ''1700000000000''"
  "output_file_id happy_env j = ''file_2''"
  by (simp_all add: happy_env_def)

lemma down_env_simps:
  "respond down_env n r = down_reply r"
  "clock down_env n = ''1700000000000''"
  by (simp_all add: down_env_def happy_env_def)

lemma full_disk_env_simps:
  "respond full_disk_env n r = full_disk_reply r"
  "clock full_disk_env n = ''1700000000000''"
  by (simp_all add: full_disk_env_def happy_env_def)

lemma denied_env_simps:
  "respond denied_env n r = denied_reply r"
  "clock denied_env n = ''1700000000000''"
  by (simp_all add: denied_env_def happy_env_def)

lemma show_nat_small:
  "show_nat 0 = ''0''" "show_nat (Suc 0) = ''1''" "show_nat 2 = ''2''"
  "show_nat (Suc (Suc 0)) = ''2''"
  by (simp_all add: show_nat.simps)

text \<open>
  The definitions of the refactored pipeline and of the single script, for running a
  program in a given world by rewriting.
\<close>

lemmas pipeline_defs =
  fs_mkdir_def fs_writeFile_def fs_readFile_def FileHandler_createDirectory_def
  FileHandler_writeFile_def FileHandler_readFile_def StateManager_saveState_def
  StateManager_loadState_def ensureDirectories_def createDocxDocument_def saveState_def
  saveProgress_def loadState_def compileJSON_def compileDOCX_def compileBook_def
  response_buffer_def saveCoverImage_def page_iteration_def chapter_iteration_def resume_or_outline_def
  generate_cover_def generate_chapters_def compile_final_book_def
  createBookPageByPage_try_def createBookPageByPage_def falsy_def snapshot_def

lemmas script_defs =
  fs_writeFile_def fs_readFile_def legacy_loadState_def legacy_saveState_def
  createOutline_def saveOutline_def saveMetadata_def generateStoryImage_def
  createBatchTasks_def submitBatchJob_def batch_submit_def batch_finish_def
  save_and_rethrow_def createBookWithBatch_try_def createBookWithBatch_def
  legacy_resume_or_outline_def legacy_generate_cover_def legacy_generate_chapters_def
  legacy_createBookPageByPage_try_def legacy_createBookPageByPage_def
  legacy_chapter_iteration_def generateChapterPages_def generate_page_step_def
  generatePage_def legacy_saveProgress_def saveAsDocx_def loadProgress_def
  extractMetadata_def falsy_def snapshot_def

section \<open>The character table is overwritten, not merged\<close>

lemma map_of_character_record:
  "map_of (character_record details chapter) =
     (map_of (own_props details))(''firstAppearance'' \<mapsto> JNum (int chapter),
        ''appearances'' \<mapsto> JSet [JNum (int chapter)])"
  by (simp add: character_record_def update_conv' new_Set_def set_add_def)

text \<open>
  Claim C6, as the code has it.  \<^verbatim>\<open>addCharacter\<close> sets the entry of the name to a fresh
  record, whether or not the name is already in the table: the record holds the spread of
  the new details, \<^verbatim>\<open>firstAppearance\<close> equal to the current chapter and \<^verbatim>\<open>appearances\<close> equal
  to the set of the current chapter alone.  The entries of all other names stay as they
  are, and the names keep their order; a name that was absent is appended.
\<close>

theorem addCharacter_replaces_entry:
  "map_of (characters (addCharacter name details m)) =
     (map_of (characters m))(name \<mapsto> JObj (character_record details (currentChapter m)))
   \<and> map_of (character_record details (currentChapter m)) =
       (map_of (own_props details))(''firstAppearance'' \<mapsto> JNum (int (currentChapter m)),
          ''appearances'' \<mapsto> JSet [JNum (int (currentChapter m))])
   \<and> map fst (characters (addCharacter name details m)) =
       (if name \<in> fst ` set (characters m) then map fst (characters m)
        else map fst (characters m) @ [name])"
  by (simp add: addCharacter_def update_conv' map_of_character_record update_keys image_iff)

text \<open>
  Claim C6 as stated fails: a second merge for the name \<open>Bob\<close> replaces the description
  that the first merge stored.
\<close>

theorem addCharacter_overwrites_counterexample:
  "map_of (characters (addCharacter ''Bob'' (JStr ''tall'') (LegacyBookManager ''2024''))) ''Bob''
     = Some (JObj [(''0'', JStr ''t''), (''1'', JStr ''a''), (''2'', JStr ''l''), (''3'', JStr ''l''),
                   (''firstAppearance'', JNum 1), (''appearances'', JSet [JNum 1])])
   \<and> map_of (characters (addCharacter ''Bob'' (JStr ''shy'')
         (addCharacter ''Bob'' (JStr ''tall'') (LegacyBookManager ''2024'')))) ''Bob''
     = Some (JObj [(''0'', JStr ''s''), (''1'', JStr ''h''), (''2'', JStr ''y''),
                   (''firstAppearance'', JNum 1), (''appearances'', JSet [JNum 1])])"
  by (simp add: addCharacter_def character_record_def LegacyBookManager_def new_Set_def
      set_add_def show_nat.simps upt_rec)

section \<open>\<^verbatim>\<open>processBatchResults\<close> always throws\<close>

lemma not_a_method: "''processBatchResults'' \<notin> set BookManager_methods"
  by (simp add: BookManager_methods_def)

lemma processBatchResults_apply:
  "processBatchResults env inherited resultFileId w =
     (Inl (TypeError ''(intermediate value).processBatchResults is not a function''), w)"
  by (simp add: processBatchResults_def not_a_method bnd_apply raise_apply)

text \<open>
  Claim C4.  For every argument, every environment and every world,
  \<^verbatim>\<open>BatchBookManager.processBatchResults\<close> ends with a \<open>TypeError\<close> and leaves the world as it
  was: the parent class has no method of that name, so no result is merged, no request is
  made and no checkpoint is written.  This holds whatever an inherited method would do.
\<close>

theorem processBatchResults_always_throws:
  "processBatchResults env inherited resultFileId w =
     (Inl (TypeError ''(intermediate value).processBatchResults is not a function''), w)"
  by (rule processBatchResults_apply)

section \<open>Resuming from a checkpoint\<close>

lemma agree_upto_refl [simp]: "agree_upto c bc bc"
  by (simp add: agree_upto_def)

lemma agree_upto_trans: "agree_upto c a b \<Longrightarrow> agree_upto c b d \<Longrightarrow> agree_upto c a d"
  by (simp add: agree_upto_def)

lemma checkpoint_writes_append [simp]:
  "checkpoint_writes (xs @ ys) = checkpoint_writes xs @ checkpoint_writes ys"
  by (induction xs rule: checkpoint_writes.induct) simp_all

lemma page_requests_append [simp]: "page_requests (xs @ ys) = page_requests xs @ page_requests ys"
  by (simp add: page_requests_def)

lemma page_requests_Nil [simp]: "page_requests [] = []"
  by (simp add: page_requests_def)

lemma postI:
  assumes "outline (mgr w') = ol" "agree_upto c (bookContent (mgr w')) (bookContent (mgr w))"
    "events w' = events w @ evs"
    "list_all (\<lambda>cp. agree_upto c (cp_bookContent cp) (bookContent (mgr w))) (checkpoint_writes evs)"
    "prefix (page_requests evs) E" "\<And>x. r = Inr x \<Longrightarrow> page_requests evs = E"
  shows "post c ol E w (r, w')"
  using assms by (auto simp: post_def)

lemma post_silent:
  assumes "outline (mgr w) = ol"
  shows "post c ol [] w (r, w)"
  using assms by (auto simp: post_def)

lemma post_then:
  assumes p: "post c ol E1 w (r1, w1)"
    and ok: "\<And>x. r1 = Inr x \<Longrightarrow> res = k x w1 \<and> post c ol E2 w1 (k x w1)"
    and err: "\<And>e. r1 = Inl e \<Longrightarrow> res = (Inl e, w1)"
  shows "post c ol (E1 @ E2) w res"
proof (cases r1)
  case (Inl e)
  with err have "res = (Inl e, w1)" by simp
  with p Inl show ?thesis by (auto simp: post_def)
next
  case (Inr x)
  with ok have res: "res = k x w1" and q: "post c ol E2 w1 (k x w1)" by simp_all
  from p Inr obtain evs1 where e1: "events w1 = events w @ evs1"
    and c1: "list_all (\<lambda>cp. agree_upto c (cp_bookContent cp) (bookContent (mgr w))) (checkpoint_writes evs1)"
    and p1: "page_requests evs1 = E1"
    and a1: "agree_upto c (bookContent (mgr w1)) (bookContent (mgr w))"
    by (auto simp: post_def)
  from q obtain evs2 where e2: "events (snd (k x w1)) = events w1 @ evs2"
    and c2: "list_all (\<lambda>cp. agree_upto c (cp_bookContent cp) (bookContent (mgr w1))) (checkpoint_writes evs2)"
    and p2: "prefix (page_requests evs2) E2"
    and s2: "\<And>y. fst (k x w1) = Inr y \<Longrightarrow> page_requests evs2 = E2"
    and a2: "agree_upto c (bookContent (mgr (snd (k x w1)))) (bookContent (mgr w1))"
    and o2: "outline (mgr (snd (k x w1))) = ol"
    by (auto simp: post_def)
  have c2': "list_all (\<lambda>cp. agree_upto c (cp_bookContent cp) (bookContent (mgr w))) (checkpoint_writes evs2)"
    using c2 a1 by (auto simp: list_all_iff intro: agree_upto_trans)
  show ?thesis
    unfolding post_def res
    using o2 agree_upto_trans [OF a2 a1] e1 e2 c1 c2' p1 p2 s2
    by (auto intro!: exI [of _ "evs1 @ evs2"])
qed

lemma conforms_ret: "conforms c ol (ret x) []"
  by (simp add: conforms_def ret_apply post_silent)

lemma conforms_raise: "conforms c ol (raise e) []"
  by (simp add: conforms_def raise_apply post_silent)

lemma conforms_gets: "conforms c ol (gets f) []"
  by (simp add: conforms_def gets_apply post_silent)

lemma conforms_bnd:
  assumes "conforms c ol p E1" "\<And>x. conforms c ol (k x) E2"
  shows "conforms c ol (bnd p k) (E1 @ E2)"
  unfolding conforms_def
proof (intro allI impI)
  fix w :: "manager world"
  assume o: "outline (mgr w) = ol"
  obtain r1 w1 where pw: "p w = (r1, w1)" by (cases "p w")
  with assms(1) o have p1: "post c ol E1 w (r1, w1)" by (auto simp: conforms_def)
  then have o1: "outline (mgr w1) = ol" by (simp add: post_def)
  show "post c ol (E1 @ E2) w (bnd p k w)"
  proof (rule post_then [OF p1, of _ k])
    fix x assume "r1 = Inr x"
    with pw assms(2) [of x] o1 show "bnd p k w = k x w1 \<and> post c ol E2 w1 (k x w1)"
      by (simp add: bnd_apply conforms_def)
  next
    fix e assume "r1 = Inl e"
    with pw show "bnd p k w = (Inl e, w1)" by (simp add: bnd_apply)
  qed
qed

lemma conforms_bnd_silent:
  assumes "conforms c ol p []" "\<And>x. conforms c ol (k x) E"
  shows "conforms c ol (bnd p k) E"
  using conforms_bnd [OF assms] by simp

lemma conforms_bnd_gets:
  assumes "\<And>m. outline m = ol \<Longrightarrow> conforms c ol (k (f m)) E"
  shows "conforms c ol (bnd (gets f) k) E"
  using assms by (simp add: conforms_def bnd_apply gets_apply)

lemma conforms_modify:
  assumes "\<And>m. outline (f m) = outline m" "\<And>m. agree_upto c (bookContent (f m)) (bookContent m)"
  shows "conforms c ol (modify f) []"
  using assms by (auto simp: conforms_def modify_apply post_def)

lemma conforms_perform_page:
  assumes "is_page_request r"
  shows "conforms c ol (perform env r) [r]"
proof -
  from assms have "checkpoint_writes [r] = []" by (cases r) simp_all
  with assms show ?thesis
    by (auto simp: conforms_def perform_apply post_def page_requests_def)
qed

lemma conforms_perform:
  assumes "\<not> is_page_request r" "checkpoint_writes [r] = []"
  shows "conforms c ol (perform env r) []"
  using assms by (auto simp: conforms_def perform_apply post_def page_requests_def)

lemma conforms_rethrow:
  assumes "conforms c ol p E"
  shows "conforms c ol (try_catch p (\<lambda>error. raise error)) E"
proof -
  have "try_catch p (\<lambda>error. raise error) = p"
    by (rule ext) (simp add: try_catch_apply raise_apply split: prod.splits sum.splits)
  with assms show ?thesis by simp
qed

lemma conforms_if:
  assumes "b \<Longrightarrow> conforms c ol p E" "\<not> b \<Longrightarrow> conforms c ol q E"
  shows "conforms c ol (if b then p else q) E"
  using assms by simp

lemma conforms_for_each:
  assumes "\<And>x. x \<in> set xs \<Longrightarrow> conforms c ol (body x) (Ef x)"
  shows "conforms c ol (for_each xs body) (concat (map Ef xs))"
  using assms
proof (induction xs)
  case Nil
  then show ?case by (simp add: conforms_ret)
next
  case (Cons x xs)
  then show ?case by (simp add: conforms_bnd)
qed

lemma concat_map_Nil: "concat (map (\<lambda>_. []) xs) = []"
  by (induction xs) simp_all

lemma conforms_for_each_silent:
  assumes "\<And>x. x \<in> set xs \<Longrightarrow> conforms c ol (body x) []"
  shows "conforms c ol (for_each xs body) []"
  using conforms_for_each [of xs c ol body "\<lambda>_. []"] assms by (simp add: concat_map_Nil)

lemma conforms_catch_fails:
  assumes p: "conforms c ol p E" and h: "\<And>e. conforms c ol (h e) []"
    and f: "\<And>e w. \<exists>e'. fst (h e w) = Inl e'"
  shows "conforms c ol (try_catch p h) E"
  unfolding conforms_def
proof (intro allI impI)
  fix w :: "manager world"
  assume o: "outline (mgr w) = ol"
  obtain r1 w1 where pw: "p w = (r1, w1)" by (cases "p w")
  with p o have p1: "post c ol E w (r1, w1)" by (auto simp: conforms_def)
  then have o1: "outline (mgr w1) = ol" by (simp add: post_def)
  show "post c ol E w (try_catch p h w)"
  proof (cases r1)
    case (Inr x)
    with pw p1 show ?thesis by (simp add: try_catch_apply)
  next
    case (Inl e)
    from h [of e] o1 have q: "post c ol [] w1 (h e w1)" by (simp add: conforms_def)
    from f [of e w1] obtain e' where fl: "fst (h e w1) = Inl e'" by blast
    from p1 obtain evs1 where e1: "events w1 = events w @ evs1"
      and c1: "list_all (\<lambda>cp. agree_upto c (cp_bookContent cp) (bookContent (mgr w))) (checkpoint_writes evs1)"
      and p1': "prefix (page_requests evs1) E"
      and a1: "agree_upto c (bookContent (mgr w1)) (bookContent (mgr w))"
      by (auto simp: post_def)
    from q obtain evs2 where e2: "events (snd (h e w1)) = events w1 @ evs2"
      and c2: "list_all (\<lambda>cp. agree_upto c (cp_bookContent cp) (bookContent (mgr w1))) (checkpoint_writes evs2)"
      and p2: "page_requests evs2 = []"
      and a2: "agree_upto c (bookContent (mgr (snd (h e w1)))) (bookContent (mgr w1))"
      and o2: "outline (mgr (snd (h e w1))) = ol"
      by (auto simp: post_def)
    have c2': "list_all (\<lambda>cp. agree_upto c (cp_bookContent cp) (bookContent (mgr w))) (checkpoint_writes evs2)"
      using c2 a1 by (auto simp: list_all_iff intro: agree_upto_trans)
    have "try_catch p h w = h e w1" using pw Inl by (simp add: try_catch_apply)
    then show ?thesis
      unfolding post_def
      using o2 agree_upto_trans [OF a2 a1] e1 e2 c1 c2' p1' p2 fl
      by (auto intro!: exI [of _ "evs1 @ evs2"])
  qed
qed


lemma map_of_obj_put: "map_of (obj_put k v kvs) = (map_of kvs)(k \<mapsto> v)"
  by (induction kvs) (auto simp: fun_eq_iff)

lemma agree_upto_record_page: "c < chapter \<Longrightarrow> agree_upto c (record_page chapter page x bc) bc"
  by (simp add: agree_upto_def record_page_def map_of_obj_put)

lemma conforms_createDirectory: "conforms c ol (FileHandler_createDirectory env d) []"
  unfolding FileHandler_createDirectory_def fs_mkdir_def
  by (intro conforms_rethrow conforms_bnd_silent conforms_perform conforms_ret) simp_all

lemma conforms_fs_writeFile:
  assumes "checkpoint_writes [WriteFile path x] = []"
  shows "conforms c ol (fs_writeFile env path x) []"
  using assms
  by (auto simp: conforms_def fs_writeFile_def run_simps post_def page_requests_def split: sum.splits)

lemma stringify_not_state:
  assumes "checkpoint_writes [WriteFile path x] = []"
  shows "checkpoint_writes [WriteFile path (if is_object x then JSON_stringify x else x)] = []"
  using assms by (cases x) simp_all

lemma conforms_writeFile:
  assumes "checkpoint_writes [WriteFile path x] = []"
  shows "conforms c ol (FileHandler_writeFile env path x) []"
  unfolding FileHandler_writeFile_def
  by (intro conforms_rethrow conforms_bnd_silent conforms_createDirectory conforms_fs_writeFile
      stringify_not_state assms)

lemma conforms_ensureDirectories: "conforms c ol (ensureDirectories env) []"
  unfolding ensureDirectories_def
  by (intro conforms_bnd_gets conforms_for_each_silent conforms_createDirectory)

lemma conforms_saveState: "conforms c ol (saveState env) []"
  by (auto simp: conforms_def saveState_def StateManager_saveState_def FileHandler_writeFile_def
      FileHandler_createDirectory_def fs_mkdir_def fs_writeFile_def run_simps post_def
      page_requests_def snapshot_def split: sum.splits)

lemma conforms_createDocxDocument: "conforms c ol (createDocxDocument env x chapter page) []"
  unfolding createDocxDocument_def by (intro conforms_perform) simp_all

lemma conforms_saveProgress: "conforms c ol (saveProgress env x chapter page) []"
  unfolding saveProgress_def
  by (intro conforms_bnd_silent conforms_bnd_gets conforms_ensureDirectories
      conforms_createDirectory conforms_writeFile conforms_createDocxDocument
      conforms_modify conforms_saveState) simp_all

lemma conforms_page_iteration:
  assumes "c < chapter"
  shows "conforms c ol (page_iteration env progressCallback chapter page)
           [ChatCompletion writer_system (page_prompt chapter page ol)]"
proof -
  have cb: "conforms c ol (if progressCallback
          then bnd (perform env (ProgressCallback chapter page)) (\<lambda>_. ret ())
          else ret ()) []"
    by (intro conforms_if conforms_bnd_silent conforms_perform conforms_ret) simp_all
  have rest: "conforms c ol
      (bnd (perform env (ChatCompletion writer_system (page_prompt chapter page (outline m))))
        (\<lambda>pageContent. bnd (saveProgress env pageContent chapter page)
          (\<lambda>_. modify (\<lambda>m. m\<lparr>bookContent := record_page chapter page pageContent (bookContent m)\<rparr>))))
      [ChatCompletion writer_system (page_prompt chapter page ol)]" if "outline m = ol" for m
  proof -
    have "conforms c ol
      (bnd (perform env (ChatCompletion writer_system (page_prompt chapter page ol)))
        (\<lambda>pageContent. bnd (saveProgress env pageContent chapter page)
          (\<lambda>_. modify (\<lambda>m. m\<lparr>bookContent := record_page chapter page pageContent (bookContent m)\<rparr>))))
      ([ChatCompletion writer_system (page_prompt chapter page ol)] @ [])"
      by (intro conforms_bnd conforms_perform_page conforms_bnd_silent conforms_saveProgress
          conforms_modify) (simp_all add: agree_upto_record_page assms)
    with that show ?thesis by simp
  qed
  show ?thesis
    unfolding page_iteration_def
    by (intro conforms_bnd_silent cb conforms_bnd_gets rest)
qed

lemma conforms_chapter_iteration:
  assumes "c < chapter"
  shows "conforms c ol (chapter_iteration env progressCallback pagesPerChapter chapter)
           (map (\<lambda>page. ChatCompletion writer_system (page_prompt chapter page ol))
              [1..<Suc pagesPerChapter])"
proof -
  have "conforms c ol (chapter_iteration env progressCallback pagesPerChapter chapter)
     (concat (map (\<lambda>page. [ChatCompletion writer_system (page_prompt chapter page ol)])
                [1..<Suc pagesPerChapter]) @ [])"
    unfolding chapter_iteration_def
    by (intro conforms_bnd conforms_for_each conforms_page_iteration assms conforms_saveState)
  moreover have "concat (map (\<lambda>x. [f x]) xs) = map f xs" for f :: "nat \<Rightarrow> request" and xs
    by (induction xs) simp_all
  ultimately show ?thesis by simp
qed

lemma conforms_chapters_from:
  assumes "c < startChapter"
  shows "conforms c ol
           (for_each [startChapter..<Suc chapters]
              (\<lambda>chapter. chapter_iteration env progressCallback pagesPerChapter chapter))
           (unit_requests ol startChapter chapters pagesPerChapter)"
  unfolding unit_requests_def
  using assms by (intro conforms_for_each conforms_chapter_iteration) auto

lemma conforms_compile_final_book: "conforms c ol (compile_final_book env) []"
  unfolding compile_final_book_def compileBook_def compileJSON_def compileDOCX_def
  by (intro conforms_bnd_silent conforms_bnd_gets conforms_ensureDirectories conforms_writeFile
      conforms_perform conforms_ret conforms_gets) simp_all

lemma conforms_generate_cover: "conforms c ol (generate_cover env theme) []"
  unfolding generate_cover_def saveCoverImage_def response_buffer_def
  by (intro conforms_bnd_gets conforms_if conforms_bnd_silent conforms_perform conforms_modify
      conforms_writeFile conforms_ret conforms_raise) simp_all

lemma conforms_handler: "conforms c ol (bnd (saveState env) (\<lambda>_. raise error)) []"
  by (intro conforms_bnd_silent conforms_saveState conforms_raise)

lemma handler_fails: "\<exists>e'. fst (bnd (saveState env) (\<lambda>_. raise error) w) = Inl e'"
  by (simp add: bnd_apply raise_apply split: prod.splits sum.splits)


lemma post_catch_fails:
  assumes p1: "post c ol E w (p w)" and h: "\<And>e. conforms c ol (h e) []"
    and f: "\<And>e w. \<exists>e'. fst (h e w) = Inl e'"
  shows "post c ol E w (try_catch p h w)"
proof -
  obtain r1 w1 where pw: "p w = (r1, w1)" by (cases "p w")
  from p1 pw have o1: "outline (mgr w1) = ol" by (simp add: post_def)
  show ?thesis
  proof (cases r1)
    case (Inr x)
    with pw p1 show ?thesis by (simp add: try_catch_apply)
  next
    case (Inl e)
    from h [of e] o1 have q: "post c ol [] w1 (h e w1)" by (simp add: conforms_def)
    from f [of e w1] obtain e' where fl: "fst (h e w1) = Inl e'" by blast
    from p1 pw obtain evs1 where e1: "events w1 = events w @ evs1"
      and c1: "list_all (\<lambda>cp. agree_upto c (cp_bookContent cp) (bookContent (mgr w))) (checkpoint_writes evs1)"
      and p1': "prefix (page_requests evs1) E"
      and a1: "agree_upto c (bookContent (mgr w1)) (bookContent (mgr w))"
      by (auto simp: post_def)
    from q obtain evs2 where e2: "events (snd (h e w1)) = events w1 @ evs2"
      and c2: "list_all (\<lambda>cp. agree_upto c (cp_bookContent cp) (bookContent (mgr w1))) (checkpoint_writes evs2)"
      and p2: "page_requests evs2 = []"
      and a2: "agree_upto c (bookContent (mgr (snd (h e w1)))) (bookContent (mgr w1))"
      and o2: "outline (mgr (snd (h e w1))) = ol"
      by (auto simp: post_def)
    have c2': "list_all (\<lambda>cp. agree_upto c (cp_bookContent cp) (bookContent (mgr w))) (checkpoint_writes evs2)"
      using c2 a1 by (auto simp: list_all_iff intro: agree_upto_trans)
    have "try_catch p h w = h e w1" using pw Inl by (simp add: try_catch_apply)
    then show ?thesis
      unfolding post_def
      using o2 agree_upto_trans [OF a2 a1] e1 e2 c1 c2' p1' p2 fl
      by (auto intro!: exI [of _ "evs1 @ evs2"])
  qed
qed

lemma preserves_ret: "preserves f (ret x)" by (simp add: preserves_def ret_apply)
lemma preserves_raise: "preserves f (raise e)" by (simp add: preserves_def raise_apply)
lemma preserves_gets: "preserves f (gets g)" by (simp add: preserves_def gets_apply)

lemma preserves_perform:
  "(\<And>w evs. f (w\<lparr>events := evs\<rparr>) = f w) \<Longrightarrow> preserves f (perform env r)"
  by (simp add: preserves_def perform_apply)

lemma preserves_modify:
  "(\<And>w. f (w\<lparr>mgr := g (mgr w)\<rparr>) = f w) \<Longrightarrow> preserves f (modify g)"
  by (simp add: preserves_def modify_apply)

lemma preserves_bnd: "preserves f p \<Longrightarrow> (\<And>x. preserves f (k x)) \<Longrightarrow> preserves f (bnd p k)"
  by (auto simp: preserves_def bnd_apply split: prod.splits sum.splits) (metis snd_conv)+

lemma preserves_try_catch:
  "preserves f p \<Longrightarrow> (\<And>e. preserves f (h e)) \<Longrightarrow> preserves f (try_catch p h)"
  by (auto simp: preserves_def try_catch_apply split: prod.splits sum.splits) (metis snd_conv)+

lemma preserves_for_each: "(\<And>x. preserves f (body x)) \<Longrightarrow> preserves f (for_each xs body)"
  by (induction xs) (simp_all add: preserves_ret preserves_bnd)

lemma preserves_if: "preserves f p \<Longrightarrow> preserves f q \<Longrightarrow> preserves f (if b then p else q)"
  by simp

lemma preserves_fs_writeFile:
  "(\<And>w evs. f (w\<lparr>events := evs\<rparr>) = f w) \<Longrightarrow> (\<And>w fs. f (w\<lparr>files := fs\<rparr>) = f w)
   \<Longrightarrow> preserves f (fs_writeFile env path x)"
  by (simp add: preserves_def fs_writeFile_def bnd_apply perform_apply split: prod.splits sum.splits)

lemma preserves_createDirectory:
  "(\<And>w evs. f (w\<lparr>events := evs\<rparr>) = f w) \<Longrightarrow> preserves f (FileHandler_createDirectory env d)"
  unfolding FileHandler_createDirectory_def fs_mkdir_def
  by (intro preserves_try_catch preserves_bnd preserves_perform preserves_ret preserves_raise)

lemma preserves_ensureDirectories:
  "(\<And>w evs. f (w\<lparr>events := evs\<rparr>) = f w) \<Longrightarrow> preserves f (ensureDirectories env)"
  unfolding ensureDirectories_def
  by (intro preserves_bnd preserves_gets preserves_for_each preserves_createDirectory)

lemma preserves_writeFile:
  "(\<And>w evs. f (w\<lparr>events := evs\<rparr>) = f w) \<Longrightarrow> (\<And>w fs. f (w\<lparr>files := fs\<rparr>) = f w)
   \<Longrightarrow> preserves f (FileHandler_writeFile env path x)"
  unfolding FileHandler_writeFile_def
  by (intro preserves_try_catch preserves_bnd preserves_createDirectory preserves_fs_writeFile
      preserves_raise)

lemma generate_cover_progress:
  "preserves (\<lambda>w. progressState (mgr w)) (generate_cover env theme)"
  unfolding generate_cover_def saveCoverImage_def response_buffer_def
  by (intro preserves_bnd preserves_gets preserves_if preserves_perform preserves_modify
      preserves_writeFile preserves_ret preserves_raise) simp_all

lemma loadState_True:
  assumes "map_of (files w) (statePath (mgr w)) = Some (StateDoc cp)"
    and "fst (loadState env w) = Inr True"
  shows "snd (loadState env w) =
           w\<lparr>mgr := (mgr w)\<lparr>progressState := cp_progress cp,
                              characters := new_Map (cp_characters cp),
                              plotPoints := new_Set (cp_plotPoints cp),
                              bookContent := cp_bookContent cp,
                              outline := cp_outline cp,
                              metadata := cp_metadata cp\<rparr>,
              events := events w @ [ReadFile (statePath (mgr w))]\<rparr>"
  using assms
  by (auto simp: loadState_def StateManager_loadState_def FileHandler_readFile_def
      fs_readFile_apply run_simps split: sum.splits if_splits)

lemma conformsD: "conforms c ol p E \<Longrightarrow> outline (mgr w) = ol \<Longrightarrow> post c ol E w (p w)"
  by (simp add: conforms_def)

text \<open>What the run does after the checkpoint is loaded.\<close>

lemma after_load:
  assumes o: "outline (mgr w1) = ol" and c: "lastCompletedChapter (progressState (mgr w1)) = c"
  shows "post c ol (unit_requests ol (Suc c) chapters pagesPerChapter) w1
           (try_catch
              (bnd (generate_cover env theme) (\<lambda>_.
               bnd (generate_chapters env chapters pagesPerChapter progressCallback) (\<lambda>_.
               compile_final_book env)))
              (\<lambda>error. bnd (saveState env) (\<lambda>_. raise error)) w1)"
proof (rule post_catch_fails [OF _ conforms_handler handler_fails])
  let ?E = "unit_requests ol (Suc c) chapters pagesPerChapter"
  let ?loop = "for_each [Suc c..<Suc chapters]
                 (\<lambda>chapter. chapter_iteration env progressCallback pagesPerChapter chapter)"
  obtain r2 w2 where g: "generate_cover env theme w1 = (r2, w2)"
    by (cases "generate_cover env theme w1")
  have p2: "post c ol [] w1 (r2, w2)"
    using conformsD [OF conforms_generate_cover o, of c env theme] g by simp
  then have o2: "outline (mgr w2) = ol" by (simp add: post_def)
  have c2: "lastCompletedChapter (progressState (mgr w2)) = c"
    using generate_cover_progress [of env theme] g c by (simp add: preserves_def) (metis snd_conv)
  have rest: "conforms c ol (bnd ?loop (\<lambda>_. compile_final_book env)) (?E @ [])"
    by (intro conforms_bnd conforms_chapters_from conforms_compile_final_book) simp
  have same: "bnd (generate_chapters env chapters pagesPerChapter progressCallback)
                (\<lambda>_. compile_final_book env) w2
              = bnd ?loop (\<lambda>_. compile_final_book env) w2"
    using c2 by (simp add: generate_chapters_def bnd_apply gets_apply)
  have "post c ol ([] @ ?E) w1
          (bnd (generate_cover env theme) (\<lambda>_.
             bnd (generate_chapters env chapters pagesPerChapter progressCallback) (\<lambda>_.
             compile_final_book env)) w1)"
  proof (rule post_then [OF p2, of _ "\<lambda>_. bnd ?loop (\<lambda>_. compile_final_book env)"])
    fix x assume "r2 = Inr x"
    with g same conformsD [OF rest o2]
    show "bnd (generate_cover env theme) (\<lambda>_.
             bnd (generate_chapters env chapters pagesPerChapter progressCallback) (\<lambda>_.
             compile_final_book env)) w1 = bnd ?loop (\<lambda>_. compile_final_book env) w2
          \<and> post c ol ?E w2 (bnd ?loop (\<lambda>_. compile_final_book env) w2)"
      by (simp add: bnd_apply)
  next
    fix e assume "r2 = Inl e"
    with g show "bnd (generate_cover env theme) (\<lambda>_.
             bnd (generate_chapters env chapters pagesPerChapter progressCallback) (\<lambda>_.
             compile_final_book env)) w1 = (Inl e, w2)"
      by (simp add: bnd_apply)
  qed
  then show "post c ol ?E w1
          (bnd (generate_cover env theme) (\<lambda>_.
             bnd (generate_chapters env chapters pagesPerChapter progressCallback) (\<lambda>_.
             compile_final_book env)) w1)"
    by simp
qed


lemma appends_ret: "appends P (ret x)" by (simp add: appends_def ret_apply)
lemma appends_raise: "appends P (raise e)" by (simp add: appends_def raise_apply)
lemma appends_gets: "appends P (gets f)" by (simp add: appends_def gets_apply)
lemma appends_perform: "P r \<Longrightarrow> appends P (perform env r)"
  by (simp add: appends_def perform_apply)

lemma appends_seq:
  assumes "\<exists>evs. events w1 = events w @ evs \<and> list_all P evs"
    and "\<exists>evs. events w2 = events w1 @ evs \<and> list_all P evs"
  shows "\<exists>evs. events w2 = events w @ evs \<and> list_all P evs"
proof -
  from assms obtain a b where "events w1 = events w @ a" "list_all P a"
    "events w2 = events w1 @ b" "list_all P b" by blast
  then have "events w2 = events w @ (a @ b) \<and> list_all P (a @ b)" by simp
  then show ?thesis by blast
qed

lemma appends_bnd:
  assumes "appends P p" "\<And>x. appends P (k x)"
  shows "appends P (bnd p k)"
  unfolding appends_def
proof
  fix w
  obtain r w1 where pw: "p w = (r, w1)" by (cases "p w")
  from assms(1) pw have a: "\<exists>evs. events w1 = events w @ evs \<and> list_all P evs"
    by (auto simp: appends_def dest: spec [of _ w])
  show "\<exists>evs. events (snd (bnd p k w)) = events w @ evs \<and> list_all P evs"
  proof (cases r)
    case (Inl e)
    with pw a show ?thesis by (simp add: bnd_apply)
  next
    case (Inr x)
    from assms(2) [of x] have "\<exists>evs. events (snd (k x w1)) = events w1 @ evs \<and> list_all P evs"
      by (simp add: appends_def)
    from appends_seq [OF a this] pw Inr show ?thesis by (simp add: bnd_apply)
  qed
qed

lemma appends_try_catch:
  assumes "appends P p" "\<And>e. appends P (h e)"
  shows "appends P (try_catch p h)"
  unfolding appends_def
proof
  fix w
  obtain r w1 where pw: "p w = (r, w1)" by (cases "p w")
  from assms(1) pw have a: "\<exists>evs. events w1 = events w @ evs \<and> list_all P evs"
    by (auto simp: appends_def dest: spec [of _ w])
  show "\<exists>evs. events (snd (try_catch p h w)) = events w @ evs \<and> list_all P evs"
  proof (cases r)
    case (Inr x)
    with pw a show ?thesis by (simp add: try_catch_apply)
  next
    case (Inl e)
    from assms(2) [of e] have "\<exists>evs. events (snd (h e w1)) = events w1 @ evs \<and> list_all P evs"
      by (simp add: appends_def)
    from appends_seq [OF a this] pw Inl show ?thesis by (simp add: try_catch_apply)
  qed
qed

lemma appends_for_each: "(\<And>x. appends P (body x)) \<Longrightarrow> appends P (for_each xs body)"
  by (induction xs) (simp_all add: appends_ret appends_bnd)

lemma appends_ensureDirectories: "appends is_mkdir (ensureDirectories env)"
  unfolding ensureDirectories_def FileHandler_createDirectory_def fs_mkdir_def
  by (intro appends_bnd appends_gets appends_for_each appends_try_catch appends_perform
      appends_ret appends_raise) simp

lemma mkdirs_silent:
  "list_all is_mkdir evs \<Longrightarrow> page_requests evs = [] \<and> checkpoint_writes evs = []"
proof (induction evs)
  case Nil
  then show ?case by simp
next
  case (Cons r evs)
  then show ?case by (cases r) (simp_all add: page_requests_def)
qed

lemma preservesD: "preserves f p \<Longrightarrow> p w = (r, w') \<Longrightarrow> f w' = f w"
  by (auto simp: preserves_def dest: spec [of _ w])

lemma appendsD:
  "appends P p \<Longrightarrow> p w = (r, w') \<Longrightarrow> \<exists>evs. events w' = events w @ evs \<and> list_all P evs"
  by (auto simp: appends_def dest: spec [of _ w])

lemma postD:
  assumes "post c ol E w res"
  shows "\<exists>evs. events (snd res) = events w @ evs
           \<and> list_all (\<lambda>cp. agree_upto c (cp_bookContent cp) (bookContent (mgr w))) (checkpoint_writes evs)
           \<and> prefix (page_requests evs) E
           \<and> agree_upto c (bookContent (mgr (snd res))) (bookContent (mgr w))"
  using assms unfolding post_def by blast

text \<open>
  Claim C1, as the code has it.  Let the state file of the book hold a checkpoint \<open>cp\<close> with
  \<^verbatim>\<open>lastCompletedChapter\<close> \<open>= c\<close>, and let \<^verbatim>\<open>createBookPageByPage\<close> be restarted so that the
  checkpoint loads (the directories can be made and \<^verbatim>\<open>loadState\<close> returns \<^verbatim>\<open>true\<close>).  Then,
  whatever the environment does afterwards and whatever \<^verbatim>\<open>lastCompletedPage\<close> is:
  the page requests of the run are an initial segment of the requests for the pages
  \<open>1..pagesPerChapter\<close> of the chapters \<open>c + 1..chapters\<close> in this order, so generation
  starts at page 1 of chapter \<open>c + 1\<close>; every checkpoint the run writes agrees with \<open>cp\<close> on
  the content of the chapters up to \<open>c\<close>; and so does the content in memory at the end.
\<close>

theorem resume_starts_after_last_chapter:
  assumes stored: "map_of (files w) (statePath (BookManager name)) = Some (StateDoc cp)"
    and loaded: "fst (bnd (ensureDirectories env) (\<lambda>_. loadState env)
                 (w\<lparr>mgr := BookManager name\<rparr>)) = Inr True"
  shows "\<exists>evs. events (snd (createBookPageByPage env theme chapters pagesPerChapter
                   progressCallback name w)) = events w @ evs
           \<and> list_all (\<lambda>cp'. agree_upto (lastCompletedChapter (cp_progress cp))
                           (cp_bookContent cp') (cp_bookContent cp)) (checkpoint_writes evs)
           \<and> prefix (page_requests evs)
               (unit_requests (cp_outline cp) (Suc (lastCompletedChapter (cp_progress cp)))
                  chapters pagesPerChapter)
           \<and> agree_upto (lastCompletedChapter (cp_progress cp))
               (bookContent (mgr (snd (createBookPageByPage env theme chapters pagesPerChapter
                   progressCallback name w)))) (cp_bookContent cp)"
proof -
  let ?w0 = "w\<lparr>mgr := BookManager name\<rparr>"
  let ?c = "lastCompletedChapter (cp_progress cp)"
  let ?h = "\<lambda>error. bnd (saveState env) (\<lambda>_. raise error)"
  let ?rest = "bnd (generate_cover env theme) (\<lambda>_.
               bnd (generate_chapters env chapters pagesPerChapter progressCallback) (\<lambda>_.
               compile_final_book env))"
  obtain ra wa where ea: "ensureDirectories env ?w0 = (ra, wa)"
    by (cases "ensureDirectories env ?w0")
  from loaded ea have ra: "ra = Inr ()" and la: "fst (loadState env wa) = Inr True"
    by (auto simp: bnd_apply split: sum.splits)
  have ma: "mgr wa = BookManager name"
    using preservesD [OF preserves_ensureDirectories ea, of mgr] by simp
  have fa: "files wa = files w"
    using preservesD [OF preserves_ensureDirectories ea, of files] by simp
  from appendsD [OF appends_ensureDirectories ea] obtain evs_a
    where eva: "events wa = events w @ evs_a" and mk: "list_all is_mkdir evs_a"
    by auto
  define w1 where "w1 = snd (loadState env wa)"
  have w1: "w1 = wa\<lparr>mgr := (mgr wa)\<lparr>progressState := cp_progress cp,
                              characters := new_Map (cp_characters cp),
                              plotPoints := new_Set (cp_plotPoints cp),
                              bookContent := cp_bookContent cp,
                              outline := cp_outline cp,
                              metadata := cp_metadata cp\<rparr>,
              events := events wa @ [ReadFile (statePath (mgr wa))]\<rparr>"
    unfolding w1_def using stored la ma fa by (intro loadState_True) simp_all
  have lw: "loadState env wa = (Inr True, w1)"
    using la by (simp add: w1_def prod_eq_iff)
  have tried: "createBookPageByPage_try env theme chapters pagesPerChapter progressCallback ?w0
               = ?rest w1"
    using ea ra lw by (simp add: createBookPageByPage_try_def resume_or_outline_def bnd_apply ret_apply)
  have run: "createBookPageByPage env theme chapters pagesPerChapter progressCallback name w
               = try_catch ?rest ?h w1"
    using tried by (simp add: createBookPageByPage_def try_catch_apply)
  have o1: "outline (mgr w1) = cp_outline cp"
    and c1: "lastCompletedChapter (progressState (mgr w1)) = ?c"
    and b1: "bookContent (mgr w1) = cp_bookContent cp"
    and e1: "events w1 = events w @ (evs_a @ [ReadFile (statePath (mgr wa))])"
    by (simp_all add: w1 eva)
  from postD [OF after_load [OF o1 c1, of chapters pagesPerChapter env theme progressCallback]]
  obtain evs where e2: "events (snd (try_catch ?rest ?h w1)) = events w1 @ evs"
    and cw: "list_all (\<lambda>cp'. agree_upto ?c (cp_bookContent cp') (cp_bookContent cp)) (checkpoint_writes evs)"
    and pr: "prefix (page_requests evs) (unit_requests (cp_outline cp) (Suc ?c) chapters pagesPerChapter)"
    and ag: "agree_upto ?c (bookContent (mgr (snd (try_catch ?rest ?h w1)))) (cp_bookContent cp)"
    unfolding b1 by blast
  from mkdirs_silent [OF mk] have s: "page_requests evs_a = []" "checkpoint_writes evs_a = []"
    by simp_all
  have ev: "events (snd (try_catch ?rest ?h w1)) = events w @ (evs_a @ [ReadFile (statePath (mgr wa))] @ evs)"
    using e1 e2 by simp
  have cw': "checkpoint_writes (evs_a @ [ReadFile (statePath (mgr wa))] @ evs) = checkpoint_writes evs"
    using s by simp
  have pr': "page_requests (evs_a @ [ReadFile (statePath (mgr wa))] @ evs) = page_requests evs"
    using s by (simp add: page_requests_def)
  show ?thesis
    unfolding run
    using ev cw pr ag cw' pr'
    by (intro exI [of _ "evs_a @ [ReadFile (statePath (mgr wa))] @ evs"]) simp
qed


lemma resumed_load:
  "fst (bnd (ensureDirectories down_env) (\<lambda>_. loadState down_env)
          (resumed_world\<lparr>mgr := BookManager ''b''\<rparr>)) = Inr True"
  by (simp add: pipeline_defs run_simps down_env_simps resumed_world_def BookManager_def
      cong: prod.case_cong_weak)

lemma resumed_run_events:
  "page_requests (events (snd (createBookPageByPage down_env ''T'' 2 2 False ''b'' resumed_world)))
     = [ChatCompletion writer_system
          ''Write page 1 of chapter 2. Use the following outline as context: An outline'']"
  by (simp add: pipeline_defs run_simps down_env_simps resumed_world_def BookManager_def
      interrupted_checkpoint_def new_Map_def new_Set_def page_requests_def page_prompt_def
      show_nat_small upt_conv_Cons cong: prod.case_cong_weak)

text \<open>
  Claim C1 as stated fails.  The checkpoint says chapter 1, page 1, and a chapter has two
  pages, so the claim asks for page 2 of chapter 1 next; the restarted run asks the
  service for page 1 of chapter 2.
\<close>

theorem resume_skips_rest_of_chapter_counterexample:
  "lastCompletedChapter (cp_progress interrupted_checkpoint) = 1
   \<and> lastCompletedPage (cp_progress interrupted_checkpoint) = 1
   \<and> map_of (files resumed_world) (statePath (BookManager ''b'')) = Some (StateDoc interrupted_checkpoint)
   \<and> page_requests (events (snd (createBookPageByPage down_env ''T'' 2 2 False ''b'' resumed_world)))
     = [ChatCompletion writer_system
          ''Write page 1 of chapter 2. Use the following outline as context: An outline'']"
  by (simp add: resumed_run_events) (simp add: interrupted_checkpoint_def resumed_world_def BookManager_def)

text \<open>The resumed run above satisfies the hypotheses of the theorem.\<close>

theorem resume_starts_after_last_chapter_witness:
  "map_of (files resumed_world) (statePath (BookManager ''b'')) = Some (StateDoc interrupted_checkpoint)
   \<and> fst (bnd (ensureDirectories down_env) (\<lambda>_. loadState down_env)
          (resumed_world\<lparr>mgr := BookManager ''b''\<rparr>)) = Inr True
   \<and> (\<exists>evs. events (snd (createBookPageByPage down_env ''T'' 2 2 False ''b'' resumed_world))
               = events resumed_world @ evs
           \<and> list_all (\<lambda>cp'. agree_upto (lastCompletedChapter (cp_progress interrupted_checkpoint))
                           (cp_bookContent cp') (cp_bookContent interrupted_checkpoint))
                 (checkpoint_writes evs)
           \<and> prefix (page_requests evs)
               (unit_requests (cp_outline interrupted_checkpoint)
                  (Suc (lastCompletedChapter (cp_progress interrupted_checkpoint))) 2 2)
           \<and> agree_upto (lastCompletedChapter (cp_progress interrupted_checkpoint))
               (bookContent (mgr (snd (createBookPageByPage down_env ''T'' 2 2 False ''b''
                  resumed_world)))) (cp_bookContent interrupted_checkpoint))"
proof -
  have stored: "map_of (files resumed_world) (statePath (BookManager ''b''))
                  = Some (StateDoc interrupted_checkpoint)"
    by (simp add: resumed_world_def BookManager_def)
  show ?thesis
    using stored resumed_load
      resume_starts_after_last_chapter [OF stored resumed_load, of "''T''" 2 2 False]
    by simp
qed


section \<open>Loading a checkpoint\<close>

lemma read_world: "snd (fs_readFile env path w) = w\<lparr>events := events w @ [ReadFile path]\<rparr>"
  by (simp add: fs_readFile_apply)

lemma StateManager_loadState_failed_read:
  assumes "fst (fs_readFile env path w) = Inl e"
  shows "StateManager_loadState env path w =
           (if error_code e = Some ''ENOENT'' then Inr None else Inl e,
            w\<lparr>events := events w @ [ReadFile path]\<rparr>)"
proof -
  obtain r w' where rw: "fs_readFile env path w = (r, w')" by (cases "fs_readFile env path w")
  with assms have "r = Inl e" by simp
  moreover from rw have "w' = w\<lparr>events := events w @ [ReadFile path]\<rparr>"
    using read_world [of env path w] by simp
  ultimately show ?thesis
    using rw by (simp add: StateManager_loadState_def FileHandler_readFile_def run_simps)
qed

lemma StateManager_loadState_unparsable:
  assumes "fst (fs_readFile env path w) = Inr c" "c = Text t \<or> c = Buffer b"
  shows "fst (StateManager_loadState env path w) = Inl SyntaxError"
proof -
  obtain r w' where rw: "fs_readFile env path w = (r, w')" by (cases "fs_readFile env path w")
  with assms have "r = Inr c" by simp
  then show ?thesis
    using rw assms(2)
    by (auto simp add: StateManager_loadState_def FileHandler_readFile_def run_simps)
qed

lemma loadState_failed_read:
  assumes "fst (fs_readFile env (statePath (mgr w)) w) = Inl e"
  shows "fst (loadState env w) = (if error_code e = Some ''ENOENT'' then Inr False else Inl e)"
  using StateManager_loadState_failed_read [OF assms]
  by (simp add: loadState_def run_simps)

lemma loadState_unparsable:
  assumes "fst (fs_readFile env (statePath (mgr w)) w) = Inr c" "c = Text t \<or> c = Buffer b"
  shows "fst (loadState env w) = Inl SyntaxError"
proof -
  obtain r w' where rw: "StateManager_loadState env (statePath (mgr w)) w = (r, w')"
    by (cases "StateManager_loadState env (statePath (mgr w)) w")
  with StateManager_loadState_unparsable [OF assms] have "r = Inl SyntaxError" by simp
  with rw show ?thesis by (simp add: loadState_def run_simps)
qed

lemma legacy_loadState_failed_read:
  assumes "fst (fs_readFile env ''book_state.json'' w) = Inl e"
  shows "fst (legacy_loadState env w) = Inr False"
proof -
  obtain r w' where rw: "fs_readFile env ''book_state.json'' w = (r, w')"
    by (cases "fs_readFile env ''book_state.json'' w")
  with assms have "r = Inl e" by simp
  then show ?thesis using rw by (simp add: legacy_loadState_def run_simps)
qed

lemma legacy_loadState_unparsable:
  assumes "fst (fs_readFile env ''book_state.json'' w) = Inr c" "c = Text t \<or> c = Buffer b"
  shows "fst (legacy_loadState env w) = Inr False"
proof -
  obtain r w' where rw: "fs_readFile env ''book_state.json'' w = (r, w')"
    by (cases "fs_readFile env ''book_state.json'' w")
  with assms have "r = Inr c" by simp
  then show ?thesis using rw assms(2) by (auto simp add: legacy_loadState_def run_simps)
qed

lemma try_catch_returns:
  "\<exists>b. fst (try_catch p (\<lambda>error. ret x) w) = Inr b"
proof (cases "p w")
  case (Pair r w')
  then show ?thesis by (cases r) (simp_all add: try_catch_apply ret_apply)
qed

lemma legacy_loadState_returns: "\<exists>b. fst (legacy_loadState env w) = Inr b"
  unfolding legacy_loadState_def by (rule try_catch_returns)

text \<open>
  Claim C9, as the code has it.  Let the read of the state file fail with the error \<open>e\<close>.
  \<^verbatim>\<open>StateManager.loadState\<close> returns \<^verbatim>\<open>null\<close> when the code of \<open>e\<close> is \<^verbatim>\<open>ENOENT\<close> and throws \<open>e\<close>
  otherwise, and the \<^verbatim>\<open>loadState\<close> of \<^verbatim>\<open>book_manager.mjs\<close> accordingly returns \<^verbatim>\<open>false\<close> or
  throws \<open>e\<close>.  A state file that is read but is not JSON (a text, or the bytes of a buffer)
  is a \<open>SyntaxError\<close> for both.  The \<^verbatim>\<open>loadState\<close> of the single script never throws: it
  returns \<^verbatim>\<open>false\<close> for every failed read, whatever its cause, and for a state file that is
  not JSON.
\<close>

theorem checkpoint_load_outcomes:
  "(fst (fs_readFile env path w) = Inl e \<longrightarrow>
      fst (StateManager_loadState env path w)
        = (if error_code e = Some ''ENOENT'' then Inr None else Inl e))
   \<and> (fst (fs_readFile env2 path2 w2) = Inr c2 \<and> (c2 = Text t2 \<or> c2 = Buffer b2) \<longrightarrow>
      fst (StateManager_loadState env2 path2 w2) = Inl SyntaxError)
   \<and> (fst (fs_readFile env3 (statePath (mgr w3)) w3) = Inl e3 \<longrightarrow>
      fst (loadState env3 w3) = (if error_code e3 = Some ''ENOENT'' then Inr False else Inl e3))
   \<and> (fst (fs_readFile env4 (statePath (mgr w4)) w4) = Inr c4 \<and> (c4 = Text t4 \<or> c4 = Buffer b4)
      \<longrightarrow> fst (loadState env4 w4) = Inl SyntaxError)
   \<and> (fst (fs_readFile env5 ''book_state.json'' w5) = Inl e5 \<longrightarrow>
      fst (legacy_loadState env5 w5) = Inr False)
   \<and> (fst (fs_readFile env6 ''book_state.json'' w6) = Inr c6 \<and> (c6 = Text t6 \<or> c6 = Buffer b6)
      \<longrightarrow> fst (legacy_loadState env6 w6) = Inr False)
   \<and> (\<exists>b. fst (legacy_loadState env7 w7) = Inr b)"
  using StateManager_loadState_failed_read [of env path w e]
    StateManager_loadState_unparsable [of env2 path2 w2 c2 t2 b2]
    loadState_failed_read [of env3 w3 e3]
    loadState_unparsable [of env4 w4 c4 t4 b4]
    legacy_loadState_failed_read [of env5 w5 e5]
    legacy_loadState_unparsable [of env6 w6 c6 t6 b6]
    legacy_loadState_returns [of env7 w7]
  by simp

text \<open>
  Claim C9 as stated fails for the single script: a state file that exists but cannot be
  read (\<^verbatim>\<open>EACCES\<close>) is reported as no saved state, not as an error.
\<close>

theorem legacy_loadState_swallows_counterexample:
  "fst (fs_readFile denied_env ''book_state.json'' (fresh_world (LegacyBookManager ''2024'')))
     = Inl (FsError ''EACCES'')
   \<and> fst (legacy_loadState denied_env (fresh_world (LegacyBookManager ''2024''))) = Inr False"
  by (simp add: legacy_loadState_def fs_readFile_apply run_simps denied_env_simps fresh_world_def)

text \<open>
  The hypotheses hold: a missing file in the happy environment, a state file that is a
  text and not JSON, and the denied read.
\<close>

theorem checkpoint_load_outcomes_witness:
  "fst (fs_readFile happy_env ''output/books/b/metadata/book_state.json''
          (fresh_world (BookManager ''b''))) = Inl (FsError ''ENOENT'')
   \<and> fst (StateManager_loadState happy_env ''output/books/b/metadata/book_state.json''
          (fresh_world (BookManager ''b''))) = Inr None
   \<and> fst (fs_readFile happy_env ''output/books/b/metadata/book_state.json''
          ((fresh_world (BookManager ''b''))
             \<lparr>files := [(''output/books/b/metadata/book_state.json'', Text ''hello'')]\<rparr>))
        = Inr (Text ''hello'')
   \<and> fst (StateManager_loadState happy_env ''output/books/b/metadata/book_state.json''
          ((fresh_world (BookManager ''b''))
             \<lparr>files := [(''output/books/b/metadata/book_state.json'', Text ''hello'')]\<rparr>))
        = Inl SyntaxError
   \<and> fst (fs_readFile denied_env (statePath (mgr (fresh_world (BookManager ''b''))))
          (fresh_world (BookManager ''b''))) = Inl (FsError ''EACCES'')
   \<and> fst (loadState denied_env (fresh_world (BookManager ''b''))) = Inl (FsError ''EACCES'')
   \<and> fst (loadState happy_env
          ((fresh_world (BookManager ''b''))
             \<lparr>files := [(''output/books/b/metadata/book_state.json'', Text ''hello'')]\<rparr>))
        = Inl SyntaxError
   \<and> fst (fs_readFile denied_env ''book_state.json'' (fresh_world (LegacyBookManager ''2024'')))
        = Inl (FsError ''EACCES'')
   \<and> fst (legacy_loadState denied_env (fresh_world (LegacyBookManager ''2024''))) = Inr False
   \<and> fst (fs_readFile happy_env ''book_state.json''
          ((fresh_world (LegacyBookManager ''2024''))\<lparr>files := [(''book_state.json'', Text ''hello'')]\<rparr>))
        = Inr (Text ''hello'')
   \<and> fst (legacy_loadState happy_env
          ((fresh_world (LegacyBookManager ''2024''))\<lparr>files := [(''book_state.json'', Text ''hello'')]\<rparr>))
        = Inr False"
proof -
  let ?sp = "''output/books/b/metadata/book_state.json''"
  let ?wb = "fresh_world (BookManager ''b'')"
  let ?wt = "(fresh_world (BookManager ''b''))\<lparr>files := [(?sp, Text ''hello'')]\<rparr>"
  let ?wl = "fresh_world (LegacyBookManager ''2024'')"
  let ?wlt = "(fresh_world (LegacyBookManager ''2024''))\<lparr>files := [(''book_state.json'', Text ''hello'')]\<rparr>"
  have a: "fst (fs_readFile happy_env ?sp ?wb) = Inl (FsError ''ENOENT'')"
    by (simp add: fs_readFile_apply happy_env_simps fresh_world_def)
  have b: "fst (fs_readFile happy_env ?sp ?wt) = Inr (Text ''hello'')"
    by (simp add: fs_readFile_apply happy_env_simps fresh_world_def)
  have c: "fst (fs_readFile denied_env (statePath (mgr ?wb)) ?wb) = Inl (FsError ''EACCES'')"
    by (simp add: fs_readFile_apply denied_env_simps fresh_world_def)
  have sp: "statePath (mgr ?wt) = ?sp"
    by (simp add: fresh_world_def BookManager_def)
  have d: "fst (fs_readFile denied_env ''book_state.json'' ?wl) = Inl (FsError ''EACCES'')"
    by (simp add: fs_readFile_apply denied_env_simps fresh_world_def)
  have e: "fst (fs_readFile happy_env ''book_state.json'' ?wlt) = Inr (Text ''hello'')"
    by (simp add: fs_readFile_apply happy_env_simps fresh_world_def)
  note T = checkpoint_load_outcomes [where env = happy_env and path = ?sp and w = ?wb
        and e = "FsError ''ENOENT''"
        and ?env2.0 = happy_env and ?path2.0 = ?sp and ?w2.0 = ?wt and ?c2.0 = "Text ''hello''"
        and ?t2.0 = "''hello''"
        and ?env3.0 = denied_env and ?w3.0 = ?wb and ?e3.0 = "FsError ''EACCES''"
        and ?env4.0 = happy_env and ?w4.0 = ?wt and ?c4.0 = "Text ''hello''" and ?t4.0 = "''hello''"
        and ?env5.0 = denied_env and ?w5.0 = ?wl and ?e5.0 = "FsError ''EACCES''"
        and ?env6.0 = happy_env and ?w6.0 = ?wlt and ?c6.0 = "Text ''hello''"
        and ?t6.0 = "''hello''"]
  have r1: "fst (StateManager_loadState happy_env ?sp ?wb) = Inr None"
    using T a by simp
  have r2: "fst (StateManager_loadState happy_env ?sp ?wt) = Inl SyntaxError"
    using T b by blast
  have r3: "fst (loadState denied_env ?wb) = Inl (FsError ''EACCES'')"
    using T c by simp
  have r4: "fst (loadState happy_env ?wt) = Inl SyntaxError"
    using T b unfolding sp by blast
  have r5: "fst (legacy_loadState denied_env ?wl) = Inr False"
    using T d by blast
  have r6: "fst (legacy_loadState happy_env ?wlt) = Inr False"
    using T e by blast
  from a r1 b r2 c r3 r4 d r5 e r6 show ?thesis
    by (intro conjI)
qed

section \<open>Saving and loading a checkpoint\<close>

lemma json_clone_serializable: "json_serializable v \<Longrightarrow> json_clone v = v"
proof (induction v rule: json_clone.induct)
  case (1 xs)
  then have "map (\<lambda>x. if x = JUndefined then JNull else json_clone x) xs = map (\<lambda>x. x) xs"
    by (intro map_cong) (auto simp: list_all_iff)
  then show ?case by simp
next
  case (2 kvs)
  have ser: "json_serializable v" if "(k, v) \<in> set kvs" for k v
    using that "2.prems" by (auto simp: list_all_iff)
  have def: "v \<noteq> JUndefined" if "(k, v) \<in> set kvs" for k v
    using ser [OF that] by auto
  have "filter (\<lambda>(k, v). v \<noteq> JUndefined) kvs = kvs"
    using def by (auto simp: filter_id_conv)
  moreover have "map (\<lambda>(k, v). (k, json_clone v)) kvs = map (\<lambda>x. x) kvs"
    using "2.IH" ser def by (intro map_cong) auto
  ultimately show ?case by simp
qed simp_all

lemma foldl_update_fresh:
  "distinct (map fst kvs) \<Longrightarrow> fst ` set kvs \<inter> fst ` set acc = {} \<Longrightarrow>
   foldl (\<lambda>m (k, v). AList.update k v m) acc kvs = acc @ kvs"
proof (induction kvs arbitrary: acc)
  case Nil
  then show ?case by simp
next
  case (Cons kv kvs)
  obtain k v where kv: "kv = (k, v)" by (cases kv)
  from Cons.prems kv have fresh: "k \<notin> fst ` set acc" by auto
  then have upd: "AList.update k v acc = acc @ [(k, v)]"
    by (induction acc) auto
  from Cons.prems kv have "fst ` set kvs \<inter> fst ` set (acc @ [(k, v)]) = {}"
    by auto
  with Cons.IH [of "acc @ [(k, v)]"] Cons.prems kv upd show ?case by simp
qed

lemma new_Map_distinct: "distinct (map fst kvs) \<Longrightarrow> new_Map kvs = kvs"
  using foldl_update_fresh [of kvs "[]"] by (simp add: new_Map_def)

lemma foldl_set_add_fresh:
  "distinct xs \<Longrightarrow> set xs \<inter> set acc = {} \<Longrightarrow> foldl (\<lambda>s x. set_add x s) acc xs = acc @ xs"
proof (induction xs arbitrary: acc)
  case Nil
  then show ?case by simp
next
  case (Cons x xs)
  then have "set xs \<inter> set (acc @ [x]) = {}" by auto
  with Cons.IH [of "acc @ [x]"] Cons.prems show ?case by (simp add: set_add_def)
qed

lemma new_Set_distinct: "distinct xs \<Longrightarrow> new_Set xs = xs"
  using foldl_set_add_fresh [of xs "[]"] by (simp add: new_Set_def)

lemma stringify_snapshot:
  "serializable_characters m \<Longrightarrow>
   (snapshot m)\<lparr>cp_characters := map (\<lambda>(name, r). (name, json_clone r)) (cp_characters (snapshot m))\<rparr>
     = snapshot m"
proof -
  assume "serializable_characters m"
  then have "map (\<lambda>(name, r). (name, json_clone r)) (characters m) = map (\<lambda>x. x) (characters m)"
    by (intro map_cong) (auto simp: serializable_characters_def list_all_iff json_clone_serializable)
  then show ?thesis by (simp add: snapshot_def)
qed

lemma saveState_success:
  assumes "saveState env w = (Inr (), w1)"
  shows "w1 = w\<lparr>files := AList.update (statePath (mgr w))
                    (JSON_stringify (StateDoc (snapshot (mgr w)))) (files w),
                 events := events w @ [Mkdir (dirname (statePath (mgr w))),
                    WriteFile (statePath (mgr w)) (JSON_stringify (StateDoc (snapshot (mgr w))))]\<rparr>"
  using assms
  by (auto simp add: saveState_def StateManager_saveState_def FileHandler_writeFile_def
      FileHandler_createDirectory_def fs_mkdir_apply fs_writeFile_apply run_simps
      split: sum.splits)

lemma legacy_saveState_success:
  assumes "legacy_saveState env w = (Inr (), w1)"
  shows "w1 = w\<lparr>files := AList.update ''book_state.json''
                    (JSON_stringify (StateDoc (snapshot (mgr w)))) (files w),
                 events := events w @
                   [WriteFile ''book_state.json'' (JSON_stringify (StateDoc (snapshot (mgr w))))]\<rparr>"
  using assms
  by (auto simp add: legacy_saveState_def fs_writeFile_apply run_simps split: sum.splits)

text \<open>
  Claim C10.  Take a manager whose character table is a \<^verbatim>\<open>Map\<close> and whose plot points are a
  \<^verbatim>\<open>Set\<close>, with character records that JSON can carry.  If \<^verbatim>\<open>saveState\<close> succeeds and the
  read of the state file is then answered, \<^verbatim>\<open>loadState\<close> into any manager of the same book
  returns \<^verbatim>\<open>true\<close> and leaves a manager with the state that was saved: the same progress,
  book content, outline and metadata, the same character entries and the same plot
  points.  This holds for both classes.
\<close>

theorem save_load_round_trip:
  "(well_formed (mgr w) \<and> serializable_characters (mgr w)
      \<and> saveState env w = (Inr (), w1)
      \<and> respond env (length (events w1)) (ReadFile (statePath (mgr w))) = Inr s
      \<and> statePath m' = statePath (mgr w)
    \<longrightarrow> fst (loadState env (w1\<lparr>mgr := m'\<rparr>)) = Inr True
        \<and> (let m = mgr (snd (loadState env (w1\<lparr>mgr := m'\<rparr>)))
            in progressState m = progressState (mgr w)
               \<and> characters m = characters (mgr w)
               \<and> plotPoints m = plotPoints (mgr w)
               \<and> bookContent m = bookContent (mgr w)
               \<and> outline m = outline (mgr w)
               \<and> metadata m = metadata (mgr w)))
   \<and> (well_formed (mgr u) \<and> serializable_characters (mgr u)
      \<and> legacy_saveState env u = (Inr (), u1)
      \<and> respond env (length (events u1)) (ReadFile ''book_state.json'') = Inr s'
    \<longrightarrow> fst (legacy_loadState env (u1\<lparr>mgr := n'\<rparr>)) = Inr True
        \<and> (let m = mgr (snd (legacy_loadState env (u1\<lparr>mgr := n'\<rparr>)))
            in progressState m = progressState (mgr u)
               \<and> characters m = characters (mgr u)
               \<and> plotPoints m = plotPoints (mgr u)
               \<and> bookContent m = bookContent (mgr u)
               \<and> outline m = outline (mgr u)
               \<and> metadata m = metadata (mgr u)))"
proof (intro conjI impI)
  assume h: "well_formed (mgr w) \<and> serializable_characters (mgr w)
      \<and> saveState env w = (Inr (), w1)
      \<and> respond env (length (events w1)) (ReadFile (statePath (mgr w))) = Inr s
      \<and> statePath m' = statePath (mgr w)"
  then have w1: "w1 = w\<lparr>files := AList.update (statePath (mgr w)) (StateDoc (snapshot (mgr w))) (files w),
                 events := events w @ [Mkdir (dirname (statePath (mgr w))),
                    WriteFile (statePath (mgr w)) (StateDoc (snapshot (mgr w)))]\<rparr>"
    using saveState_success [of env w w1] by (simp add: stringify_snapshot)
  from h have r: "respond env (Suc (Suc (length (events w)))) (ReadFile (statePath (mgr w))) = Inr s"
    by (simp add: w1)
  have run: "loadState env (w1\<lparr>mgr := m'\<rparr>) =
      (Inr True, w1\<lparr>mgr := m'\<lparr>progressState := cp_progress (snapshot (mgr w)),
                characters := new_Map (cp_characters (snapshot (mgr w))),
                plotPoints := new_Set (cp_plotPoints (snapshot (mgr w))),
                bookContent := cp_bookContent (snapshot (mgr w)),
                outline := cp_outline (snapshot (mgr w)),
                metadata := cp_metadata (snapshot (mgr w))\<rparr>,
              events := events w1 @ [ReadFile (statePath (mgr w))]\<rparr>)"
    using h r
    by (simp add: w1 loadState_def StateManager_loadState_def FileHandler_readFile_def
        fs_readFile_apply run_simps update_conv')
  show "fst (loadState env (w1\<lparr>mgr := m'\<rparr>)) = Inr True" by (simp add: run)
  show "(let m = mgr (snd (loadState env (w1\<lparr>mgr := m'\<rparr>)))
         in progressState m = progressState (mgr w)
            \<and> characters m = characters (mgr w)
            \<and> plotPoints m = plotPoints (mgr w)
            \<and> bookContent m = bookContent (mgr w)
            \<and> outline m = outline (mgr w)
            \<and> metadata m = metadata (mgr w))"
    using h by (simp add: run snapshot_def well_formed_def new_Map_distinct new_Set_distinct)
next
  assume h: "well_formed (mgr u) \<and> serializable_characters (mgr u)
      \<and> legacy_saveState env u = (Inr (), u1)
      \<and> respond env (length (events u1)) (ReadFile ''book_state.json'') = Inr s'"
  then have u1: "u1 = u\<lparr>files := AList.update ''book_state.json'' (StateDoc (snapshot (mgr u))) (files u),
                 events := events u @ [WriteFile ''book_state.json'' (StateDoc (snapshot (mgr u)))]\<rparr>"
    using legacy_saveState_success [of env u u1] by (simp add: stringify_snapshot)
  from h have r: "respond env (Suc (length (events u))) (ReadFile ''book_state.json'') = Inr s'"
    by (simp add: u1)
  have run: "legacy_loadState env (u1\<lparr>mgr := n'\<rparr>) =
      (Inr True, u1\<lparr>mgr := n'\<lparr>progressState := cp_progress (snapshot (mgr u)),
                characters := new_Map (cp_characters (snapshot (mgr u))),
                plotPoints := new_Set (cp_plotPoints (snapshot (mgr u))),
                bookContent := cp_bookContent (snapshot (mgr u)),
                outline := cp_outline (snapshot (mgr u)),
                metadata := cp_metadata (snapshot (mgr u))\<rparr>,
              events := events u1 @ [ReadFile ''book_state.json'']\<rparr>)"
    using h r
    by (simp add: u1 legacy_loadState_def fs_readFile_apply run_simps update_conv')
  show "fst (legacy_loadState env (u1\<lparr>mgr := n'\<rparr>)) = Inr True" by (simp add: run)
  show "(let m = mgr (snd (legacy_loadState env (u1\<lparr>mgr := n'\<rparr>)))
         in progressState m = progressState (mgr u)
            \<and> characters m = characters (mgr u)
            \<and> plotPoints m = plotPoints (mgr u)
            \<and> bookContent m = bookContent (mgr u)
            \<and> outline m = outline (mgr u)
            \<and> metadata m = metadata (mgr u))"
    using h by (simp add: run snapshot_def well_formed_def new_Map_distinct new_Set_distinct)
qed


text \<open>
  A world that satisfies the hypotheses: the character record of \<open>Bob\<close> is parsed JSON
  (it has been through a checkpoint once), and every request succeeds.
\<close>

theorem save_load_round_trip_witness:
  "well_formed (mgr saved_world) \<and> serializable_characters (mgr saved_world)
   \<and> saveState happy_env saved_world = (Inr (), snd (saveState happy_env saved_world))
   \<and> respond happy_env (length (events (snd (saveState happy_env saved_world))))
        (ReadFile (statePath (mgr saved_world))) = Inr ''ok''
   \<and> statePath (BookManager ''b'') = statePath (mgr saved_world)
   \<and> fst (loadState happy_env ((snd (saveState happy_env saved_world))\<lparr>mgr := BookManager ''b''\<rparr>))
        = Inr True
   \<and> (let m = mgr (snd (loadState happy_env
          ((snd (saveState happy_env saved_world))\<lparr>mgr := BookManager ''b''\<rparr>)))
       in progressState m = progressState (mgr saved_world)
          \<and> characters m = characters (mgr saved_world)
          \<and> plotPoints m = plotPoints (mgr saved_world)
          \<and> bookContent m = bookContent (mgr saved_world)
          \<and> outline m = outline (mgr saved_world)
          \<and> metadata m = metadata (mgr saved_world))
   \<and> well_formed (mgr legacy_saved_world) \<and> serializable_characters (mgr legacy_saved_world)
   \<and> legacy_saveState happy_env legacy_saved_world
        = (Inr (), snd (legacy_saveState happy_env legacy_saved_world))
   \<and> respond happy_env (length (events (snd (legacy_saveState happy_env legacy_saved_world))))
        (ReadFile ''book_state.json'') = Inr ''ok''
   \<and> fst (legacy_loadState happy_env
        ((snd (legacy_saveState happy_env legacy_saved_world))\<lparr>mgr := LegacyBookManager ''2025''\<rparr>))
        = Inr True
   \<and> (let m = mgr (snd (legacy_loadState happy_env
        ((snd (legacy_saveState happy_env legacy_saved_world))\<lparr>mgr := LegacyBookManager ''2025''\<rparr>)))
       in progressState m = progressState (mgr legacy_saved_world)
          \<and> characters m = characters (mgr legacy_saved_world)
          \<and> plotPoints m = plotPoints (mgr legacy_saved_world)
          \<and> bookContent m = bookContent (mgr legacy_saved_world)
          \<and> outline m = outline (mgr legacy_saved_world)
          \<and> metadata m = metadata (mgr legacy_saved_world))"
proof -
  have wf: "well_formed (mgr saved_world) \<and> serializable_characters (mgr saved_world)"
    by (simp add: saved_world_def fresh_world_def well_formed_def serializable_characters_def
        BookManager_def)
  have sv: "saveState happy_env saved_world = (Inr (), snd (saveState happy_env saved_world))"
    by (simp add: pipeline_defs run_simps happy_env_simps saved_world_def fresh_world_def
        BookManager_def cong: prod.case_cong_weak)
  have rd: "respond happy_env (length (events (snd (saveState happy_env saved_world))))
        (ReadFile (statePath (mgr saved_world))) = Inr ''ok''"
    by (simp add: happy_env_simps)
  have sp: "statePath (BookManager ''b'') = statePath (mgr saved_world)"
    by (simp add: saved_world_def fresh_world_def BookManager_def)
  have lwf: "well_formed (mgr legacy_saved_world) \<and> serializable_characters (mgr legacy_saved_world)"
    by (simp add: legacy_saved_world_def fresh_world_def well_formed_def
        serializable_characters_def LegacyBookManager_def)
  have lsv: "legacy_saveState happy_env legacy_saved_world
        = (Inr (), snd (legacy_saveState happy_env legacy_saved_world))"
    by (simp add: legacy_saveState_def fs_writeFile_apply run_simps happy_env_simps)
  have lrd: "respond happy_env (length (events (snd (legacy_saveState happy_env legacy_saved_world))))
        (ReadFile ''book_state.json'') = Inr ''ok''"
    by (simp add: happy_env_simps)
  show ?thesis
    using wf sv rd sp lwf lsv lrd
      save_load_round_trip [of saved_world happy_env "snd (saveState happy_env saved_world)"
        "''ok''" "BookManager ''b''" legacy_saved_world
        "snd (legacy_saveState happy_env legacy_saved_world)" "''ok''" "LegacyBookManager ''2025''"]
    by simp
qed


section \<open>The checkpoints of a sequential run\<close>

text \<open>
  Claim C2: at every checkpoint written during a sequential run, the persisted cursor
  references the last unit whose content was persisted, and the persisted content map
  has an entry for a page exactly when the page has been generated and checkpointed.

  \<^verbatim>\<open>saveProgress\<close> sets the cursor and writes the checkpoint; \<^verbatim>\<open>createBookPageByPage\<close> enters
  the page into \<^verbatim>\<open>bookContent\<close> only after \<^verbatim>\<open>saveProgress\<close> has returned.  Take a book of one
  chapter of one page and an environment in which every request succeeds.  The first
  run, on a new directory, sets the cover and fails in \<^verbatim>\<open>saveCoverImage\<close>; its \<^verbatim>\<open>catch\<close> writes a
  checkpoint with the cursor at \<open>(0, 0)\<close>, the cover and no content.  The second run loads
  this checkpoint and reaches the page loop: the next checkpoint, written by
  \<^verbatim>\<open>saveProgress\<close> for page 1 of chapter 1, has the cursor at \<open>(1, 1)\<close> and an empty content
  map.
\<close>

theorem checkpoint_cursor_ahead_of_content:
  "fst (createBookPageByPage happy_env ''T'' 1 1 False ''b'' (fresh_world (BookManager ''b'')))
     = Inl (TypeError ''response.buffer is not a function'')
   \<and> take 2 (map (\<lambda>cp. (lastCompletedChapter (cp_progress cp),
                         lastCompletedPage (cp_progress cp),
                         coverImage (cp_metadata cp), cp_bookContent cp))
       (checkpoint_writes (events (snd (createBookPageByPage happy_env ''T'' 1 1 False ''b''
          (snd (createBookPageByPage happy_env ''T'' 1 1 False ''b''
             (fresh_world (BookManager ''b''))))))))) 
     = [(0, 0, Some ''https://images.example/cover.png'', []),
        (1, 1, Some ''https://images.example/cover.png'', [])]"
  by (simp add: pipeline_defs run_simps happy_env_simps fresh_world_def BookManager_def
      show_nat_small upt_conv_Cons record_page_def new_Map_def new_Set_def
      cong: prod.case_cong_weak)


section \<open>A failure inside a controller\<close>

text \<open>What the \<^verbatim>\<open>catch\<close> block of a controller makes of a failure \<open>e\<close> of its \<^verbatim>\<open>try\<close> block.\<close>

lemma createBookPageByPage_catch:
  assumes "createBookPageByPage_try env theme chapters pagesPerChapter progressCallback
             (w\<lparr>mgr := BookManager name\<rparr>) = (Inl e, w1)"
  shows "createBookPageByPage env theme chapters pagesPerChapter progressCallback name w
           = (case saveState env w1 of
                (Inl e', w2) \<Rightarrow> (Inl e', w2)
              | (Inr x, w2) \<Rightarrow> (Inl e, w2))"
  using assms
  by (simp add: createBookPageByPage_def try_catch_apply bnd_apply raise_apply
      split: prod.splits sum.splits)

lemma legacy_createBookPageByPage_catch:
  assumes "legacy_createBookPageByPage_try env theme chapters pagesPerChapter progressCallback
             (v\<lparr>mgr := LegacyBookManager (clock env (length (events v)))\<rparr>) = (Inl e, v1)"
  shows "legacy_createBookPageByPage env theme chapters pagesPerChapter progressCallback v
           = (case legacy_saveState env v1 of
                (Inl e', v2) \<Rightarrow> (Inl e', v2)
              | (Inr x, v2) \<Rightarrow> (Inl e, v2))"
  using assms
  by (simp add: legacy_createBookPageByPage_def save_and_rethrow_def try_catch_apply bnd_apply
      raise_apply split: prod.splits sum.splits)

text \<open>A failure of the chapter loop is the failure of the \<^verbatim>\<open>try\<close> block.\<close>

lemma loop_failure_leaves_try:
  assumes "ensureDirectories env w = (Inr (), wa)"
    and "resume_or_outline env theme wa = (Inr (), wb)"
    and "generate_cover env theme wb = (Inr (), wc)"
    and "generate_chapters env chapters pagesPerChapter progressCallback wc = (Inl e, w1)"
  shows "createBookPageByPage_try env theme chapters pagesPerChapter progressCallback w
           = (Inl e, w1)"
  using assms by (simp add: createBookPageByPage_try_def bnd_apply)

lemma legacy_loop_failure_leaves_try:
  assumes "legacy_resume_or_outline env theme chapters v = (Inr (), va)"
    and "legacy_generate_cover env theme va = (Inr (), vb)"
    and "legacy_generate_chapters env chapters pagesPerChapter progressCallback vb = (Inl e, v1)"
  shows "legacy_createBookPageByPage_try env theme chapters pagesPerChapter progressCallback v
           = (Inl e, v1)"
  using assms by (simp add: legacy_createBookPageByPage_try_def bnd_apply)

lemma catch_and_return:
  "\<exists>x. fst (try_catch p (\<lambda>error. ret y) w) = Inr x"
proof (cases "p w")
  case (Pair r w')
  then show ?thesis by (cases r) (simp_all add: try_catch_apply ret_apply)
qed

text \<open>
  Claim C3 (as amended).  When the chapter loop of a sequential controller ends in a
  failure \<open>e\<close>, and more generally when the \<^verbatim>\<open>try\<close> block of a controller does, the controller
  calls \<^verbatim>\<open>saveState\<close> once on the state the failure left.  When that write succeeds, the state
  file holds the checkpoint of this state and the controller fails with the same \<open>e\<close>; when
  the write fails itself, the controller fails with the failure of the write.  This holds
  for \<^verbatim>\<open>createBookPageByPage\<close> of the refactored pipeline, and for \<^verbatim>\<open>createBookPageByPage\<close> and
  \<^verbatim>\<open>createBookWithBatch\<close> of the single script (where \<^verbatim>\<open>loadState\<close> runs before the \<^verbatim>\<open>try\<close>).
  In the single script \<^verbatim>\<open>loadProgress\<close> and \<^verbatim>\<open>extractMetadata\<close>, which the page loop calls, and
  \<^verbatim>\<open>loadState\<close> and \<^verbatim>\<open>saveOutline\<close>, which run before it, never fail: each catches every failure
  of its own, so these failures do not reach the controller.
\<close>

theorem failure_saves_state_then_rethrows:
  "(ensureDirectories env (w\<lparr>mgr := BookManager name\<rparr>) = (Inr (), wa)
      \<and> resume_or_outline env theme wa = (Inr (), wb)
      \<and> generate_cover env theme wb = (Inr (), wc)
      \<and> generate_chapters env chapters pagesPerChapter progressCallback wc = (Inl e, w1) \<longrightarrow>
      createBookPageByPage env theme chapters pagesPerChapter progressCallback name w
        = (case saveState env w1 of
             (Inl e', w2) \<Rightarrow> (Inl e', w2)
           | (Inr x, w2) \<Rightarrow> (Inl e, w2)))
   \<and> (createBookPageByPage_try env theme chapters pagesPerChapter progressCallback
        (w\<lparr>mgr := BookManager name\<rparr>) = (Inl e, w1) \<longrightarrow>
      createBookPageByPage env theme chapters pagesPerChapter progressCallback name w
        = (case saveState env w1 of
             (Inl e', w2) \<Rightarrow> (Inl e', w2)
           | (Inr x, w2) \<Rightarrow> (Inl e, w2)))
   \<and> (saveState env w1 = (Inr (), w2) \<longrightarrow>
        map_of (files w2) (statePath (mgr w1))
          = Some (JSON_stringify (StateDoc (snapshot (mgr w1)))))
   \<and> (legacy_resume_or_outline env theme chapters
          (v\<lparr>mgr := LegacyBookManager (clock env (length (events v)))\<rparr>) = (Inr (), va)
      \<and> legacy_generate_cover env theme va = (Inr (), vb)
      \<and> legacy_generate_chapters env chapters pagesPerChapter progressCallback vb = (Inl e, v1)
      \<longrightarrow>
      legacy_createBookPageByPage env theme chapters pagesPerChapter progressCallback v
        = (case legacy_saveState env v1 of
             (Inl e', v2) \<Rightarrow> (Inl e', v2)
           | (Inr x, v2) \<Rightarrow> (Inl e, v2)))
   \<and> (legacy_createBookPageByPage_try env theme chapters pagesPerChapter progressCallback
        (v\<lparr>mgr := LegacyBookManager (clock env (length (events v)))\<rparr>) = (Inl e, v1) \<longrightarrow>
      legacy_createBookPageByPage env theme chapters pagesPerChapter progressCallback v
        = (case legacy_saveState env v1 of
             (Inl e', v2) \<Rightarrow> (Inl e', v2)
           | (Inr x, v2) \<Rightarrow> (Inl e, v2)))
   \<and> (legacy_loadState env (u\<lparr>mgr := LegacyBookManager (clock env (length (events u)))\<rparr>)
          = (Inr hasState, u0)
        \<and> createBookWithBatch_try env inherited formatting theme chapters language u0
          = Some (Inl e, u1) \<longrightarrow>
      createBookWithBatch env inherited formatting theme chapters language u
        = Some (case legacy_saveState env u1 of
                  (Inl e', u2) \<Rightarrow> (Inl e', u2)
                | (Inr x, u2) \<Rightarrow> (Inl e, u2)))
   \<and> (legacy_saveState env v1 = (Inr (), v2) \<longrightarrow>
        map_of (files v2) ''book_state.json''
          = Some (JSON_stringify (StateDoc (snapshot (mgr v1)))))
   \<and> (\<exists>d. fst (loadProgress env chapter page v) = Inr d)
   \<and> fst (extractMetadata env c v) = Inr ()
   \<and> (\<exists>b. fst (legacy_loadState env v) = Inr b)
   \<and> fst (saveOutline env v) = Inr ()"
proof (intro conjI impI)
  assume "ensureDirectories env (w\<lparr>mgr := BookManager name\<rparr>) = (Inr (), wa)
      \<and> resume_or_outline env theme wa = (Inr (), wb)
      \<and> generate_cover env theme wb = (Inr (), wc)
      \<and> generate_chapters env chapters pagesPerChapter progressCallback wc = (Inl e, w1)"
  then have "createBookPageByPage_try env theme chapters pagesPerChapter progressCallback
        (w\<lparr>mgr := BookManager name\<rparr>) = (Inl e, w1)"
    by (simp add: loop_failure_leaves_try)
  then show "createBookPageByPage env theme chapters pagesPerChapter progressCallback name w
        = (case saveState env w1 of (Inl e', w2) \<Rightarrow> (Inl e', w2) | (Inr x, w2) \<Rightarrow> (Inl e, w2))"
    by (rule createBookPageByPage_catch)
next
  assume "createBookPageByPage_try env theme chapters pagesPerChapter progressCallback
        (w\<lparr>mgr := BookManager name\<rparr>) = (Inl e, w1)"
  then show "createBookPageByPage env theme chapters pagesPerChapter progressCallback name w
        = (case saveState env w1 of (Inl e', w2) \<Rightarrow> (Inl e', w2) | (Inr x, w2) \<Rightarrow> (Inl e, w2))"
    by (rule createBookPageByPage_catch)
next
  assume "saveState env w1 = (Inr (), w2)"
  from saveState_success [OF this]
  show "map_of (files w2) (statePath (mgr w1)) = Some (JSON_stringify (StateDoc (snapshot (mgr w1))))"
    by (simp add: update_conv')
next
  assume "legacy_resume_or_outline env theme chapters
          (v\<lparr>mgr := LegacyBookManager (clock env (length (events v)))\<rparr>) = (Inr (), va)
      \<and> legacy_generate_cover env theme va = (Inr (), vb)
      \<and> legacy_generate_chapters env chapters pagesPerChapter progressCallback vb = (Inl e, v1)"
  then have "legacy_createBookPageByPage_try env theme chapters pagesPerChapter progressCallback
        (v\<lparr>mgr := LegacyBookManager (clock env (length (events v)))\<rparr>) = (Inl e, v1)"
    by (simp add: legacy_loop_failure_leaves_try)
  then show "legacy_createBookPageByPage env theme chapters pagesPerChapter progressCallback v
        = (case legacy_saveState env v1 of (Inl e', v2) \<Rightarrow> (Inl e', v2) | (Inr x, v2) \<Rightarrow> (Inl e, v2))"
    by (rule legacy_createBookPageByPage_catch)
next
  assume "legacy_createBookPageByPage_try env theme chapters pagesPerChapter progressCallback
        (v\<lparr>mgr := LegacyBookManager (clock env (length (events v)))\<rparr>) = (Inl e, v1)"
  then show "legacy_createBookPageByPage env theme chapters pagesPerChapter progressCallback v
        = (case legacy_saveState env v1 of (Inl e', v2) \<Rightarrow> (Inl e', v2) | (Inr x, v2) \<Rightarrow> (Inl e, v2))"
    by (rule legacy_createBookPageByPage_catch)
next
  assume "legacy_loadState env (u\<lparr>mgr := LegacyBookManager (clock env (length (events u)))\<rparr>)
          = (Inr hasState, u0)
        \<and> createBookWithBatch_try env inherited formatting theme chapters language u0
          = Some (Inl e, u1)"
  then show "createBookWithBatch env inherited formatting theme chapters language u
        = Some (case legacy_saveState env u1 of (Inl e', u2) \<Rightarrow> (Inl e', u2) | (Inr x, u2) \<Rightarrow> (Inl e, u2))"
    by (simp add: createBookWithBatch_def save_and_rethrow_def bnd_apply raise_apply
        split: prod.splits sum.splits)
next
  assume "legacy_saveState env v1 = (Inr (), v2)"
  from legacy_saveState_success [OF this]
  show "map_of (files v2) ''book_state.json'' = Some (JSON_stringify (StateDoc (snapshot (mgr v1))))"
    by (simp add: update_conv')
next
  show "\<exists>d. fst (loadProgress env chapter page v) = Inr d"
    unfolding loadProgress_def by (rule catch_and_return)
next
  show "fst (extractMetadata env c v) = Inr ()"
    by (simp add: extractMetadata_def try_catch_apply ret_apply split: prod.splits sum.splits)
next
  show "\<exists>b. fst (legacy_loadState env v) = Inr b"
    unfolding legacy_loadState_def by (rule catch_and_return)
next
  show "fst (saveOutline env v) = Inr ()"
    by (simp add: saveOutline_def try_catch_apply ret_apply split: prod.splits sum.splits)
qed

text \<open>
  The claim as stated fails when the checkpoint cannot be written.  A run resumes after
  chapter 1 and asks for page 1 of chapter 2; the service is down, so the chapter loop
  fails with the error of the service; the disk is full, so the \<^verbatim>\<open>saveState\<close> of the \<^verbatim>\<open>catch\<close>
  block fails, and the caller sees the error of the write.
\<close>

theorem write_failure_replaces_error_counterexample:
  "fst (createBookPageByPage_try full_disk_env ''T'' 2 1 False resumed_world)
     = Inl (ServiceError ''rate limit'')
   \<and> page_requests (events (snd
        (createBookPageByPage_try full_disk_env ''T'' 2 1 False resumed_world)))
     = [ChatCompletion ''You are a professional book writer.''
          ''Write page 1 of chapter 2. Use the following outline as context: An outline'']
   \<and> fst (createBookPageByPage full_disk_env ''T'' 2 1 False ''b'' resumed_world)
     = Inl (FsError ''ENOSPC'')"
  by (simp add: pipeline_defs run_simps full_disk_env_simps resumed_world_def
      interrupted_checkpoint_def BookManager_def new_Map_def new_Set_def page_requests_def
      page_prompt_def writer_system_def show_nat_small upt_conv_Cons
      cong: prod.case_cong_weak)

text \<open>
  With the service down and a disk that can be written, the two sequential controllers
  resume after chapter 1 and fail in their chapter loop at page 1 of chapter 2, and the
  batch controller fails when it asks for the outline; each saves the state and fails
  with the error of the service.
\<close>

theorem failure_saves_state_then_rethrows_witness:
  "ensureDirectories down_env resumed_world
     = (Inr (), snd (ensureDirectories down_env resumed_world))
   \<and> resume_or_outline down_env ''T'' (snd (ensureDirectories down_env resumed_world))
     = (Inr (), snd (resume_or_outline down_env ''T''
                       (snd (ensureDirectories down_env resumed_world))))
   \<and> fst (generate_chapters down_env 2 1 False
            (snd (resume_or_outline down_env ''T''
                    (snd (ensureDirectories down_env resumed_world)))))
     = Inl (ServiceError ''rate limit'')
   \<and> fst (createBookPageByPage down_env ''T'' 2 1 False ''b'' resumed_world)
     = Inl (ServiceError ''rate limit'')
   \<and> map_of (files (snd (createBookPageByPage down_env ''T'' 2 1 False ''b'' resumed_world)))
        ''output/books/b/metadata/book_state.json''
     = Some (StateDoc interrupted_checkpoint)
   \<and> fst (legacy_generate_chapters down_env 2 1 False
            (snd (legacy_resume_or_outline down_env ''T'' 2
                    (legacy_resumed_world\<lparr>mgr := LegacyBookManager ''1700000000000''\<rparr>))))
     = Inl (ServiceError ''rate limit'')
   \<and> fst (legacy_createBookPageByPage down_env ''T'' 2 1 False legacy_resumed_world)
     = Inl (ServiceError ''rate limit'')
   \<and> fst (the (createBookWithBatch down_env (\<lambda>f. ret []) (\<lambda>ol cover. ret ()) ''T'' 2 ''en''
        legacy_resumed_world))
     = Inl (ServiceError ''rate limit'')"
proof -
  let ?w = "resumed_world"
  let ?wa = "snd (ensureDirectories down_env resumed_world)"
  let ?wb = "snd (resume_or_outline down_env ''T'' ?wa)"
  let ?wfail = "snd (generate_chapters down_env 2 1 False ?wb)"
  let ?v = "legacy_resumed_world"
  let ?vnew = "legacy_resumed_world\<lparr>mgr := LegacyBookManager ''1700000000000''\<rparr>"
  let ?va = "snd (legacy_resume_or_outline down_env ''T'' 2 ?vnew)"
  let ?vfail = "snd (legacy_generate_chapters down_env 2 1 False ?va)"
  let ?uload = "snd (legacy_loadState down_env ?vnew)"
  let ?ufail = "snd (the (createBookWithBatch_try down_env (\<lambda>f. ret []) (\<lambda>ol cover. ret ())
                ''T'' 2 ''en'' ?uload))"
  have w: "?w\<lparr>mgr := BookManager ''b''\<rparr> = ?w"
    by (simp add: resumed_world_def)
  have v: "?v\<lparr>mgr := LegacyBookManager (clock down_env (length (events ?v)))\<rparr> = ?vnew"
    by (simp add: down_env_simps)
  have p1: "ensureDirectories down_env ?w = (Inr (), ?wa)"
    by (simp add: pipeline_defs run_simps down_env_simps resumed_world_def BookManager_def
        cong: prod.case_cong_weak)
  have p2: "resume_or_outline down_env ''T'' ?wa = (Inr (), ?wb)"
    by (simp add: pipeline_defs run_simps down_env_simps resumed_world_def BookManager_def
        cong: prod.case_cong_weak)
  have p3: "generate_cover down_env ''T'' ?wb = (Inr (), ?wb)"
    by (simp add: pipeline_defs run_simps down_env_simps resumed_world_def BookManager_def
        interrupted_checkpoint_def cong: prod.case_cong_weak)
  have p4: "generate_chapters down_env 2 1 False ?wb = (Inl (ServiceError ''rate limit''), ?wfail)"
    by (simp add: pipeline_defs run_simps down_env_simps resumed_world_def BookManager_def
        interrupted_checkpoint_def upt_conv_Cons cong: prod.case_cong_weak)
  have s1: "fst (saveState down_env ?wfail) = Inr ()"
    by (simp add: pipeline_defs run_simps down_env_simps resumed_world_def BookManager_def
        interrupted_checkpoint_def upt_conv_Cons cong: prod.case_cong_weak)
  have m1: "statePath (mgr ?wfail) = ''output/books/b/metadata/book_state.json''
            \<and> JSON_stringify (StateDoc (snapshot (mgr ?wfail))) = StateDoc interrupted_checkpoint"
    by (simp add: pipeline_defs run_simps down_env_simps resumed_world_def BookManager_def
        interrupted_checkpoint_def upt_conv_Cons new_Map_def new_Set_def
        cong: prod.case_cong_weak)
  have q1: "legacy_resume_or_outline down_env ''T'' 2 ?vnew = (Inr (), ?va)"
    by (simp add: script_defs run_simps down_env_simps legacy_resumed_world_def
        cong: prod.case_cong_weak)
  have q2: "legacy_generate_cover down_env ''T'' ?va = (Inr (), ?va)"
    by (simp add: script_defs run_simps down_env_simps legacy_resumed_world_def
        interrupted_checkpoint_def cong: prod.case_cong_weak)
  have q3: "legacy_generate_chapters down_env 2 1 False ?va
              = (Inl (ServiceError ''rate limit''), ?vfail)"
    by (simp add: script_defs run_simps down_env_simps legacy_resumed_world_def
        interrupted_checkpoint_def upt_conv_Cons cong: prod.case_cong_weak)
  have s2: "fst (legacy_saveState down_env ?vfail) = Inr ()"
    by (simp add: legacy_saveState_def fs_writeFile_apply run_simps down_env_simps)
  have l3: "legacy_loadState down_env ?vnew = (Inr True, ?uload)"
    by (simp add: script_defs run_simps down_env_simps legacy_resumed_world_def
        cong: prod.case_cong_weak)
  have t3: "createBookWithBatch_try down_env (\<lambda>f. ret []) (\<lambda>ol cover. ret ()) ''T'' 2 ''en'' ?uload
              = Some (Inl (ServiceError ''rate limit''), ?ufail)"
    by (simp add: script_defs run_simps down_env_simps legacy_resumed_world_def
        cong: prod.case_cong_weak)
  have s3: "fst (legacy_saveState down_env ?ufail) = Inr ()"
    by (simp add: legacy_saveState_def fs_writeFile_apply run_simps down_env_simps)
  note T = failure_saves_state_then_rethrows [where env = down_env and theme = "''T''"
        and chapters = 2 and pagesPerChapter = 1 and progressCallback = False
        and name = "''b''" and w = ?w and wa = ?wa and wb = ?wb and wc = ?wb
        and e = "ServiceError ''rate limit''" and ?w1.0 = ?wfail
        and ?w2.0 = "snd (saveState down_env ?wfail)"
        and v = ?v and va = ?va and vb = ?va and ?v1.0 = ?vfail
        and u = ?v and hasState = True and ?u0.0 = ?uload
        and inherited = "\<lambda>f. ret []" and formatting = "\<lambda>ol cover. ret ()"
        and language = "''en''" and ?u1.0 = ?ufail, unfolded w v]
  have c1: "createBookPageByPage down_env ''T'' 2 1 False ''b'' ?w
              = (Inl (ServiceError ''rate limit''), snd (saveState down_env ?wfail))"
    using T p1 p2 p3 p4 s1 by (cases "saveState down_env ?wfail") auto
  have f1: "map_of (files (snd (saveState down_env ?wfail)))
              ''output/books/b/metadata/book_state.json'' = Some (StateDoc interrupted_checkpoint)"
    using T s1 m1 by (cases "saveState down_env ?wfail") auto
  have c2: "legacy_createBookPageByPage down_env ''T'' 2 1 False ?v
              = (Inl (ServiceError ''rate limit''), snd (legacy_saveState down_env ?vfail))"
    using T q1 q2 q3 s2 by (cases "legacy_saveState down_env ?vfail") auto
  have c3: "fst (the (createBookWithBatch down_env (\<lambda>f. ret []) (\<lambda>ol cover. ret ()) ''T'' 2 ''en'' ?v))
              = Inl (ServiceError ''rate limit'')"
    using T l3 t3 s3 by (cases "legacy_saveState down_env ?ufail") auto
  have r1: "fst (generate_chapters down_env 2 1 False ?wb) = Inl (ServiceError ''rate limit'')"
    using arg_cong [OF p4, of fst] by simp
  have r2: "fst (createBookPageByPage down_env ''T'' 2 1 False ''b'' ?w)
              = Inl (ServiceError ''rate limit'')"
    using arg_cong [OF c1, of fst] by simp
  have r3: "map_of (files (snd (createBookPageByPage down_env ''T'' 2 1 False ''b'' ?w)))
              ''output/books/b/metadata/book_state.json'' = Some (StateDoc interrupted_checkpoint)"
    using f1 arg_cong [OF c1, of snd] by simp
  have r4: "fst (legacy_generate_chapters down_env 2 1 False ?va)
              = Inl (ServiceError ''rate limit'')"
    using arg_cong [OF q3, of fst] by simp
  have r5: "fst (legacy_createBookPageByPage down_env ''T'' 2 1 False ?v)
              = Inl (ServiceError ''rate limit'')"
    using arg_cong [OF c2, of fst] by simp
  from p1 p2 r1 r2 r3 r4 r5 c3 show ?thesis
    by (intro conjI)
qed


section \<open>The language check\<close>

text \<open>
  Claim C7 (as amended): a new manager supports the languages en, es, fr, de, it, ja and
  zh, and \<^verbatim>\<open>translateContent\<close> with a target language that the manager does not support fails
  with the unsupported-language error before it makes any request: the world is as it
  was.
\<close>

theorem translateContent_rejects_unsupported:
  "set (supportedLanguages (LegacyBookManager createdDate))
     = {''en'', ''es'', ''fr'', ''de'', ''it'', ''ja'', ''zh''}
   \<and> (targetLanguage \<notin> set (supportedLanguages (mgr w)) \<longrightarrow>
        translateContent env c targetLanguage w
          = (Inl (LanguageError (''Language '' @ targetLanguage @ '' not supported'')), w))"
  by (auto simp add: translateContent_def LegacyBookManager_def run_simps)

text \<open>
  The claim as stated speaks of the run.  A run of \<^verbatim>\<open>createBookWithBatch\<close> for the language
  \<open>xx\<close> asks for the outline and for the cover first, makes five requests to the service
  in all, and ends with the \<^verbatim>\<open>TypeError\<close> of \<^verbatim>\<open>processBatchResults\<close>, not with the
  unsupported-language error.
\<close>

theorem batch_run_never_checks_language_counterexample:
  "(case createBookWithBatch happy_env (\<lambda>f. ret []) (\<lambda>ol cover. ret ()) ''T'' 1 ''xx''
           (fresh_world (LegacyBookManager ''2024'')) of
      None \<Rightarrow> False
    | Some (r, w') \<Rightarrow>
        r = Inl (TypeError ''(intermediate value).processBatchResults is not a function'')
        \<and> length (filter is_service_request (events w')) = 5
        \<and> take 2 (filter is_service_request (events w'))
            = [ChatCompletion systemPrompt (legacy_outlinePrompt ''T'' 1),
               ImageGenerate (coverPrompt ''T'')])"
  by (simp add: script_defs run_simps happy_env_simps fresh_world_def
      poll_until_completed.simps processBatchResults_apply upt_conv_Cons
      cong: prod.case_cong_weak)

text \<open>The language \<open>xx\<close> and a new manager.\<close>

theorem translateContent_rejects_unsupported_witness:
  "''xx'' \<notin> set (supportedLanguages (mgr (fresh_world (LegacyBookManager ''2024''))))
   \<and> translateContent happy_env ''Once'' ''xx'' (fresh_world (LegacyBookManager ''2024''))
       = (Inl (LanguageError ''Language xx not supported''), fresh_world (LegacyBookManager ''2024''))"
proof -
  have h: "''xx'' \<notin> set (supportedLanguages (mgr (fresh_world (LegacyBookManager ''2024''))))"
    by (simp add: fresh_world_def LegacyBookManager_def)
  show ?thesis
    using h translateContent_rejects_unsupported [of "''2024''" "''xx''"
        "fresh_world (LegacyBookManager ''2024'')" happy_env "''Once''"]
    by simp
qed


section \<open>The cover of a run that resumes\<close>

text \<open>
  Claim C8: when \<^verbatim>\<open>metadata.coverImage\<close> is set at the start of a run, the run makes no
  image-generation request.

  The two sequential controllers ask for the cover only when \<^verbatim>\<open>metadata.coverImage\<close> is
  unset.  \<^verbatim>\<open>createBookWithBatch\<close> asks for it always: in a run that loads a checkpoint whose
  cover is set, the second request to the service is the image generation, and the
  cover of the checkpoint is still the manager's cover at the end.
\<close>

theorem batch_run_regenerates_cover:
  "(case createBookWithBatch happy_env (\<lambda>f. ret []) (\<lambda>ol cover. ret ()) ''T'' 1 ''en''
           legacy_resumed_world of
      None \<Rightarrow> False
    | Some (r, w') \<Rightarrow>
        coverImage (metadata (mgr w')) = Some ''https://images.example/cover.png''
        \<and> take 2 (filter is_service_request (events w'))
            = [ChatCompletion systemPrompt (legacy_outlinePrompt ''T'' 1),
               ImageGenerate (coverPrompt ''T'')])"
  by (simp add: script_defs run_simps happy_env_simps legacy_resumed_world_def
      interrupted_checkpoint_def new_Map_def new_Set_def
      poll_until_completed.simps processBatchResults_apply upt_conv_Cons
      cong: prod.case_cong_weak)


section \<open>The context of a page prompt\<close>

text \<open>Programs that make no request to the service, and the requests of a page iteration.\<close>

lemma appends_modify: "appends P (modify f)"
  by (simp add: appends_def modify_apply)

lemma appends_fs_writeFile: "P (WriteFile path c) \<Longrightarrow> appends P (fs_writeFile env path c)"
  by (simp add: appends_def fs_writeFile_apply split: sum.splits)

lemma appends_createDirectory:
  "appends (\<lambda>r. \<not> is_service_request r) (FileHandler_createDirectory env d)"
  unfolding FileHandler_createDirectory_def fs_mkdir_def
  by (intro appends_try_catch appends_bnd appends_perform appends_ret appends_raise) simp

lemma appends_writeFile:
  "appends (\<lambda>r. \<not> is_service_request r) (FileHandler_writeFile env path c)"
  unfolding FileHandler_writeFile_def
  by (intro appends_try_catch appends_bnd appends_createDirectory appends_fs_writeFile
      appends_raise) simp

lemma appends_saveProgress:
  "appends (\<lambda>r. \<not> is_service_request r) (saveProgress env c chapter page)"
  unfolding saveProgress_def saveState_def StateManager_saveState_def ensureDirectories_def
    createDocxDocument_def
  by (intro appends_bnd appends_gets appends_for_each appends_createDirectory
      appends_writeFile appends_modify appends_try_catch appends_raise appends_perform) simp

lemma no_service_requests:
  "list_all (\<lambda>r. \<not> is_service_request r) evs \<Longrightarrow> filter is_service_request evs = []"
  by (induction evs) simp_all

lemma page_iteration_requests:
  "\<exists>evs. events (snd (page_iteration env progressCallback chapter page v)) = events v @ evs
     \<and> filter is_service_request evs
         \<in> {[], [ChatCompletion writer_system (page_prompt chapter page (outline (mgr v)))]}"
proof -
  let ?chat = "ChatCompletion writer_system (page_prompt chapter page (outline (mgr v)))"
  let ?tail = "\<lambda>pageContent.
     bnd (saveProgress env pageContent chapter page) (\<lambda>_.
     modify (\<lambda>m. m\<lparr>bookContent := record_page chapter page pageContent (bookContent m)\<rparr>))"
  have tail: "appends (\<lambda>r. \<not> is_service_request r) (?tail x)" for x
    by (intro appends_bnd appends_saveProgress appends_modify)
  have from_chat: "\<exists>evs. events (snd (bnd (perform env ?chat) ?tail w)) = events w @ evs
      \<and> filter is_service_request evs \<in> {[], [?chat]}" for w :: "manager world"
  proof (cases "respond env (length (events w)) ?chat")
    case (Inl e)
    then show ?thesis by (simp add: bnd_apply perform_apply)
  next
    case (Inr x)
    have "\<exists>evs. events (snd (?tail x (w\<lparr>events := events w @ [?chat]\<rparr>)))
              = events (w\<lparr>events := events w @ [?chat]\<rparr>) @ evs
            \<and> list_all (\<lambda>r. \<not> is_service_request r) evs"
      by (rule appendsD [OF tail surjective_pairing])
    then obtain evs where
      "events (snd (?tail x (w\<lparr>events := events w @ [?chat]\<rparr>))) = (events w @ [?chat]) @ evs"
      "list_all (\<lambda>r. \<not> is_service_request r) evs"
      by auto
    with Inr show ?thesis
      by (simp add: bnd_apply perform_apply no_service_requests)
  qed
  show ?thesis
  proof (cases progressCallback)
    case False
    then have "page_iteration env progressCallback chapter page v
                 = bnd (perform env ?chat) ?tail v"
      by (simp add: page_iteration_def bnd_apply ret_apply gets_apply)
    with from_chat [of v] show ?thesis by simp
  next
    case True
    let ?cb = "ProgressCallback chapter page"
    let ?v1 = "v\<lparr>events := events v @ [?cb]\<rparr>"
    show ?thesis
    proof (cases "respond env (length (events v)) ?cb")
      case (Inl e)
      with True have "events (snd (page_iteration env progressCallback chapter page v))
                        = events v @ [?cb]"
        by (simp add: page_iteration_def bnd_apply perform_apply)
      then show ?thesis by simp
    next
      case (Inr s)
      with True have eq: "page_iteration env progressCallback chapter page v
                   = bnd (perform env ?chat) ?tail ?v1"
        by (simp add: page_iteration_def bnd_apply perform_apply ret_apply gets_apply
            split: sum.splits)
      from from_chat [of ?v1] obtain evs where
        "events (snd (bnd (perform env ?chat) ?tail ?v1)) = events ?v1 @ evs"
        "filter is_service_request evs \<in> {[], [?chat]}"
        by blast
      then have "events (snd (page_iteration env progressCallback chapter page v))
                   = events v @ (?cb # evs)
                 \<and> filter is_service_request (?cb # evs) \<in> {[], [?chat]}"
        unfolding eq by simp
      then show ?thesis by blast
    qed
  qed
qed

lemma loadProgress_apply:
  "loadProgress env chapter p w
     = (Inr (case page_text env (files w) (length (events w)) chapter p of
               None \<Rightarrow> None
             | Some t \<Rightarrow> map_of (files w) (page_file chapter p ''.json'')),
        w\<lparr>events := events w @ [ReadFile (page_file chapter p ''.json'')]\<rparr>)"
  by (simp add: loadProgress_def page_text_def fs_readFile_apply run_simps
      split: sum.splits option.splits file_content.splits)

lemma loadProgress_content:
  "(case fst (loadProgress env chapter p w) of
      Inl e \<Rightarrow> None | Inr None \<Rightarrow> None | Inr (Some d) \<Rightarrow> Some (doc_content d))
     = page_text env (files w) (length (events w)) chapter p"
  by (simp add: loadProgress_def page_text_def fs_readFile_apply run_simps
      split: sum.splits option.splits file_content.splits)

lemma map_filter_agree:
  "(\<And>x. x \<in> set xs \<Longrightarrow> f x = g x) \<Longrightarrow> List.map_filter f xs = List.map_filter g xs"
  by (induction xs) (simp_all add: map_filter_simps split: option.splits)

lemma previous_pages_from:
  "previous_pages env chapter [a..<b] w
     = (Inr (List.map_filter
               (\<lambda>p. page_text env (files w) (length (events w) + (p - a)) chapter p) [a..<b]),
        w\<lparr>events := events w @ map (\<lambda>p. ReadFile (page_file chapter p ''.json'')) [a..<b]\<rparr>)"
proof (induction "b - a" arbitrary: a w)
  case 0
  then show ?case by (simp add: ret_apply map_filter_simps)
next
  case (Suc n)
  let ?w1 = "w\<lparr>events := events w @ [ReadFile (page_file chapter a ''.json'')]\<rparr>"
  from Suc.hyps(2) have ab: "a < b" and n: "n = b - Suc a" by simp_all
  from ab have upt: "[a..<b] = a # [Suc a..<b]" by (rule upt_conv_Cons)
  have same: "List.map_filter
       (\<lambda>p. page_text env (files ?w1) (length (events ?w1) + (p - Suc a)) chapter p) [Suc a..<b]
     = List.map_filter
       (\<lambda>p. page_text env (files w) (length (events w) + (p - a)) chapter p) [Suc a..<b]"
  proof (rule map_filter_agree)
    fix x assume "x \<in> set [Suc a..<b]"
    then have "length (events ?w1) + (x - Suc a) = length (events w) + (x - a)" by auto
    moreover have "files ?w1 = files w" by simp
    ultimately show "page_text env (files ?w1) (length (events ?w1) + (x - Suc a)) chapter x
                     = page_text env (files w) (length (events w) + (x - a)) chapter x"
      by (simp only:)
  qed
  obtain r where l: "loadProgress env chapter a w = (Inr r, ?w1)"
    by (simp add: loadProgress_apply)
  with loadProgress_content [of env "chapter" a w]
  have r: "page_text env (files w) (length (events w)) chapter a
             = (case r of None \<Rightarrow> None | Some d \<Rightarrow> Some (doc_content d))"
    by simp
  show ?case
    unfolding upt
    using l r Suc.hyps(1) [OF n, of ?w1] same
    by (simp add: bnd_apply ret_apply map_filter_simps split: option.splits)
qed

lemma appends_extractMetadata: "appends (\<lambda>r. True) (extractMetadata env c)"
  unfolding extractMetadata_def
  by (intro appends_try_catch appends_bnd appends_perform appends_ret appends_for_each
      appends_modify) (simp_all add: appends_modify split: prod.splits)

lemma appends_legacy_saveProgress: "appends (\<lambda>r. True) (legacy_saveProgress env c chapter page)"
  unfolding legacy_saveProgress_def saveAsDocx_def
  by (intro appends_bnd appends_fs_writeFile appends_perform) simp_all

lemma generate_page_step_requests:
  "\<exists>evs. events (snd (generate_page_step env chapter page w))
           = events w @ map (\<lambda>p. ReadFile (page_file chapter p ''.json'')) [1..<page]
             @ ChatCompletion systemPrompt
                 (pagePrompt env (mgr w) chapter page
                    (join ''\<newline>'' (earlier_pages env w chapter page)))
             # evs"
proof -
  let ?reads = "map (\<lambda>p. ReadFile (page_file chapter p ''.json'')) [1..<page]"
  let ?prev = "earlier_pages env w chapter page"
  let ?w1 = "w\<lparr>events := events w @ ?reads\<rparr>"
  let ?chat = "ChatCompletion systemPrompt
                 (pagePrompt env (mgr w) chapter page (join ''\<newline>'' ?prev))"
  let ?w2 = "?w1\<lparr>events := events ?w1 @ [?chat]\<rparr>"
  let ?tail = "\<lambda>pageContent.
     bnd (legacy_saveProgress env pageContent chapter page) (\<lambda>_.
     bnd (modify (\<lambda>m. m\<lparr>bookContent := record_page chapter page pageContent (bookContent m)\<rparr>))
       (\<lambda>_.
     extractMetadata env pageContent))"
  have prev: "previous_pages env chapter [1..<page] w = (Inr ?prev, ?w1)"
    using previous_pages_from [of env "chapter" 1 page w] by (simp add: earlier_pages_def)
  have gen: "generatePage env chapter page (join ''\<newline>'' ?prev) ?w1
               = (respond env (length (events ?w1)) ?chat, ?w2)"
    by (simp add: generatePage_def run_simps)
  have tail: "appends (\<lambda>r. True) (?tail x)" for x
    by (intro appends_bnd appends_legacy_saveProgress appends_modify appends_extractMetadata)
  show ?thesis
  proof (cases "respond env (length (events ?w1)) ?chat")
    case (Inl e)
    with prev gen have "events (snd (generate_page_step env chapter page w))
        = events w @ ?reads @ ?chat # []"
      by (simp add: generate_page_step_def bnd_apply)
    then show ?thesis by blast
  next
    case (Inr x)
    have "\<exists>evs. events (snd (?tail x ?w2)) = events ?w2 @ evs \<and> list_all (\<lambda>r. True) evs"
      by (rule appendsD [OF tail surjective_pairing])
    then obtain evs where "events (snd (?tail x ?w2)) = events ?w2 @ evs"
      by auto
    with Inr prev gen have "events (snd (generate_page_step env chapter page w))
        = events w @ ?reads @ ?chat # evs"
      by (simp add: generate_page_step_def bnd_apply)
    then show ?thesis by blast
  qed
qed

lemma pagePrompt_parts:
  "\<exists>x0 f x1 x2. \<forall>env m previousPages.
         pagePrompt env m chapter page previousPages
           = x0 @ previousPages @ f (outline m)
             @ stringify env (characters_value (characters m))
             @ x1 @ stringify env (plotPoints_value (plotPoints m)) @ x2"
proof -
  have head: "a @ b @ c @ d @ e @ r = (a @ b @ c @ d @ e) @ r" for a b c d e r :: string
    by simp
  have "\<exists>x0 y0 y1 x1 x2. \<forall>env m previousPages.
         pagePrompt env m chapter page previousPages
           = x0 @ previousPages @ y0 @ outline_excerpt (outline m) chapter @ y1
             @ stringify env (characters_value (characters m))
             @ x1 @ stringify env (plotPoints_value (plotPoints m)) @ x2"
    unfolding pagePrompt_def
    by (subst head, intro exI allI, rule refl)
  then obtain x0 y0 y1 x1 x2 where eq: "\<And>env m previousPages.
         pagePrompt env m chapter page previousPages
           = x0 @ previousPages @ y0 @ outline_excerpt (outline m) chapter @ y1
             @ stringify env (characters_value (characters m))
             @ x1 @ stringify env (plotPoints_value (plotPoints m)) @ x2"
    by blast
  show ?thesis
    apply (rule exI [of _ x0])
    apply (rule exI [of _ "\<lambda>ol. y0 @ outline_excerpt ol chapter @ y1"])
    apply (rule exI [of _ x1])
    apply (rule exI [of _ x2])
    apply (simp add: eq)
    done
qed

lemma map_filter_all:
  "list_all (\<lambda>x. f x = Some (g x)) xs \<Longrightarrow> List.map_filter f xs = map g xs"
  by (induction xs) (simp_all add: map_filter_simps)

lemma earlier_pages_stored:
  assumes "\<forall>n q. \<exists>s. respond env n (ReadFile q) = Inr s"
    and "list_all (\<lambda>p. map_of (files w) (page_file chapter p ''.json'')
                        = Some (PageDoc chapter p (txt p))) [1..<page]"
  shows "earlier_pages env w chapter page = map txt [1..<page]"
  unfolding earlier_pages_def
proof (rule map_filter_all)
  have "page_text env (files w) n chapter p = Some (txt p)"
    if "map_of (files w) (page_file chapter p ''.json'') = Some (PageDoc chapter p (txt p))"
    for n p
  proof -
    from assms(1) obtain s where "respond env n (ReadFile (page_file chapter p ''.json'')) = Inr s"
      by blast
    with that show ?thesis by (simp add: page_text_def)
  qed
  with assms(2)
  show "list_all (\<lambda>p. page_text env (files w) (length (events w) + (p - 1)) chapter p
                        = Some (txt p)) [1..<page]"
    by (simp add: list_all_iff)
qed

text \<open>
  Claim C5 (as amended).  In the page loop of the single script (\<^verbatim>\<open>generateChapterPages\<close>),
  the step for \<open>(chapter, page)\<close> reads the files of the pages \<open>1..page - 1\<close> of the chapter in
  increasing page order and then asks the service with the prompt \<open>pagePrompt\<close>, built from
  the texts it got back, joined by newlines; a page whose file cannot be read, or is not
  JSON, is left out, and when every file is stored and read these are the texts of all
  earlier pages.  The prompt embeds, in this order and between fixed text, the previous
  pages, a part that depends on the outline and the chapter, the JSON text of the
  character table and the JSON text of the plot points.  A page iteration of
  \<^verbatim>\<open>createBookPageByPage\<close> of the refactored pipeline makes at most one request to the service,
  the completion for \<open>page_prompt\<close>, which holds the page number, the chapter number and the
  outline only.
\<close>

theorem page_prompt_context:
  "(\<exists>evs. events (snd (generate_page_step env chapter page w))
           = events w @ map (\<lambda>p. ReadFile (page_file chapter p ''.json'')) [1..<page]
             @ ChatCompletion systemPrompt
                 (pagePrompt env (mgr w) chapter page
                    (join ''\<newline>'' (earlier_pages env w chapter page)))
             # evs)
   \<and> ((\<forall>n q. \<exists>s. respond env n (ReadFile q) = Inr s)
       \<and> list_all (\<lambda>p. map_of (files w) (page_file chapter p ''.json'')
                         = Some (PageDoc chapter p (txt p))) [1..<page]
      \<longrightarrow> earlier_pages env w chapter page = map txt [1..<page])
   \<and> (\<exists>x0 f x1 x2. \<forall>env m previousPages.
         pagePrompt env m chapter page previousPages
           = x0 @ previousPages @ f (outline m)
             @ stringify env (characters_value (characters m))
             @ x1 @ stringify env (plotPoints_value (plotPoints m)) @ x2)
   \<and> (\<exists>evs. events (snd (page_iteration env progressCallback chapter page v)) = events v @ evs
         \<and> filter is_service_request evs
             \<in> {[], [ChatCompletion writer_system (page_prompt chapter page (outline (mgr v)))]})
   \<and> page_prompt chapter page ol
       = ''Write page '' @ show_nat page @ '' of chapter '' @ show_nat chapter
         @ ''. Use the following outline as context: '' @ outline_text ol"
proof (intro conjI impI)
  show "\<exists>evs. events (snd (generate_page_step env chapter page w))
           = events w @ map (\<lambda>p. ReadFile (page_file chapter p ''.json'')) [1..<page]
             @ ChatCompletion systemPrompt
                 (pagePrompt env (mgr w) chapter page
                    (join ''\<newline>'' (earlier_pages env w chapter page)))
             # evs"
    by (rule generate_page_step_requests)
next
  assume h: "(\<forall>n q. \<exists>s. respond env n (ReadFile q) = Inr s)
       \<and> list_all (\<lambda>p. map_of (files w) (page_file chapter p ''.json'')
                         = Some (PageDoc chapter p (txt p))) [1..<page]"
  show "earlier_pages env w chapter page = map txt [1..<page]"
    by (rule earlier_pages_stored [OF conjunct1 [OF h] conjunct2 [OF h]])
next
  show "\<exists>x0 f x1 x2. \<forall>env m previousPages.
         pagePrompt env m chapter page previousPages
           = x0 @ previousPages @ f (outline m)
             @ stringify env (characters_value (characters m))
             @ x1 @ stringify env (plotPoints_value (plotPoints m)) @ x2"
    by (rule pagePrompt_parts)
next
  show "\<exists>evs. events (snd (page_iteration env progressCallback chapter page v)) = events v @ evs
         \<and> filter is_service_request evs
             \<in> {[], [ChatCompletion writer_system (page_prompt chapter page (outline (mgr v)))]}"
    by (rule page_iteration_requests)
next
  show "page_prompt chapter page ol
       = ''Write page '' @ show_nat page @ '' of chapter '' @ show_nat chapter
         @ ''. Use the following outline as context: '' @ outline_text ol"
    by (simp add: page_prompt_def)
qed

text \<open>
  The claim as stated fails in both programs.  In the refactored pipeline, with page 1
  of chapter 1 written, the character \<open>Bob\<close> and the plot point \<open>The storm\<close> known, the request
  for page 2 of chapter 1 holds the outline and none of them.  In the single script, with
  the file of page 1 of chapter 1 stored but not readable, the request for page 2 is made
  with no previous pages.
\<close>

theorem page_prompt_context_counterexample:
  "bookContent (mgr narrated_world) = [(1, [(1, ''Once upon a time'')])]
   \<and> map fst (characters (mgr narrated_world)) = [''Bob'']
   \<and> plotPoints (mgr narrated_world) = [''The storm'']
   \<and> events (snd (page_iteration down_env False 1 2 narrated_world))
       = [ChatCompletion ''You are a professional book writer.''
            ''Write page 2 of chapter 1. Use the following outline as context: An outline'']
   \<and> files paged_world = [(''chapter1_page1.json'', PageDoc 1 1 ''Once upon a time'')]
   \<and> take 2 (events (snd (generate_page_step denied_env 1 2 paged_world)))
       = [ReadFile ''chapter1_page1.json'',
          ChatCompletion systemPrompt (pagePrompt denied_env (mgr paged_world) 1 2 [])]"
proof -
  have a: "bookContent (mgr narrated_world) = [(1, [(1, ''Once upon a time'')])]
   \<and> map fst (characters (mgr narrated_world)) = [''Bob'']
   \<and> plotPoints (mgr narrated_world) = [''The storm'']
   \<and> events (snd (page_iteration down_env False 1 2 narrated_world))
       = [ChatCompletion ''You are a professional book writer.''
            ''Write page 2 of chapter 1. Use the following outline as context: An outline'']"
    by (simp add: narrated_world_def fresh_world_def BookManager_def page_iteration_def run_simps
        down_env_simps page_prompt_def writer_system_def show_nat_small)
  have b: "files paged_world = [(''chapter1_page1.json'', PageDoc 1 1 ''Once upon a time'')]"
    by (simp add: paged_world_def fresh_world_def)
  have none: "earlier_pages denied_env paged_world 1 2 = []"
    by (simp add: earlier_pages_def page_text_def denied_env_simps upt_conv_Cons
        map_filter_simps)
  from generate_page_step_requests [of denied_env 1 2 paged_world]
  obtain evs where "events (snd (generate_page_step denied_env 1 2 paged_world))
        = events paged_world @ map (\<lambda>p. ReadFile (page_file 1 p ''.json'')) [1..<2]
          @ ChatCompletion systemPrompt
              (pagePrompt denied_env (mgr paged_world) 1 2
                 (join ''\<newline>'' (earlier_pages denied_env paged_world 1 2)))
          # evs"
    by blast
  note ev = this [unfolded none]
  have c: "take 2 (events (snd (generate_page_step denied_env 1 2 paged_world)))
       = [ReadFile ''chapter1_page1.json'',
          ChatCompletion systemPrompt (pagePrompt denied_env (mgr paged_world) 1 2 [])]"
    unfolding ev
    by (simp add: paged_world_def fresh_world_def page_file_def show_nat_small upt_conv_Cons)
  from a b c show ?thesis by (intro conjI) simp_all
qed

text \<open>
  The single script with the file of page 1 of chapter 1 stored and readable: the step
  for page 2 reads this file and asks with the text of page 1 as the previous pages.
\<close>

theorem page_prompt_context_witness:
  "(\<forall>n q. \<exists>s. respond down_env n (ReadFile q) = Inr s)
   \<and> list_all (\<lambda>p. map_of (files paged_world) (page_file 1 p ''.json'')
                     = Some (PageDoc 1 p ''Once upon a time'')) [1..<2]
   \<and> earlier_pages down_env paged_world 1 2 = [''Once upon a time'']
   \<and> take 2 (events (snd (generate_page_step down_env 1 2 paged_world)))
       = [ReadFile ''chapter1_page1.json'',
          ChatCompletion systemPrompt
            (pagePrompt down_env (mgr paged_world) 1 2 ''Once upon a time'')]"
proof -
  have reads: "\<forall>n q. \<exists>s. respond down_env n (ReadFile q) = Inr s"
    by (simp add: down_env_simps)
  have stored: "list_all (\<lambda>p. map_of (files paged_world) (page_file 1 p ''.json'')
                     = Some (PageDoc 1 p ''Once upon a time'')) [1..<2]"
    by (simp add: paged_world_def fresh_world_def page_file_def show_nat_small upt_conv_Cons)
  note T = page_prompt_context [of down_env 1 2 paged_world "\<lambda>p. ''Once upon a time''"]
  from T reads stored
  have prev: "earlier_pages down_env paged_world 1 2 = map (\<lambda>p. ''Once upon a time'') [1..<2]"
    by blast
  then have prev': "earlier_pages down_env paged_world 1 2 = [''Once upon a time'']"
    by (simp add: upt_conv_Cons)
  from T obtain evs where "events (snd (generate_page_step down_env 1 2 paged_world))
        = events paged_world @ map (\<lambda>p. ReadFile (page_file 1 p ''.json'')) [1..<2]
          @ ChatCompletion systemPrompt
              (pagePrompt down_env (mgr paged_world) 1 2
                 (join ''\<newline>'' (earlier_pages down_env paged_world 1 2)))
          # evs"
    by blast
  note ev = this [unfolded prev']
  have "take 2 (events (snd (generate_page_step down_env 1 2 paged_world)))
       = [ReadFile ''chapter1_page1.json'',
          ChatCompletion systemPrompt
            (pagePrompt down_env (mgr paged_world) 1 2 ''Once upon a time'')]"
    unfolding ev
    by (simp add: paged_world_def fresh_world_def page_file_def show_nat_small upt_conv_Cons)
  with reads stored prev' show ?thesis by (intro conjI)
qed

end
